theory Spec2Isabelle
  imports Complex_Main "HOL-Library.AList"
begin

section \<open>Tensors\<close>

text \<open>
  The buffer of \<^verbatim>\<open>experience.py\<close> stores \<^verbatim>\<open>torch\<close> tensors. A tensor is modelled
  as its shape and its elements in row-major order, which is how a contiguous tensor is
  laid out. Elements of the stored tensors are real numbers: rounding to 32-bit floats
  is outside the model. The conversion to the one integer element type of the buffer,
  the unsigned bytes of \<^verbatim>\<open>dones\<close>, is modelled. Python integers are \<open>int\<close>; array extents
  are \<open>nat\<close>.
\<close>

datatype 'a tensor = Tensor (shape: "nat list") (elems: "'a list")

datatype error =
  KeyError | IndexError | RuntimeError | AttributeError | TypeError | ZeroDivisionError

fun rbind :: "error + 'a \<Rightarrow> ('a \<Rightarrow> error + 'b) \<Rightarrow> error + 'b" where
  "rbind (Inl e) f = Inl e"
| "rbind (Inr x) f = f x"

definition tmap :: "('a \<Rightarrow> 'b) \<Rightarrow> 'a tensor \<Rightarrow> 'b tensor" where
  "tmap f t = Tensor (shape t) (map f (elems t))"

definition zeros :: "nat list \<Rightarrow> real tensor" where
  "zeros sh = Tensor sh (replicate (prod_list sh) 0)"

definition zeros_like :: "real tensor \<Rightarrow> real tensor" where
  "zeros_like t = zeros (shape t)"

text \<open>
  \<open>block n k xs\<close> is the \<open>k\<close>-th run of \<open>n\<close> elements of \<open>xs\<close>: the elements of the
  sub-tensor at index \<open>k\<close> of the leading axis when \<open>n\<close> is the number of elements of
  one such sub-tensor. \<open>put_block\<close> overwrites that run.
\<close>

definition block :: "nat \<Rightarrow> nat \<Rightarrow> 'a list \<Rightarrow> 'a list" where
  "block n k xs = take n (drop (k * n) xs)"

definition put_block :: "nat \<Rightarrow> nat \<Rightarrow> 'a list \<Rightarrow> 'a list \<Rightarrow> 'a list" where
  "put_block n k ys xs = take (k * n) xs @ ys @ drop ((k + 1) * n) xs"

text \<open>
  An integer index \<open>i\<close> into an axis of extent \<open>n\<close>: Python and torch accept
  \<open>-n \<le> i < n\<close>, a negative index counting from the end, and raise \<^verbatim>\<open>IndexError\<close>
  otherwise.
\<close>

definition norm_index :: "nat \<Rightarrow> int \<Rightarrow> nat option" where
  "norm_index n i =
     (if 0 \<le> i \<and> i < int n then Some (nat i)
      else if - int n \<le> i \<and> i < 0 then Some (nat (i + int n))
      else None)"

text \<open>\<^verbatim>\<open>x[i]\<close> for an integer \<open>i\<close>.\<close>

definition select0 :: "'a tensor \<Rightarrow> int \<Rightarrow> error + 'a tensor" where
  "select0 x i =
     (case shape x of
        [] \<Rightarrow> Inl IndexError
      | d # ds \<Rightarrow>
          (case norm_index d i of
             None \<Rightarrow> Inl IndexError
           | Some k \<Rightarrow> Inr (Tensor ds (block (prod_list ds) k (elems x)))))"

subsection \<open>Broadcasting\<close>

text \<open>
  Shapes are aligned at their last axis; the shorter one is padded with leading ones.
  A source axis can be expanded to a target axis when the extents agree or the source
  extent is one.
\<close>

definition pad_shape :: "nat \<Rightarrow> nat list \<Rightarrow> nat list" where
  "pad_shape n s = replicate (n - length s) 1 @ s"

fun expandable :: "nat list \<Rightarrow> nat list \<Rightarrow> bool" where
  "expandable [] [] = True"
| "expandable (s # ss) (d # ds) = ((s = d \<or> s = 1) \<and> expandable ss ds)"
| "expandable _ _ = False"

fun expand_elems :: "nat list \<Rightarrow> nat list \<Rightarrow> 'a list \<Rightarrow> 'a list" where
  "expand_elems (s # ss) (d # ds) xs =
     (if s = d
      then concat (map (\<lambda>i. expand_elems ss ds (block (prod_list ss) i xs)) [0..<s])
      else concat (replicate d (expand_elems ss ds xs)))"
| "expand_elems _ _ xs = xs"

definition expand :: "'a tensor \<Rightarrow> nat list \<Rightarrow> error + 'a tensor" where
  "expand x tgt =
     (let src = pad_shape (length tgt) (shape x)
      in if length (shape x) \<le> length tgt \<and> expandable src tgt
         then Inr (Tensor tgt (expand_elems src tgt (elems x)))
         else Inl RuntimeError)"

fun broadcast_shapes :: "nat list \<Rightarrow> nat list \<Rightarrow> nat list option" where
  "broadcast_shapes [] [] = Some []"
| "broadcast_shapes (a # as) (b # bs) =
     (if a = b \<or> b = 1 then map_option ((#) a) (broadcast_shapes as bs)
      else if a = 1 then map_option ((#) b) (broadcast_shapes as bs)
      else None)"
| "broadcast_shapes _ _ = None"

text \<open>An elementwise binary operation of two tensors (\<^verbatim>\<open>a + b\<close>, \<^verbatim>\<open>a * b\<close>, \<^verbatim>\<open>a - b\<close>).\<close>

definition binop :: "('a \<Rightarrow> 'b \<Rightarrow> 'c) \<Rightarrow> 'a tensor \<Rightarrow> 'b tensor \<Rightarrow> error + 'c tensor" where
  "binop f a b =
     (let n = max (length (shape a)) (length (shape b));
          sa = pad_shape n (shape a);
          sb = pad_shape n (shape b)
      in case broadcast_shapes sa sb of
           None \<Rightarrow> Inl RuntimeError
         | Some s \<Rightarrow>
             Inr (Tensor s (map2 f (expand_elems sa s (elems a)) (expand_elems sb s (elems b)))))"

text \<open>
  Assignment into an indexed tensor copies the value after broadcasting it to the shape
  of the indexed part; torch first strips the value's leading axes of extent one.
\<close>

definition copy_to :: "nat list \<Rightarrow> 'a tensor \<Rightarrow> error + 'a list" where
  "copy_to dst src =
     rbind (expand (Tensor (dropWhile (\<lambda>d. d = 1) (shape src)) (elems src)) dst)
       (\<lambda>r. Inr (elems r))"

text \<open>\<^verbatim>\<open>x[i] = v\<close> for an integer \<open>i\<close>.\<close>

definition setitem_index :: "'a tensor \<Rightarrow> int \<Rightarrow> 'a tensor \<Rightarrow> error + 'a tensor" where
  "setitem_index x i v =
     (case shape x of
        [] \<Rightarrow> Inl IndexError
      | d # ds \<Rightarrow>
          (case norm_index d i of
             None \<Rightarrow> Inl IndexError
           | Some k \<Rightarrow>
               rbind (copy_to ds v)
                 (\<lambda>ys. Inr (Tensor (d # ds) (put_block (prod_list ds) k ys (elems x))))))"

text \<open>\<^verbatim>\<open>x[i, :] = v\<close>: as above, but the tensor needs a second axis for the slice.\<close>

definition setitem_row :: "'a tensor \<Rightarrow> int \<Rightarrow> 'a tensor \<Rightarrow> error + 'a tensor" where
  "setitem_row x i v =
     (case shape x of
        d # e # ds \<Rightarrow>
          (case norm_index d i of
             None \<Rightarrow> Inl IndexError
           | Some k \<Rightarrow>
               rbind (copy_to (e # ds) v)
                 (\<lambda>ys. Inr (Tensor (d # e # ds) (put_block (prod_list (e # ds)) k ys (elems x)))))
      | _ \<Rightarrow> Inl IndexError)"

text \<open>
  A slice bound \<open>i\<close> on an axis of extent \<open>n\<close>: negative bounds count from the end, and
  bounds are clamped to the axis. \<^verbatim>\<open>x[start:end]\<close> never raises on a tensor with at
  least one axis.
\<close>

definition slice_bound :: "nat \<Rightarrow> int \<Rightarrow> nat" where
  "slice_bound n i = (if i < 0 then nat (max 0 (int n + i)) else min (nat i) n)"

definition slice0 :: "'a tensor \<Rightarrow> int \<Rightarrow> int \<Rightarrow> error + 'a tensor" where
  "slice0 x start end' =
     (case shape x of
        [] \<Rightarrow> Inl IndexError
      | d # ds \<Rightarrow>
          (let a = slice_bound d start; b = slice_bound d end'
           in Inr (Tensor ((b - a) # ds)
                 (take ((b - a) * prod_list ds) (drop (a * prod_list ds) (elems x))))))"

text \<open>\<^verbatim>\<open>x[start:end] = v\<close>.\<close>

definition setitem_slice :: "'a tensor \<Rightarrow> int \<Rightarrow> int \<Rightarrow> 'a tensor \<Rightarrow> error + 'a tensor" where
  "setitem_slice x start end' v =
     (case shape x of
        [] \<Rightarrow> Inl IndexError
      | d # ds \<Rightarrow>
          (let a = slice_bound d start; b = slice_bound d end'
           in rbind (copy_to ((b - a) # ds) v)
                (\<lambda>ys. Inr (Tensor (d # ds)
                   (take (a * prod_list ds) (elems x) @ ys @
                    drop ((a + (b - a)) * prod_list ds) (elems x))))))"

text \<open>\<^verbatim>\<open>x.unsqueeze(1)\<close> and \<^verbatim>\<open>x.squeeze(1)\<close>.\<close>

definition unsqueeze1 :: "'a tensor \<Rightarrow> error + 'a tensor" where
  "unsqueeze1 x =
     (case shape x of
        [] \<Rightarrow> Inl IndexError
      | d # ds \<Rightarrow> Inr (Tensor (d # 1 # ds) (elems x)))"

definition squeeze1 :: "'a tensor \<Rightarrow> error + 'a tensor" where
  "squeeze1 x =
     (case shape x of
        d # e # ds \<Rightarrow> Inr (if e = 1 then Tensor (d # ds) (elems x) else x)
      | _ \<Rightarrow> Inl IndexError)"

section \<open>The experience buffer\<close>

text \<open>
  Dictionaries keep their insertion order and are association lists; a missing key
  raises \<^verbatim>\<open>KeyError\<close>.
\<close>

definition dict_get :: "(string \<times> 'v) list \<Rightarrow> string \<Rightarrow> error + 'v" where
  "dict_get d k = (case map_of d k of None \<Rightarrow> Inl KeyError | Some v \<Rightarrow> Inr v)"

text \<open>
  The object's attributes. \<open>data_dict\<close> is \<^verbatim>\<open>None\<close> until \<open>prepare_training\<close> runs, and
  \<open>last_range\<close> does not exist until the first \<^verbatim>\<open>__getitem__\<close>; both are options. The
  device plays no part and is left out. The elements of the training view are
  \<open>real option\<close>, \<open>None\<close> standing for NaN, which the normalisation of a single sample
  produces.
\<close>

record buffer =
  num_envs :: nat
  transitions_per_env :: nat
  priv_info_dim :: nat
  data_dict :: "(string \<times> real option tensor) list option"
  obs_dim :: nat
  act_dim :: nat
  priv_dim :: nat
  point_cloud_dim :: nat
  storage_dict :: "(string \<times> real tensor) list"
  batch_size :: int
  minibatch_size :: int
  length' :: int
  last_range :: "(int \<times> int) option"

text \<open>
  \<^verbatim>\<open>__init__\<close>. The integer division \<^verbatim>\<open>batch_size // minibatch_size\<close> is floor division
  and raises on a zero divisor; nothing else is checked.
\<close>

definition init ::
  "nat \<Rightarrow> nat \<Rightarrow> int \<Rightarrow> int \<Rightarrow> nat \<Rightarrow> nat \<Rightarrow> nat \<Rightarrow> nat \<Rightarrow> error + buffer" where
  "init n_envs horizon_length b_size mb_size o_dim a_dim p_dim pc_dim =
     (if mb_size = 0 then Inl ZeroDivisionError
      else Inr \<lparr>
        num_envs = n_envs,
        transitions_per_env = horizon_length,
        priv_info_dim = p_dim,
        data_dict = None,
        obs_dim = o_dim,
        act_dim = a_dim,
        priv_dim = p_dim,
        point_cloud_dim = pc_dim,
        storage_dict =
          [(''obses'', zeros [horizon_length, n_envs, o_dim]),
           (''priv_info'', zeros [horizon_length, n_envs, p_dim]),
           (''point_cloud_info'', zeros [horizon_length, n_envs, pc_dim, 3]),
           (''rewards'', zeros [horizon_length, n_envs, 1]),
           (''values'', zeros [horizon_length, n_envs, 1]),
           (''neglogpacs'', zeros [horizon_length, n_envs]),
           (''dones'', zeros [horizon_length, n_envs]),
           (''actions'', zeros [horizon_length, n_envs, a_dim]),
           (''mus'', zeros [horizon_length, n_envs, a_dim]),
           (''sigmas'', zeros [horizon_length, n_envs, a_dim]),
           (''returns'', zeros [horizon_length, n_envs, 1])],
        batch_size = b_size,
        minibatch_size = mb_size,
        length' = b_size div mb_size,
        last_range = None \<rparr>)"

text \<open>\<^verbatim>\<open>__len__\<close>.\<close>

definition len :: "buffer \<Rightarrow> int" where
  "len b = length' b"

text \<open>
  Element types. \<^verbatim>\<open>__init__\<close> allocates \<^verbatim>\<open>dones\<close> as \<^verbatim>\<open>torch.uint8\<close> and every other
  field as \<^verbatim>\<open>torch.float32\<close>. The tensors are assigned into and never replaced, so the
  element type of a stored tensor is that of its key. An assignment converts the elements
  of the value to the element type of the tensor assigned into: to \<^verbatim>\<open>float32\<close> by
  rounding, which is the identity here, and to \<^verbatim>\<open>uint8\<close> by dropping the fraction and
  keeping the low eight bits, so that \<open>1/2\<close> becomes \<open>0\<close>, \<open>256\<close> becomes \<open>0\<close> and \<open>-1\<close>
  becomes \<open>255\<close>.
\<close>

datatype dtype = Float32 | UInt8

definition field_dtype :: "string \<Rightarrow> dtype" where
  "field_dtype name = (if name = ''dones'' then UInt8 else Float32)"

definition trunc :: "real \<Rightarrow> int" where
  "trunc x = (if 0 \<le> x then \<lfloor>x\<rfloor> else \<lceil>x\<rceil>)"

definition cast :: "dtype \<Rightarrow> real \<Rightarrow> real" where
  "cast d x = (case d of Float32 \<Rightarrow> x | UInt8 \<Rightarrow> of_int (trunc x mod 256))"

text \<open>\<open>convert name v\<close> is the value \<open>v\<close> with the element type of the field \<open>name\<close>.\<close>

definition convert :: "string \<Rightarrow> real tensor \<Rightarrow> real tensor" where
  "convert name v = tmap (cast (field_dtype name)) v"

text \<open>
  Aliasing. \<^verbatim>\<open>reshape\<close> returns a view of its argument when it can. \<open>transform_op\<close>
  reshapes the transposed tensor, and that can be viewed in the merged shape exactly when
  one of the two swapped axes has extent one (a tensor without elements apart, where it
  makes no difference); the flattened tensor then shares its elements, in the same
  order, with the stored one. So when the horizon length or the number of environments
  is one, an entry of \<open>data_dict\<close> is an alias of the entry of \<open>storage_dict\<close> under
  the same key, and an assignment into one is an assignment into the other. The model
  keeps the two dictionaries apart and makes the assignment on both when they share:
  on the elements of the other tensor, read through the shape of the assigned one.
\<close>

definition reshape_is_view :: "nat list \<Rightarrow> bool" where
  "reshape_is_view sh = (case sh of s0 # s1 # rest \<Rightarrow> s0 = 1 \<or> s1 = 1 | _ \<Rightarrow> False)"

definition alias_row ::
  "string \<Rightarrow> nat list \<Rightarrow> int \<Rightarrow> real tensor \<Rightarrow> (string \<times> real option tensor) list
     \<Rightarrow> (string \<times> real option tensor) list" where
  "alias_row name sh index v dd =
     (case map_of dd name of
        None \<Rightarrow> dd
      | Some y \<Rightarrow>
          if reshape_is_view sh
          then (case setitem_row (Tensor sh (elems y)) index (tmap Some v) of
                  Inl _ \<Rightarrow> dd
                | Inr y' \<Rightarrow> AList.update name (Tensor (shape y) (elems y')) dd)
          else dd)"

definition alias_slice ::
  "string \<Rightarrow> nat list \<Rightarrow> int \<Rightarrow> int \<Rightarrow> real tensor \<Rightarrow> (string \<times> real tensor) list
     \<Rightarrow> (string \<times> real tensor) list" where
  "alias_slice name sh start end' v sd =
     (case map_of sd name of
        None \<Rightarrow> sd
      | Some x \<Rightarrow>
          if reshape_is_view (shape x)
          then (case setitem_slice (Tensor sh (elems x)) start end' v of
                  Inl _ \<Rightarrow> sd
                | Inr x' \<Rightarrow> AList.update name (Tensor (shape x) (elems x')) sd)
          else sd)"

text \<open>
  \<^verbatim>\<open>self.storage_dict[name][index, :] = v\<close>, the assignment that \<open>update_data\<close> and
  \<open>computer_return\<close> make.
\<close>

definition store_row :: "buffer \<Rightarrow> string \<Rightarrow> int \<Rightarrow> real tensor \<Rightarrow> error + buffer" where
  "store_row b name index v =
     rbind (dict_get (storage_dict b) name) (\<lambda>x.
     rbind (setitem_row x index (convert name v)) (\<lambda>x'.
     Inr (b\<lparr>storage_dict := AList.update name x' (storage_dict b),
            data_dict :=
              map_option (alias_row name (shape x) index (convert name v)) (data_dict b)\<rparr>)))"

text \<open>
  \<^verbatim>\<open>x[k][index, :] = v\<close> for an integer \<open>k\<close>: \<^verbatim>\<open>x[k]\<close> is a view of \<open>x\<close>, so the assignment
  into it is an assignment into \<open>x\<close>.
\<close>

definition setitem_item :: "'a tensor \<Rightarrow> int \<Rightarrow> int \<Rightarrow> 'a tensor \<Rightarrow> error + 'a tensor" where
  "setitem_item x k index v =
     (case shape x of
        [] \<Rightarrow> Inl IndexError
      | d # ds \<Rightarrow>
          (case norm_index d k of
             None \<Rightarrow> Inl IndexError
           | Some j \<Rightarrow>
               rbind (setitem_row (Tensor ds (block (prod_list ds) j (elems x))) index v)
                 (\<lambda>sub. Inr (Tensor (d # ds) (put_block (prod_list ds) j (elems sub) (elems x))))))"

definition alias_item ::
  "string \<Rightarrow> nat list \<Rightarrow> int \<Rightarrow> int \<Rightarrow> real tensor \<Rightarrow> (string \<times> real option tensor) list
     \<Rightarrow> (string \<times> real option tensor) list" where
  "alias_item name sh k index v dd =
     (case map_of dd name of
        None \<Rightarrow> dd
      | Some y \<Rightarrow>
          if reshape_is_view sh
          then (case setitem_item (Tensor sh (elems y)) k index (tmap Some v) of
                  Inl _ \<Rightarrow> dd
                | Inr y' \<Rightarrow> AList.update name (Tensor (shape y) (elems y')) dd)
          else dd)"

text \<open>
  \<^verbatim>\<open>update_data\<close>. Every method that changes the object returns its result, or the
  error it raised, together with the object as the call left it. A value is a tensor or
  a dictionary of tensors; the keys of the dictionary are strings or integers. No entry
  of \<open>storage_dict\<close> is a dictionary, so in the dictionary branch
  \<^verbatim>\<open>self.storage_dict[name][k]\<close> indexes a tensor with the key: a string key raises
  \<^verbatim>\<open>TypeError\<close>, and an integer key selects the timestep \<open>k\<close>, in which
  \<^verbatim>\<open>[index, :] = v\<close> then assigns to the environment \<open>index\<close>. The loop runs over the
  items in their order and stops at the first that raises; what the items before it
  assigned stays assigned. On an empty dictionary the loop body never runs.
\<close>

datatype key = Str_key string | Int_key int

datatype val = Array "real tensor" | Dict "(key \<times> real tensor) list"

definition store_item :: "buffer \<Rightarrow> string \<Rightarrow> key \<Rightarrow> int \<Rightarrow> real tensor \<Rightarrow> error + buffer" where
  "store_item b name k index v =
     rbind (dict_get (storage_dict b) name) (\<lambda>x.
     case k of
       Str_key s \<Rightarrow> Inl TypeError
     | Int_key i \<Rightarrow>
         rbind (setitem_item x i index (convert name v)) (\<lambda>x'.
         Inr (b\<lparr>storage_dict := AList.update name x' (storage_dict b),
                data_dict :=
                  map_option (alias_item name (shape x) i index (convert name v))
                    (data_dict b)\<rparr>)))"

fun update_items ::
  "buffer \<Rightarrow> string \<Rightarrow> int \<Rightarrow> (key \<times> real tensor) list \<Rightarrow> (error + unit) \<times> buffer" where
  "update_items b name index [] = (Inr (), b)"
| "update_items b name index ((k, v) # kvs) =
     (case store_item b name k index v of
        Inl e \<Rightarrow> (Inl e, b)
      | Inr b' \<Rightarrow> update_items b' name index kvs)"

definition update_data :: "buffer \<Rightarrow> string \<Rightarrow> int \<Rightarrow> val \<Rightarrow> (error + unit) \<times> buffer" where
  "update_data b name index v =
     (case v of
        Dict kvs \<Rightarrow> update_items b name index kvs
      | Array a \<Rightarrow>
          (case store_row b name index a of
             Inl e \<Rightarrow> (Inl e, b)
           | Inr b' \<Rightarrow> (Inr (), b')))"

text \<open>
  \<^verbatim>\<open>computer_return\<close>. One pass of the loop body is \<open>gae_step\<close>: it reads the storage,
  updates the local \<^verbatim>\<open>mb_advs\<close> and \<^verbatim>\<open>last_gae_lam\<close>, and ends with the one assignment
  into the storage. The Python number \<open>0\<close> that \<^verbatim>\<open>last_gae_lam\<close> starts as is the
  tensor without axes; \<open>gamma\<close> and \<open>tau\<close> are numbers.
\<close>

definition gae_step ::
  "real \<Rightarrow> real \<Rightarrow> real tensor \<Rightarrow> buffer \<Rightarrow> nat \<Rightarrow> real tensor \<Rightarrow> real tensor
     \<Rightarrow> error + buffer \<times> real tensor \<times> real tensor" where
  "gae_step gamma tau last_values b t mb_advs last_gae_lam =
     rbind (if int t = int (transitions_per_env b) - 1 then Inr last_values
            else rbind (dict_get (storage_dict b) ''values'') (\<lambda>x. select0 x (int t + 1)))
       (\<lambda>next_values.
     rbind (dict_get (storage_dict b) ''dones'') (\<lambda>dones.
     rbind (select0 dones (int t)) (\<lambda>d.
     rbind (unsqueeze1 (tmap (\<lambda>x. 1 - x) d)) (\<lambda>next_nonterminal.
     rbind (dict_get (storage_dict b) ''rewards'') (\<lambda>rewards.
     rbind (select0 rewards (int t)) (\<lambda>r.
     rbind (binop (*) (tmap (\<lambda>x. gamma * x) next_values) next_nonterminal) (\<lambda>gvn.
     rbind (binop (+) r gvn) (\<lambda>rgvn.
     rbind (dict_get (storage_dict b) ''values'') (\<lambda>vals.
     rbind (select0 vals (int t)) (\<lambda>v.
     rbind (binop (-) rgvn v) (\<lambda>delta.
     rbind (binop (*) (tmap (\<lambda>x. gamma * tau * x) next_nonterminal) last_gae_lam) (\<lambda>gtl.
     rbind (binop (+) delta gtl) (\<lambda>g.
     rbind (setitem_index mb_advs (int t) g) (\<lambda>mb_advs'.
     rbind (select0 mb_advs' (int t)) (\<lambda>adv.
     rbind (dict_get (storage_dict b) ''values'') (\<lambda>vals'.
     rbind (select0 vals' (int t)) (\<lambda>v'.
     rbind (binop (+) adv v') (\<lambda>ret.
     rbind (store_row b ''returns'' (int t) ret) (\<lambda>b'.
     Inr (b', mb_advs', g))))))))))))))))))))"

fun gae_loop ::
  "real \<Rightarrow> real \<Rightarrow> real tensor \<Rightarrow> nat list \<Rightarrow> buffer \<Rightarrow> real tensor \<Rightarrow> real tensor
     \<Rightarrow> (error + unit) \<times> buffer" where
  "gae_loop gamma tau last_values [] b mb_advs last_gae_lam = (Inr (), b)"
| "gae_loop gamma tau last_values (t # ts) b mb_advs last_gae_lam =
     (case gae_step gamma tau last_values b t mb_advs last_gae_lam of
        Inl e \<Rightarrow> (Inl e, b)
      | Inr (b', mb_advs', last_gae_lam') \<Rightarrow>
          gae_loop gamma tau last_values ts b' mb_advs' last_gae_lam')"

definition computer_return ::
  "buffer \<Rightarrow> real tensor \<Rightarrow> real \<Rightarrow> real \<Rightarrow> (error + unit) \<times> buffer" where
  "computer_return b last_values gamma tau =
     (case dict_get (storage_dict b) ''rewards'' of
        Inl e \<Rightarrow> (Inl e, b)
      | Inr rewards \<Rightarrow>
          gae_loop gamma tau last_values (rev [0..<transitions_per_env b]) b
            (zeros_like rewards) (Tensor [] [0]))"

text \<open>
  \<^verbatim>\<open>transform_op\<close>: swap the first two axes, then merge them. The element at
  \<open>(t, e)\<close> of the argument is the element at \<open>e * s0 + t\<close> of the result.
\<close>

fun transform_op :: "'a tensor option \<Rightarrow> error + 'a tensor option" where
  "transform_op None = Inr None"
| "transform_op (Some arr) =
     (case shape arr of
        s0 # s1 # rest \<Rightarrow>
          Inr (Some (Tensor ((s0 * s1) # rest)
            (concat (map (\<lambda>e. concat (map (\<lambda>t. block (prod_list rest) (t * s1 + e) (elems arr))
                                          [0..<s0]))
                         [0..<s1]))))
      | _ \<Rightarrow> Inl IndexError)"

text \<open>
  \<^verbatim>\<open>mean()\<close> and \<^verbatim>\<open>std()\<close> of all elements; \<^verbatim>\<open>std\<close> divides by \<open>n - 1\<close>. Where torch
  returns NaN (no element, or a single one for \<^verbatim>\<open>std\<close>) the model returns \<open>None\<close>.
\<close>

definition mean :: "real list \<Rightarrow> real option" where
  "mean xs = (if xs = [] then None else Some (sum_list xs / real (length xs)))"

definition std :: "real list \<Rightarrow> real option" where
  "std xs =
     (case mean xs of
        None \<Rightarrow> None
      | Some m \<Rightarrow>
          if length xs < 2 then None
          else Some (sqrt (sum_list (map (\<lambda>x. (x - m)\<^sup>2) xs) / real (length xs - 1))))"

definition normalize_advantages :: "real tensor \<Rightarrow> real option tensor" where
  "normalize_advantages a =
     tmap (\<lambda>x. case (mean (elems a), std (elems a)) of
                 (Some m, Some s) \<Rightarrow> Some ((x - m) / (s + 1 / 10 ^ 8))
               | _ \<Rightarrow> None) a"

text \<open>
  \<^verbatim>\<open>prepare_training\<close>. The loop fills the new dictionary entry by entry, so an error
  leaves it partly filled. A stored field is a tensor, never \<^verbatim>\<open>None\<close>, so
  \<open>transform_op\<close> returns a tensor for it.
\<close>

fun transform_items ::
  "(string \<times> real tensor) list \<Rightarrow> (string \<times> real tensor) list
     \<Rightarrow> error option \<times> (string \<times> real tensor) list" where
  "transform_items [] dd = (None, dd)"
| "transform_items ((k, v) # kvs) dd =
     (case transform_op (Some v) of
        Inl e \<Rightarrow> (Some e, dd)
      | Inr None \<Rightarrow> (Some TypeError, dd)
      | Inr (Some w) \<Rightarrow> transform_items kvs (AList.update k w dd))"

definition view :: "(string \<times> real tensor) list \<Rightarrow> (string \<times> real option tensor) list" where
  "view dd = map (\<lambda>(k, x). (k, tmap Some x)) dd"

definition prepare_training ::
  "buffer \<Rightarrow> (error + (string \<times> real option tensor) list) \<times> buffer" where
  "prepare_training b =
     (case transform_items (storage_dict b) [] of
        (Some e, dd) \<Rightarrow> (Inl e, b\<lparr>data_dict := Some (view dd)\<rparr>)
      | (None, dd) \<Rightarrow>
          (case rbind (dict_get dd ''returns'') (\<lambda>returns.
                rbind (dict_get dd ''values'') (\<lambda>vals.
                rbind (binop (-) returns vals) (\<lambda>advantages.
                squeeze1 (normalize_advantages advantages)))) of
             Inl e \<Rightarrow> (Inl e, b\<lparr>data_dict := Some (view dd)\<rparr>)
           | Inr adv \<Rightarrow>
               (let dd' = AList.update ''advantages'' adv (view dd)
                in (Inr dd', b\<lparr>data_dict := Some dd'\<rparr>))))"

text \<open>
  \<^verbatim>\<open>__getitem__\<close>. The range is recorded before the training view is read, so it is
  recorded even when the call then fails. No entry of the view is a dictionary, so only
  the tensor branch of the loop is modelled.
\<close>

fun slice_items ::
  "(string \<times> 'a tensor) list \<Rightarrow> int \<Rightarrow> int \<Rightarrow> (string \<times> 'a tensor) list
     \<Rightarrow> error + (string \<times> 'a tensor) list" where
  "slice_items [] start end' input_dict = Inr input_dict"
| "slice_items ((k, v) # kvs) start end' input_dict =
     rbind (slice0 v start end')
       (\<lambda>w. slice_items kvs start end' (AList.update k w input_dict))"

type_synonym 'a minibatch =
  "'a tensor \<times> 'a tensor \<times> 'a tensor \<times> 'a tensor \<times> 'a tensor \<times>
   'a tensor \<times> 'a tensor \<times> 'a tensor \<times> 'a tensor \<times> 'a tensor"

definition getitem :: "buffer \<Rightarrow> int \<Rightarrow> (error + real option minibatch) \<times> buffer" where
  "getitem b idx =
     (let start = idx * minibatch_size b;
          end' = (idx + 1) * minibatch_size b;
          b' = b\<lparr>last_range := Some (start, end')\<rparr>
      in (case data_dict b' of
            None \<Rightarrow> Inl AttributeError
          | Some dd \<Rightarrow>
              rbind (slice_items dd start end' []) (\<lambda>input_dict.
              rbind (dict_get input_dict ''values'') (\<lambda>x1.
              rbind (dict_get input_dict ''neglogpacs'') (\<lambda>x2.
              rbind (dict_get input_dict ''advantages'') (\<lambda>x3.
              rbind (dict_get input_dict ''mus'') (\<lambda>x4.
              rbind (dict_get input_dict ''sigmas'') (\<lambda>x5.
              rbind (dict_get input_dict ''returns'') (\<lambda>x6.
              rbind (dict_get input_dict ''actions'') (\<lambda>x7.
              rbind (dict_get input_dict ''obses'') (\<lambda>x8.
              rbind (dict_get input_dict ''priv_info'') (\<lambda>x9.
              rbind (dict_get input_dict ''point_cloud_info'') (\<lambda>x10.
              Inr (x1, x2, x3, x4, x5, x6, x7, x8, x9, x10)))))))))))),
          b'))"

text \<open>
  \<^verbatim>\<open>update_mu_sigma\<close>. Reading \<open>last_range\<close> before any \<^verbatim>\<open>__getitem__\<close> raises
  \<^verbatim>\<open>AttributeError\<close>; subscripting a \<open>data_dict\<close> that is still \<^verbatim>\<open>None\<close> raises
  \<^verbatim>\<open>TypeError\<close>. The two assignments run in turn, so a failure of the second leaves the
  first in place.
\<close>

definition set_view_slice ::
  "buffer \<Rightarrow> string \<Rightarrow> int \<Rightarrow> int \<Rightarrow> real tensor \<Rightarrow> (error + unit) \<times> buffer" where
  "set_view_slice b name start end' v =
     (case data_dict b of
        None \<Rightarrow> (Inl TypeError, b)
      | Some dd \<Rightarrow>
          (case dict_get dd name of
             Inl e \<Rightarrow> (Inl e, b)
           | Inr y \<Rightarrow>
               (case setitem_slice y start end' (tmap Some v) of
                  Inl e \<Rightarrow> (Inl e, b)
                | Inr y' \<Rightarrow>
                    (Inr (),
                     b\<lparr>data_dict := Some (AList.update name y' dd),
                       storage_dict :=
                         alias_slice name (shape y) start end' v (storage_dict b)\<rparr>))))"

definition update_mu_sigma ::
  "buffer \<Rightarrow> real tensor \<Rightarrow> real tensor \<Rightarrow> (error + unit) \<times> buffer" where
  "update_mu_sigma b mu sigma =
     (case last_range b of
        None \<Rightarrow> (Inl AttributeError, b)
      | Some (start, end') \<Rightarrow>
          (case set_view_slice b ''mus'' start end' mu of
             (Inl e, b') \<Rightarrow> (Inl e, b')
           | (Inr _, b') \<Rightarrow> set_view_slice b' ''sigmas'' start end' sigma))"

section \<open>Well-formed buffers and what is read from them\<close>

text \<open>
  The shapes \<^verbatim>\<open>__init__\<close> allocates, in the order of the dictionary. A buffer is
  well-formed when its storage has exactly these keys and shapes and every tensor holds
  as many elements as its shape says. \<open>update_data\<close> and \<open>computer_return\<close> assign
  into the tensors and never replace them, so every buffer the class produces is
  well-formed.
\<close>

definition layout :: "buffer \<Rightarrow> (string \<times> nat list) list" where
  "layout b =
     (let T = transitions_per_env b; E = num_envs b
      in [(''obses'', [T, E, obs_dim b]),
          (''priv_info'', [T, E, priv_dim b]),
          (''point_cloud_info'', [T, E, point_cloud_dim b, 3]),
          (''rewards'', [T, E, 1]),
          (''values'', [T, E, 1]),
          (''neglogpacs'', [T, E]),
          (''dones'', [T, E]),
          (''actions'', [T, E, act_dim b]),
          (''mus'', [T, E, act_dim b]),
          (''sigmas'', [T, E, act_dim b]),
          (''returns'', [T, E, 1])])"

definition well_shaped :: "'a tensor \<Rightarrow> bool" where
  "well_shaped x \<longleftrightarrow> length (elems x) = prod_list (shape x)"

definition wf_buffer :: "buffer \<Rightarrow> bool" where
  "wf_buffer b \<longleftrightarrow>
     map (\<lambda>(k, x). (k, shape x)) (storage_dict b) = layout b
     \<and> list_all (\<lambda>(k, x). well_shaped x) (storage_dict b)"

text \<open>
  \<open>stored b name t e\<close> is what the field \<open>name\<close> holds for timestep \<open>t\<close> and
  environment \<open>e\<close>: the elements of \<^verbatim>\<open>storage_dict[name][t, e]\<close>. \<open>scalar b name t e\<close> is
  the number there, for the fields that hold one number per step and environment.
\<close>

definition stored :: "buffer \<Rightarrow> string \<Rightarrow> nat \<Rightarrow> nat \<Rightarrow> real list" where
  "stored b name t e =
     (case map_of (storage_dict b) name of
        None \<Rightarrow> []
      | Some x \<Rightarrow> block (prod_list (drop 2 (shape x))) (t * num_envs b + e) (elems x))"

definition scalar :: "buffer \<Rightarrow> string \<Rightarrow> nat \<Rightarrow> nat \<Rightarrow> real" where
  "scalar b name t e =
     (case map_of (storage_dict b) name of
        None \<Rightarrow> 0
      | Some x \<Rightarrow> elems x ! (t * num_envs b + e))"

text \<open>
  \<open>viewed dd name i\<close> is the sample at flattened index \<open>i\<close> of the field \<open>name\<close> of a
  training view: the elements of \<^verbatim>\<open>data_dict[name][i]\<close>. \<open>flat_index\<close> is the flattened
  index of timestep \<open>t\<close> and environment \<open>e\<close>.
\<close>

definition viewed :: "(string \<times> 'a tensor) list \<Rightarrow> string \<Rightarrow> nat \<Rightarrow> 'a list" where
  "viewed dd name i =
     (case map_of dd name of
        None \<Rightarrow> []
      | Some x \<Rightarrow> block (prod_list (tl (shape x))) i (elems x))"

definition flat_index :: "buffer \<Rightarrow> nat \<Rightarrow> nat \<Rightarrow> nat" where
  "flat_index b t e = e * transitions_per_env b + t"

section \<open>Generalised advantage estimation, as specified\<close>

text \<open>
  The backward recursion in the words of the specification, for one environment:
  \<open>reward\<close>, \<open>value\<close> and \<open>done\<close> give the stored numbers by timestep, \<open>bootstrap\<close>
  is the value after the last step and \<open>T\<close> the horizon length. \<open>last_gae \<dots> t\<close> is
  the accumulator after the pass for timestep \<open>t\<close>; it is zero before the first pass,
  that is, at \<open>t = T\<close>.
\<close>

function last_gae ::
  "(nat \<Rightarrow> real) \<Rightarrow> (nat \<Rightarrow> real) \<Rightarrow> (nat \<Rightarrow> real) \<Rightarrow> real \<Rightarrow> real \<Rightarrow> real \<Rightarrow> nat \<Rightarrow> nat \<Rightarrow> real"
  where
  "last_gae reward value done bootstrap gamma tau T t =
     (if T \<le> t then 0
      else
        let next_value = (if t = T - 1 then bootstrap else value (t + 1));
            nonterminal = 1 - done t;
            delta = reward t + gamma * next_value * nonterminal - value t
        in delta + gamma * tau * nonterminal
             * last_gae reward value done bootstrap gamma tau T (t + 1))"
  by pat_completeness auto
termination
  by (relation "measure (\<lambda>(reward, value, done, bootstrap, gamma, tau, T, t). T - t)") auto

declare last_gae.simps [simp del]

section \<open>The loop body, row by row\<close>

text \<open>
  One pass of the loop of \<open>computer_return\<close> on the rows of a timestep, as lists over
  the environments: \<open>step_row\<close> is the arithmetic of the pass, given the rows of
  rewards, values and dones, the next values and the previous accumulator;
  \<open>gae_row\<close> is the row of \<open>last_gae\<close> over the environments.
\<close>

definition step_row ::
  "real \<Rightarrow> real \<Rightarrow> real list \<Rightarrow> real list \<Rightarrow> real list \<Rightarrow> real list \<Rightarrow> real list \<Rightarrow> real list" where
  "step_row gamma tau r v d nv prev =
     map2 (+)
       (map2 (-) (map2 (+) r (map2 (*) (map (\<lambda>x. gamma * x) nv) (map (\<lambda>x. 1 - x) d))) v)
       (map2 (*) (map (\<lambda>x. gamma * tau * x) (map (\<lambda>x. 1 - x) d)) prev)"

definition gae_row ::
  "real \<Rightarrow> real \<Rightarrow> nat \<Rightarrow> nat \<Rightarrow> real list \<Rightarrow> real list \<Rightarrow> real list \<Rightarrow> real list \<Rightarrow> nat
     \<Rightarrow> real list" where
  "gae_row gamma tau T E rs vs ds lv t =
     map (\<lambda>e. last_gae (\<lambda>t. rs ! (t * E + e)) (\<lambda>t. vs ! (t * E + e)) (\<lambda>t. ds ! (t * E + e))
                 (lv ! e) gamma tau T t) [0..<E]"

section \<open>The frame of \<open>computer_return\<close>\<close>

text \<open>
  \<open>only_returns_assigned b b'\<close>: the buffer \<open>b'\<close> differs from \<open>b\<close> at most in the
  tensor stored under \<^verbatim>\<open>returns\<close> and in the tensor of the training view under that
  key, which may share its elements.
\<close>

definition only_returns_assigned :: "buffer \<Rightarrow> buffer \<Rightarrow> bool" where
  "only_returns_assigned b b' \<longleftrightarrow>
     b' = b\<lparr>storage_dict := storage_dict b', data_dict := data_dict b'\<rparr>
     \<and> map fst (storage_dict b') = map fst (storage_dict b)
     \<and> AList.delete ''returns'' (storage_dict b') = AList.delete ''returns'' (storage_dict b)
     \<and> map_option (map fst) (data_dict b') = map_option (map fst) (data_dict b)
     \<and> map_option (AList.delete ''returns'') (data_dict b')
         = map_option (AList.delete ''returns'') (data_dict b)"

section \<open>Example buffers\<close>

text \<open>
  A buffer of two timesteps and one environment as the constructor returns it; the same
  after rewards of \<open>1\<close> at both steps and a value of \<open>2\<close> at the second step have
  been written; and that rollout with both steps marked done.
\<close>

definition example_buffer :: buffer where
  "example_buffer = projr (init 1 2 2 1 1 1 1 1)"

definition example_rollout :: buffer where
  "example_rollout =
     snd (update_data
       (snd (update_data
         (snd (update_data example_buffer ''rewards'' 0 (Array (Tensor [1, 1] [1]))))
         ''rewards'' 1 (Array (Tensor [1, 1] [1]))))
       ''values'' 1 (Array (Tensor [1, 1] [2])))"

definition example_terminal :: buffer where
  "example_terminal =
     snd (update_data
       (snd (update_data example_rollout ''dones'' 0 (Array (Tensor [1] [1]))))
       ''dones'' 1 (Array (Tensor [1] [1])))"

text \<open>
  \<open>swap_flatten x\<close> is the tensor \<open>transform_op\<close> returns for a tensor \<open>x\<close> with
  at least two axes.
\<close>

definition swap_flatten :: "'a tensor \<Rightarrow> 'a tensor" where
  "swap_flatten x = (case transform_op (Some x) of Inr (Some y) \<Rightarrow> y | _ \<Rightarrow> x)"

text \<open>
  What \<open>prepare_training\<close> computes on a well-formed buffer: the raw advantage of
  the sample at flattened index \<open>i\<close> is the stored return less the stored value at
  timestep \<open>i mod T\<close> for environment \<open>i div T\<close>, and the training view holds every
  stored field flattened, followed by the normalised advantages.
\<close>

definition raw_advantages :: "buffer \<Rightarrow> real list" where
  "raw_advantages b =
     map (\<lambda>i. scalar b ''returns'' (i mod transitions_per_env b) (i div transitions_per_env b)
             - scalar b ''values'' (i mod transitions_per_env b) (i div transitions_per_env b))
       [0..<transitions_per_env b * num_envs b]"

definition training_view :: "buffer \<Rightarrow> (string \<times> real option tensor) list" where
  "training_view b =
     view (map (\<lambda>(k, x). (k, swap_flatten x)) (storage_dict b))
     @ [(''advantages'',
         Tensor [transitions_per_env b * num_envs b]
           (elems (normalize_advantages
              (Tensor [transitions_per_env b * num_envs b, 1] (raw_advantages b)))))]"

text \<open>A buffer of two timesteps and two environments as the constructor returns it.\<close>

definition example_grid :: buffer where
  "example_grid = projr (init 2 2 4 2 1 1 1 1)"

text \<open>
  \<open>broadcastable src dst\<close>: a value of shape \<open>src\<close> can be assigned to an indexed part
  of shape \<open>dst\<close>, that is, \<open>src\<close> without its leading axes of extent one has no more
  axes than \<open>dst\<close> and each of its axes, aligned at the last, has the extent of the
  axis of \<open>dst\<close> or extent one.
\<close>

definition broadcastable :: "nat list \<Rightarrow> nat list \<Rightarrow> bool" where
  "broadcastable src dst \<longleftrightarrow>
     length (dropWhile (\<lambda>d. d = 1) src) \<le> length dst
     \<and> expandable (pad_shape (length dst) (dropWhile (\<lambda>d. d = 1) src)) dst"

text \<open>
  \<open>expanded dst v\<close> is the list of elements that the assignment of a broadcastable value
  \<open>v\<close> stores in an indexed part of shape \<open>dst\<close>.
\<close>

definition expanded :: "nat list \<Rightarrow> 'a tensor \<Rightarrow> 'a list" where
  "expanded dst v
     = expand_elems (pad_shape (length dst) (dropWhile (\<lambda>d. d = 1) (shape v))) dst (elems v)"

text \<open>
  The shapes of a training view that \<open>prepare_training\<close> builds from a well-formed
  buffer, in the order of the dictionary, and the views of that form.
\<close>

definition view_layout :: "buffer \<Rightarrow> (string \<times> nat list) list" where
  "view_layout b =
     map (\<lambda>(k, s). (k, (transitions_per_env b * num_envs b) # drop 2 s)) (layout b)
     @ [(''advantages'', [transitions_per_env b * num_envs b])]"

definition wf_view :: "buffer \<Rightarrow> bool" where
  "wf_view b \<longleftrightarrow>
     (case data_dict b of
        None \<Rightarrow> False
      | Some dd \<Rightarrow>
          map (\<lambda>(k, x). (k, shape x)) dd = view_layout b
          \<and> list_all (\<lambda>(k, x). well_shaped x) dd)"

text \<open>
  \<open>samples x a m\<close> is the tensor of the \<open>m\<close> samples of \<open>x\<close> with the flattened
  indices \<open>a, \<dots>, a + m - 1\<close>, in that order; \<open>field_samples\<close> takes them from a field
  of a view.
\<close>

definition samples :: "'a tensor \<Rightarrow> nat \<Rightarrow> nat \<Rightarrow> 'a tensor" where
  "samples x a m =
     Tensor (m # tl (shape x))
       (concat (map (\<lambda>j. block (prod_list (tl (shape x))) j (elems x)) [a..<a + m]))"

definition field_samples :: "(string \<times> 'a tensor) list \<Rightarrow> string \<Rightarrow> nat \<Rightarrow> nat \<Rightarrow> 'a tensor" where
  "field_samples dd name a m =
     (case map_of dd name of None \<Rightarrow> Tensor [] [] | Some x \<Rightarrow> samples x a m)"

text \<open>
  Histories. A \<open>call\<close> is one call of a method of the buffer with its arguments,
  \<open>perform\<close> makes it and keeps the buffer it leaves behind, whether the call returned
  or raised, and \<open>after b cs\<close> is the buffer after the calls \<open>cs\<close>, made in this order on
  \<open>b\<close>. \<open>serves c\<close> holds of the calls of \<^verbatim>\<open>__getitem__\<close>.
\<close>

datatype call =
    Update_data string int val
  | Computer_return "real tensor" real real
  | Prepare_training
  | Getitem int
  | Update_mu_sigma "real tensor" "real tensor"

fun perform :: "buffer \<Rightarrow> call \<Rightarrow> buffer" where
  "perform b (Update_data name index v) = snd (update_data b name index v)"
| "perform b (Computer_return last_values gamma tau) = snd (computer_return b last_values gamma tau)"
| "perform b Prepare_training = snd (prepare_training b)"
| "perform b (Getitem idx) = snd (getitem b idx)"
| "perform b (Update_mu_sigma mu sigma) = snd (update_mu_sigma b mu sigma)"

fun serves :: "call \<Rightarrow> bool" where
  "serves (Getitem idx) = True"
| "serves c = False"

definition after :: "buffer \<Rightarrow> call list \<Rightarrow> buffer" where
  "after b cs = foldl perform b cs"

text \<open>
  \<open>dictionaries_only b b'\<close>: the buffer \<open>b'\<close> is \<open>b\<close> apart from what its two dictionaries
  hold.
\<close>

definition dictionaries_only :: "buffer \<Rightarrow> buffer \<Rightarrow> bool" where
  "dictionaries_only b b' \<longleftrightarrow>
     b' = b\<lparr>storage_dict := storage_dict b', data_dict := data_dict b'\<rparr>"

text \<open>\<open>view_sample b name j\<close> is the sample \<open>j\<close> of the field \<open>name\<close> of the training view.\<close>

definition view_sample :: "buffer \<Rightarrow> string \<Rightarrow> nat \<Rightarrow> real option list" where
  "view_sample b name j = (case data_dict b of None \<Rightarrow> [] | Some dd \<Rightarrow> viewed dd name j)"

text \<open>
  Two cycles on the buffer of two timesteps and two environments. In the first the
  training view is built and the second minibatch is served; in the second a reward is
  written, the returns are computed and the training view is built, and no minibatch is
  served.
\<close>

definition example_stale :: buffer where
  "example_stale =
     after example_grid
       [Prepare_training, Getitem 1,
        Update_data ''rewards'' 0 (Array (Tensor [2, 1] [1, 1])),
        Computer_return (Tensor [2, 1] [0, 0]) 1 1, Prepare_training]"

text \<open>
  The buffer of two timesteps and two environments after a return of \<open>4\<close> has been
  written for the first environment at the first step: the raw advantages are
  \<open>4, 0, 0, 0\<close>, with mean \<open>1\<close> and standard deviation \<open>2\<close>.
\<close>

definition example_spread :: buffer where
  "example_spread = snd (update_data example_grid ''returns'' 0 (Array (Tensor [2, 1] [4, 0])))"

text \<open>
  The buffer of two timesteps and two environments after done flags of \<open>1/2\<close> and \<open>256\<close>
  have been written for the first timestep.
\<close>

definition example_flags :: buffer where
  "example_flags
     = snd (update_data example_grid ''dones'' 0 (Array (Tensor [2] [1 / 2, 256])))"

text \<open>
  The buffer of two timesteps and two environments after every field that a minibatch
  returns has been written at both timesteps, with a number of its own for each field,
  timestep and environment. The raw advantages, return less value, are \<open>0, 0, 4, 0\<close> by
  flattened sample.
\<close>

definition example_filled :: buffer where
  "example_filled =
     after example_grid
       [Update_data ''obses'' 0 (Array (Tensor [2, 1] [11, 12])),
        Update_data ''obses'' 1 (Array (Tensor [2, 1] [13, 14])),
        Update_data ''priv_info'' 0 (Array (Tensor [2, 1] [21, 22])),
        Update_data ''priv_info'' 1 (Array (Tensor [2, 1] [23, 24])),
        Update_data ''point_cloud_info'' 0 (Array (Tensor [2, 1, 3] [31, 32, 33, 34, 35, 36])),
        Update_data ''point_cloud_info'' 1 (Array (Tensor [2, 1, 3] [37, 38, 39, 40, 41, 42])),
        Update_data ''values'' 0 (Array (Tensor [2, 1] [1, 2])),
        Update_data ''values'' 1 (Array (Tensor [2, 1] [3, 5])),
        Update_data ''neglogpacs'' 0 (Array (Tensor [2] [41, 42])),
        Update_data ''neglogpacs'' 1 (Array (Tensor [2] [43, 44])),
        Update_data ''actions'' 0 (Array (Tensor [2, 1] [51, 52])),
        Update_data ''actions'' 1 (Array (Tensor [2, 1] [53, 54])),
        Update_data ''mus'' 0 (Array (Tensor [2, 1] [61, 62])),
        Update_data ''mus'' 1 (Array (Tensor [2, 1] [63, 64])),
        Update_data ''sigmas'' 0 (Array (Tensor [2, 1] [71, 72])),
        Update_data ''sigmas'' 1 (Array (Tensor [2, 1] [73, 74])),
        Update_data ''returns'' 0 (Array (Tensor [2, 1] [1, 6])),
        Update_data ''returns'' 1 (Array (Tensor [2, 1] [3, 5]))]"

section \<open>Facts about blocks and broadcasting\<close>

lemma length_block: "(k + 1) * n \<le> length xs \<Longrightarrow> length (block n k xs) = n"
  by (simp add: block_def)

lemma nth_block: "j < n \<Longrightarrow> (k + 1) * n \<le> length xs \<Longrightarrow> block n k xs ! j = xs ! (k * n + j)"
  by (simp add: block_def)

lemma block_mono: "j < k \<Longrightarrow> (j + 1) * n \<le> k * (n::nat)"
  by (metis Suc_eq_plus1 Suc_leI mult_le_mono1)

lemma nth_put_block:
  assumes "length ys = n" "(k + 1) * n \<le> length xs" "i < length xs"
  shows "put_block n k ys xs ! i =
           (if k * n \<le> i \<and> i < (k + 1) * n then ys ! (i - k * n) else xs ! i)"
proof -
  have l: "length (take (k * n) xs) = k * n" using assms by simp
  show ?thesis
  proof (cases "i < k * n")
    case True
    then show ?thesis using assms by (simp add: put_block_def nth_append)
  next
    case False
    note ge = this
    show ?thesis
    proof (cases "i < (k + 1) * n")
      case True
      with ge have "i - k * n < n" by simp
      with True ge assms show ?thesis by (simp add: put_block_def nth_append)
    next
      case False
      then have "\<not> i - k * n < n" by simp
      with False ge assms show ?thesis
        by (simp add: put_block_def nth_append add.commute)
    qed
  qed
qed

lemma length_put_block:
  "length ys = n \<Longrightarrow> (k + 1) * n \<le> length xs \<Longrightarrow> length (put_block n k ys xs) = length xs"
  by (simp add: put_block_def)

lemma block_put_block_same:
  "length ys = n \<Longrightarrow> (k + 1) * n \<le> length xs \<Longrightarrow> block n k (put_block n k ys xs) = ys"
  by (simp add: put_block_def block_def)

lemma block_put_block_other:
  assumes "j \<noteq> k" "length ys = n" "(k + 1) * n \<le> length xs" "(j + 1) * n \<le> length xs"
  shows "block n j (put_block n k ys xs) = block n j xs"
proof (rule nth_equalityI)
  show "length (block n j (put_block n k ys xs)) = length (block n j xs)"
    using assms by (simp add: length_block length_put_block)
next
  fix i assume "i < length (block n j (put_block n k ys xs))"
  with assms have i: "i < n" by (simp add: length_block length_put_block)
  have out: "\<not> (k * n \<le> j * n + i \<and> j * n + i < (k + 1) * n)"
  proof (cases "j < k")
    case True
    from block_mono [OF this, of n] i show ?thesis by simp
  next
    case False
    with assms have "k < j" by simp
    from block_mono [OF this, of n] i show ?thesis by simp
  qed
  have lt: "j * n + i < length xs" using i assms(4) by simp
  have "put_block n k ys xs ! (j * n + i) = xs ! (j * n + i)"
    by (simp only: nth_put_block [OF assms(2,3) lt] out if_False)
  then show "block n j (put_block n k ys xs) ! i = block n j xs ! i"
    using i assms by (simp add: nth_block length_put_block)
qed

lemma concat_blocks: "concat (map (\<lambda>i. block n i xs) [0..<m]) = take (m * n) xs"
proof (induction m)
  case 0
  then show ?case by simp
next
  case (Suc m)
  have "take (m * n) xs @ block n m xs = take (m * n + n) xs"
    by (simp add: block_def take_add)
  with Suc show ?case by (simp add: add.commute)
qed

lemma expandable_same: "expandable s s"
  by (induction s) auto

lemma expand_elems_same: "length xs = prod_list s \<Longrightarrow> expand_elems s s xs = xs"
proof (induction s arbitrary: xs)
  case Nil
  then show ?case by simp
next
  case (Cons d ds)
  have "\<And>i. i < d \<Longrightarrow> length (block (prod_list ds) i xs) = prod_list ds"
  proof -
    fix i assume "i < d"
    then have "(i + 1) * prod_list ds \<le> d * prod_list ds"
      by (metis Suc_eq_plus1 Suc_leI mult_le_mono1)
    with Cons.prems show "length (block (prod_list ds) i xs) = prod_list ds"
      by (simp add: length_block)
  qed
  then have eq: "map (\<lambda>i. expand_elems ds ds (block (prod_list ds) i xs)) [0..<d]
        = map (\<lambda>i. block (prod_list ds) i xs) [0..<d]"
    using Cons.IH by (intro map_cong) auto
  have "expand_elems (d # ds) (d # ds) xs
        = concat (map (\<lambda>i. expand_elems ds ds (block (prod_list ds) i xs)) [0..<d])"
    by simp
  also have "\<dots> = concat (map (\<lambda>i. block (prod_list ds) i xs) [0..<d])"
    by (simp only: eq)
  also have "\<dots> = xs"
    using Cons.prems by (simp add: concat_blocks)
  finally show ?case .
qed

lemma pad_strip: "pad_shape (length s) (dropWhile (\<lambda>d. d = 1) s) = s"
proof -
  have "replicate (length (takeWhile (\<lambda>d. d = 1) s)) 1 = takeWhile (\<lambda>d. d = 1) s"
    by (induction s) auto
  moreover have "length s - length (dropWhile (\<lambda>d. d = 1) s) = length (takeWhile (\<lambda>d. d = 1) s)"
    by (metis add_diff_cancel_right' length_append takeWhile_dropWhile_id)
  ultimately show ?thesis
    by (simp add: pad_shape_def)
qed

lemma copy_to_same:
  "length (elems v) = prod_list (shape v) \<Longrightarrow> copy_to (shape v) v = Inr (elems v)"
  unfolding copy_to_def expand_def Let_def tensor.sel pad_strip
  by (simp add: expandable_same expand_elems_same length_dropWhile_le)

lemma broadcast_shapes_same: "broadcast_shapes s s = Some s"
  by (induction s) auto

lemma binop_same_shape:
  assumes "shape a = shape b" "length (elems a) = prod_list (shape a)"
    "length (elems b) = prod_list (shape b)"
  shows "binop f a b = Inr (Tensor (shape a) (map2 f (elems a) (elems b)))"
  using assms
  by (simp add: binop_def pad_shape_def broadcast_shapes_same expand_elems_same)

section \<open>Facts about element types\<close>

lemma tmap_ident: "tmap (\<lambda>x. x) v = v"
  by (cases v) (simp add: tmap_def)

lemma cast_float32: "cast Float32 = (\<lambda>x. x)"
  by (simp add: cast_def fun_eq_iff)

lemma convert_float:
  "name \<noteq> ''dones'' \<Longrightarrow> convert name v = v"
  by (simp add: convert_def field_dtype_def cast_float32 tmap_ident)

lemma convert_shape [simp]: "shape (convert name v) = shape v"
  by (simp add: convert_def tmap_def)

lemma convert_elems: "elems (convert name v) = map (cast (field_dtype name)) (elems v)"
  by (simp add: convert_def tmap_def)

lemma convert_well_shaped [simp]: "well_shaped (convert name v) = well_shaped v"
  by (simp add: well_shaped_def convert_elems)

lemma convert_fields:
  "convert ''obses'' v = v" "convert ''priv_info'' v = v" "convert ''point_cloud_info'' v = v"
  "convert ''rewards'' v = v" "convert ''values'' v = v" "convert ''neglogpacs'' v = v"
  "convert ''actions'' v = v" "convert ''mus'' v = v" "convert ''sigmas'' v = v"
  "convert ''returns'' v = v"
  by (simp_all add: convert_float)

lemma cast_uint8: "cast UInt8 = (\<lambda>x. of_int (trunc x mod 256))"
  by (simp add: cast_def fun_eq_iff)

lemma convert_dones:
  "convert ''dones'' v = tmap (\<lambda>x. of_int (trunc x mod 256)) v"
  by (simp add: convert_def field_dtype_def cast_uint8)

lemma cast_byte: "n < 256 \<Longrightarrow> cast UInt8 (real n) = real n"
  by (simp add: cast_uint8 trunc_def)

lemma convert_bytes:
  assumes "\<forall>x\<in>set (elems v). \<exists>n::nat. n < 256 \<and> x = real n"
  shows "convert name v = v"
proof (cases "name = ''dones''")
  case False
  then show ?thesis by (rule convert_float)
next
  case True
  have "map (cast UInt8) (elems v) = elems v"
    using assms by (intro map_idI) (auto simp: cast_byte)
  then show ?thesis
    by (cases v) (simp add: convert_def field_dtype_def True tmap_def)
qed

section \<open>Facts about the storage\<close>

lemma norm_index_nat: "k < n \<Longrightarrow> norm_index n (int k) = Some k"
  by (simp add: norm_index_def)

lemma select0_row:
  "shape x = d # ds \<Longrightarrow> t < d \<Longrightarrow>
     select0 x (int t) = Inr (Tensor ds (block (prod_list ds) t (elems x)))"
  by (simp add: select0_def norm_index_nat)

lemma select0_next:
  assumes "shape x = d # ds" "Suc t < d"
  shows "select0 x (int t + 1) = Inr (Tensor ds (block (prod_list ds) (Suc t) (elems x)))"
proof -
  have e: "int t + 1 = int (Suc t)" by simp
  show ?thesis unfolding e by (rule select0_row [OF assms])
qed

lemma dict_get_update:
  "dict_get (AList.update k v d) k' = (if k' = k then Inr v else dict_get d k')"
  by (simp add: dict_get_def update_conv')

lemma wf_lookup:
  assumes "wf_buffer b" "(k, sh) \<in> set (layout b)"
  shows "\<exists>x. map_of (storage_dict b) k = Some x \<and> shape x = sh \<and> well_shaped x"
proof -
  have d: "distinct (map fst (layout b))"
    by (simp add: layout_def Let_def)
  have "map_of (layout b) k = Some sh"
    using d assms(2) by (rule map_of_is_SomeI)
  moreover have "map_of (map (\<lambda>(k, x). (k, shape x)) (storage_dict b)) k
      = map_option shape (map_of (storage_dict b) k)"
    by (simp add: map_of_map)
  ultimately have "map_option shape (map_of (storage_dict b) k) = Some sh"
    using assms(1) by (simp add: wf_buffer_def)
  then obtain x where x: "map_of (storage_dict b) k = Some x" "shape x = sh"
    by auto
  from x(1) have "(k, x) \<in> set (storage_dict b)" by (rule map_of_SomeD)
  with assms(1) have "well_shaped x"
    by (auto simp: wf_buffer_def list_all_iff)
  with x show ?thesis by blast
qed

lemma map2_replicate_right:
  "length xs = n \<Longrightarrow> map2 f xs (replicate n c) = map (\<lambda>x. f x c) xs"
  by (induction xs arbitrary: n) auto

lemma binop_rows:
  assumes "length xs = E" "length ys = E"
  shows "binop f (Tensor [E, 1] xs) (Tensor [E, 1] ys) = Inr (Tensor [E, 1] (map2 f xs ys))"
  using assms binop_same_shape [of "Tensor [E, 1] xs" "Tensor [E, 1] ys" f] by simp

lemma binop_row_scalar:
  assumes "length xs = E"
  shows "binop f (Tensor [E, 1] xs) (Tensor [] [c]) = Inr (Tensor [E, 1] (map2 f xs (replicate E c)))"
proof -
  have "expand_elems [E, 1] [E, 1] xs = xs"
    by (rule expand_elems_same) (simp add: assms)
  moreover have "expand_elems [1, 1] [E, 1] [c] = replicate E c"
    by (cases "E = 1") (simp_all add: block_def)
  moreover have "broadcast_shapes [E, 1] [1, 1] = Some [E, 1]"
    by simp
  ultimately show ?thesis
    by (simp add: binop_def pad_shape_def Let_def del: expand_elems.simps)
qed

lemma nth_step_row:
  assumes "e < E" "length r = E" "length v = E" "length d = E" "length nv = E" "length prev = E"
  shows "step_row gamma tau r v d nv prev ! e =
           r ! e + gamma * nv ! e * (1 - d ! e) - v ! e + gamma * tau * (1 - d ! e) * prev ! e"
  using assms by (simp add: step_row_def)

lemma length_step_row:
  assumes "length r = E" "length v = E" "length d = E" "length nv = E" "length prev = E"
  shows "length (step_row gamma tau r v d nv prev) = E"
  using assms by (simp add: step_row_def)

section \<open>The loop of \<open>computer_return\<close>\<close>

lemma block_le: "t < T \<Longrightarrow> (t + 1) * E \<le> T * (E::nat)"
  by (metis Suc_eq_plus1 Suc_leI mult_le_mono1)

lemma gae_step_result:
  fixes b :: buffer
  assumes T: "transitions_per_env b = T" and t: "t < T"
    and vals: "dict_get (storage_dict b) ''values'' = Inr (Tensor [T, E, 1] vs)" "length vs = T * E"
    and rews: "dict_get (storage_dict b) ''rewards'' = Inr (Tensor [T, E, 1] rs)" "length rs = T * E"
    and dns: "dict_get (storage_dict b) ''dones'' = Inr (Tensor [T, E] ds)" "length ds = T * E"
    and rets: "dict_get (storage_dict b) ''returns'' = Inr (Tensor [T, E, 1] rets)"
      "length rets = T * E"
    and lv: "last_values = Tensor [E, 1] lv" "length lv = E"
    and mb: "mb_advs = Tensor [T, E, 1] ms" "length ms = T * E"
    and lg: "lg = Tensor [E, 1] prev \<or> lg = Tensor [] [0] \<and> prev = replicate E 0"
      "length prev = E"
    and g: "g = step_row gamma tau (block E t rs) (block E t vs) (block E t ds)
                  (if Suc t = T then lv else block E (Suc t) vs) prev"
  shows "gae_step gamma tau last_values b t mb_advs lg =
     Inr (b\<lparr>storage_dict :=
              AList.update ''returns''
                (Tensor [T, E, 1] (put_block E t (map2 (+) g (block E t vs)) rets))
                (storage_dict b),
            data_dict :=
              map_option
                (alias_row ''returns'' [T, E, 1] (int t)
                   (Tensor [E, 1] (map2 (+) g (block E t vs))))
                (data_dict b)\<rparr>,
          Tensor [T, E, 1] (put_block E t g ms), Tensor [E, 1] g)"
proof -
  define nv where "nv = (if Suc t = T then lv else block E (Suc t) vs)"
  have tE: "(t + 1) * E \<le> T * E" using t by (rule block_le)
  have lb: "length (block E t vs) = E" "length (block E t rs) = E" "length (block E t ds) = E"
    "length (block E t ms) = E"
    using tE vals(2) rews(2) dns(2) mb(2) by (simp_all add: length_block)
  have lnv: "length nv = E"
  proof (cases "Suc t = T")
    case True
    then show ?thesis using lv by (simp add: nv_def)
  next
    case False
    with t have "Suc t < T" by simp
    then have "(Suc t + 1) * E \<le> T * E" by (rule block_le)
    then show ?thesis using False vals(2) by (simp add: nv_def length_block)
  qed
  have lg': "length g = E"
    unfolding g using lb lnv lg(2) nv_def by (simp add: length_step_row)
  have cond: "(int t = int T - 1) = (Suc t = T)" by auto
  have s1: "Suc t \<noteq> T \<Longrightarrow>
      select0 (Tensor [T, E, 1] vs) (int t + 1) = Inr (Tensor [E, 1] (block E (Suc t) vs))"
    using t by (simp add: select0_next [where d = T and ds = "[E, 1]"])
  have s2: "select0 (Tensor [T, E] ds) (int t) = Inr (Tensor [E] (block E t ds))"
    using t by (simp add: select0_row [where d = T and ds = "[E]"])
  have s3: "select0 (Tensor [T, E, 1] rs) (int t) = Inr (Tensor [E, 1] (block E t rs))"
    "select0 (Tensor [T, E, 1] vs) (int t) = Inr (Tensor [E, 1] (block E t vs))"
    using t by (simp_all add: select0_row [where d = T and ds = "[E, 1]"])
  have s5: "binop (*) (Tensor [E, 1] (map (\<lambda>x. gamma * tau * x) (map (\<lambda>x. 1 - x) (block E t ds)))) lg
      = Inr (Tensor [E, 1] (map2 (*) (map (\<lambda>x. gamma * tau * x) (map (\<lambda>x. 1 - x) (block E t ds))) prev))"
    using lg(1)
  proof
    assume "lg = Tensor [E, 1] prev"
    then show ?thesis using lb lg(2) by (simp add: binop_rows del: One_nat_def)
  next
    assume "lg = Tensor [] [0] \<and> prev = replicate E 0"
    then show ?thesis using lb by (simp add: binop_row_scalar del: One_nat_def)
  qed
  have s6: "setitem_index (Tensor [T, E, 1] ms) (int t) (Tensor [E, 1] g)
      = Inr (Tensor [T, E, 1] (put_block E t g ms))"
    using t lg' copy_to_same [of "Tensor [E, 1] g"]
    by (simp add: setitem_index_def norm_index_nat del: One_nat_def)
  have s7: "select0 (Tensor [T, E, 1] (put_block E t g ms)) (int t) = Inr (Tensor [E, 1] g)"
    using t lg' tE mb(2)
    by (simp add: select0_row [where d = T and ds = "[E, 1]"] block_put_block_same del: One_nat_def)
  have s8: "setitem_row (Tensor [T, E, 1] rets) (int t) (Tensor [E, 1] (map2 (+) g (block E t vs)))
      = Inr (Tensor [T, E, 1] (put_block E t (map2 (+) g (block E t vs)) rets))"
    using t lg' lb copy_to_same [of "Tensor [E, 1] (map2 (+) g (block E t vs))"]
    by (simp add: setitem_row_def norm_index_nat del: One_nat_def)
  have s9: "store_row b ''returns'' (int t) (Tensor [E, 1] (map2 (+) g (block E t vs)))
      = Inr (b\<lparr>storage_dict :=
              AList.update ''returns''
                (Tensor [T, E, 1] (put_block E t (map2 (+) g (block E t vs)) rets))
                (storage_dict b),
            data_dict :=
              map_option
                (alias_row ''returns'' [T, E, 1] (int t)
                   (Tensor [E, 1] (map2 (+) g (block E t vs))))
                (data_dict b)\<rparr>)"
    by (simp add: store_row_def convert_fields rets(1) s8 del: One_nat_def)
  have lnv': "length lv = E" "Suc t \<noteq> T \<Longrightarrow> length (block E (Suc t) vs) = E"
    using lnv lv by (simp_all add: nv_def)
  show ?thesis
    unfolding gae_step_def vals(1) rews(1) dns(1) mb(1) lv(1) T cond
    using lb lnv' lg(2) s5 s6 s7 s9
    by (cases "Suc t = T")
       (simp_all add: s1 s2 s3 unsqueeze1_def tmap_def binop_rows g step_row_def
          del: One_nat_def)
qed

lemma last_gae_end: "T \<le> t \<Longrightarrow> last_gae reward value done bootstrap gamma tau T t = 0"
  by (subst last_gae.simps) simp

lemma last_gae_step:
  "t < T \<Longrightarrow>
   last_gae reward value done bootstrap gamma tau T t =
     reward t + gamma * (if Suc t = T then bootstrap else value (Suc t)) * (1 - done t) - value t
     + gamma * tau * (1 - done t) * last_gae reward value done bootstrap gamma tau T (Suc t)"
  by (subst last_gae.simps) (auto simp: Let_def)

lemma length_gae_row: "length (gae_row gamma tau T E rs vs ds lv t) = E"
  by (simp add: gae_row_def)

lemma gae_row_end: "gae_row gamma tau T E rs vs ds lv T = replicate E 0"
  by (simp add: gae_row_def last_gae_end map_replicate_const)

lemma gae_row_step:
  assumes t: "t < T" and l: "length rs = T * E" "length vs = T * E" "length ds = T * E"
    "length lv = E"
  shows "step_row gamma tau (block E t rs) (block E t vs) (block E t ds)
           (if Suc t = T then lv else block E (Suc t) vs)
           (gae_row gamma tau T E rs vs ds lv (Suc t))
         = gae_row gamma tau T E rs vs ds lv t"
proof (rule nth_equalityI)
  have tE: "(t + 1) * E \<le> T * E" using t by (rule block_le)
  have lb: "length (block E t vs) = E" "length (block E t rs) = E" "length (block E t ds) = E"
    using tE l by (simp_all add: length_block)
  have lnv: "length (if Suc t = T then lv else block E (Suc t) vs) = E"
  proof (cases "Suc t = T")
    case True
    then show ?thesis using l by simp
  next
    case False
    with t have "Suc t < T" by simp
    then have "(Suc t + 1) * E \<le> T * E" by (rule block_le)
    then show ?thesis using False l by (simp add: length_block)
  qed
  show len: "length (step_row gamma tau (block E t rs) (block E t vs) (block E t ds)
           (if Suc t = T then lv else block E (Suc t) vs)
           (gae_row gamma tau T E rs vs ds lv (Suc t)))
      = length (gae_row gamma tau T E rs vs ds lv t)"
    using lb lnv by (simp add: length_step_row length_gae_row)
  fix e
  assume "e < length (step_row gamma tau (block E t rs) (block E t vs) (block E t ds)
           (if Suc t = T then lv else block E (Suc t) vs)
           (gae_row gamma tau T E rs vs ds lv (Suc t)))"
  with len have e: "e < E" by (simp add: length_gae_row)
  have nv: "(if Suc t = T then lv else block E (Suc t) vs) ! e
      = (if Suc t = T then lv ! e else vs ! (Suc t * E + e))"
  proof (cases "Suc t = T")
    case True
    then show ?thesis by simp
  next
    case False
    with t have "Suc t < T" by simp
    then have "(Suc t + 1) * E \<le> T * E" by (rule block_le)
    then show ?thesis using False l e by (simp add: nth_block)
  qed
  have "step_row gamma tau (block E t rs) (block E t vs) (block E t ds)
           (if Suc t = T then lv else block E (Suc t) vs)
           (gae_row gamma tau T E rs vs ds lv (Suc t)) ! e
      = block E t rs ! e + gamma * (if Suc t = T then lv else block E (Suc t) vs) ! e
          * (1 - block E t ds ! e) - block E t vs ! e
        + gamma * tau * (1 - block E t ds ! e) * gae_row gamma tau T E rs vs ds lv (Suc t) ! e"
    using e lb lnv by (intro nth_step_row) (simp_all add: length_gae_row)
  also have "\<dots> = gae_row gamma tau T E rs vs ds lv t ! e"
    using e tE l unfolding nv
    by (simp add: nth_block gae_row_def last_gae_step [OF t])
  finally show "step_row gamma tau (block E t rs) (block E t vs) (block E t ds)
           (if Suc t = T then lv else block E (Suc t) vs)
           (gae_row gamma tau T E rs vs ds lv (Suc t)) ! e
      = gae_row gamma tau T E rs vs ds lv t ! e" .
qed

lemma gae_loop_result:
  fixes b :: buffer
  assumes "k \<le> T"
    and T: "transitions_per_env b = T"
    and vals: "dict_get (storage_dict b) ''values'' = Inr (Tensor [T, E, 1] vs)" "length vs = T * E"
    and rews: "dict_get (storage_dict b) ''rewards'' = Inr (Tensor [T, E, 1] rs)" "length rs = T * E"
    and dns: "dict_get (storage_dict b) ''dones'' = Inr (Tensor [T, E] ds)" "length ds = T * E"
    and rets: "dict_get (storage_dict b) ''returns'' = Inr (Tensor [T, E, 1] rets)"
      "length rets = T * E"
    and lv: "last_values = Tensor [E, 1] lv" "length lv = E"
    and mb: "length ms = T * E"
    and lg: "lg = Tensor [E, 1] (gae_row gamma tau T E rs vs ds lv k)
             \<or> lg = Tensor [] [0] \<and> gae_row gamma tau T E rs vs ds lv k = replicate E 0"
    and rows: "\<forall>t. k \<le> t \<and> t < T \<longrightarrow>
        block E t rets = map2 (+) (gae_row gamma tau T E rs vs ds lv t) (block E t vs)"
  shows "\<exists>final D.
      gae_loop gamma tau last_values (rev [0..<k]) b (Tensor [T, E, 1] ms) lg
        = (Inr (), b\<lparr>storage_dict :=
                      AList.update ''returns'' (Tensor [T, E, 1] final) (storage_dict b),
                    data_dict := D\<rparr>)
      \<and> length final = T * E
      \<and> (\<forall>t<T. block E t final
             = map2 (+) (gae_row gamma tau T E rs vs ds lv t) (block E t vs))"
  using assms
proof (induction k arbitrary: b rets ms lg)
  case 0
  from "0.prems"(9) have "map_of (storage_dict b) ''returns'' = Some (Tensor [T, E, 1] rets)"
    by (simp add: dict_get_def split: option.splits)
  then have "AList.update ''returns'' (Tensor [T, E, 1] rets) (storage_dict b) = storage_dict b"
    by (rule update_triv)
  with "0.prems" show ?case
    by (intro exI [of _ rets] exI [of _ "data_dict b"]) simp
next
  case (Suc k)
  let ?row = "gae_row gamma tau T E rs vs ds lv"
  have k: "k < T" using Suc.prems(1) by simp
  have kE: "(k + 1) * E \<le> T * E" using k by (rule block_le)
  define g where "g = step_row gamma tau (block E k rs) (block E k vs) (block E k ds)
                  (if Suc k = T then lv else block E (Suc k) vs) (?row (Suc k))"
  have g_row: "g = ?row k"
    unfolding g_def using k Suc.prems(6,4,8,12) by (rule gae_row_step)
  define rets' where "rets' = put_block E k (map2 (+) g (block E k vs)) rets"
  define b' where "b' = b\<lparr>storage_dict :=
              AList.update ''returns'' (Tensor [T, E, 1] rets') (storage_dict b),
            data_dict :=
              map_option
                (alias_row ''returns'' [T, E, 1] (int k)
                   (Tensor [E, 1] (map2 (+) g (block E k vs))))
                (data_dict b)\<rparr>"
  have lg': "lg = Tensor [E, 1] (?row (Suc k))
      \<or> lg = Tensor [] [0] \<and> ?row (Suc k) = replicate E 0"
    using Suc.prems(14) .
  have step: "gae_step gamma tau last_values b k (Tensor [T, E, 1] ms) lg
      = Inr (b', Tensor [T, E, 1] (put_block E k g ms), Tensor [E, 1] g)"
    unfolding b'_def rets'_def
    by (rule gae_step_result [OF Suc.prems(2) k Suc.prems(3-12) refl Suc.prems(13) lg'
          length_gae_row g_def])
  have lrow: "length (map2 (+) g (block E k vs)) = E"
    using kE Suc.prems(4) by (simp add: g_row length_gae_row length_block)
  have lrets': "length rets' = T * E"
    unfolding rets'_def using lrow kE Suc.prems(10) by (simp add: length_put_block)
  have rows': "\<forall>t. k \<le> t \<and> t < T \<longrightarrow> block E t rets' = map2 (+) (?row t) (block E t vs)"
  proof (intro allI impI)
    fix t assume t: "k \<le> t \<and> t < T"
    show "block E t rets' = map2 (+) (?row t) (block E t vs)"
    proof (cases "t = k")
      case True
      then show ?thesis
        unfolding rets'_def using lrow kE Suc.prems(10)
        by (simp add: block_put_block_same g_row)
    next
      case False
      with t have t': "Suc k \<le> t \<and> t < T" by simp
      then have "(t + 1) * E \<le> T * E" by (intro block_le) simp
      then have "block E t rets' = block E t rets"
        unfolding rets'_def using False lrow kE Suc.prems(10)
        by (simp add: block_put_block_other)
      with Suc.prems(15) t' show ?thesis by simp
    qed
  qed
  have "\<exists>final D.
      gae_loop gamma tau last_values (rev [0..<k]) b' (Tensor [T, E, 1] (put_block E k g ms))
         (Tensor [E, 1] g)
        = (Inr (), b'\<lparr>storage_dict :=
                      AList.update ''returns'' (Tensor [T, E, 1] final) (storage_dict b'),
                    data_dict := D\<rparr>)
      \<and> length final = T * E
      \<and> (\<forall>t<T. block E t final = map2 (+) (?row t) (block E t vs))"
  proof (rule Suc.IH)
    show "k \<le> T" using k by simp
    show "transitions_per_env b' = T" using Suc.prems(2) by (simp add: b'_def)
    show "dict_get (storage_dict b') ''values'' = Inr (Tensor [T, E, 1] vs)"
      using Suc.prems(3) by (simp add: b'_def dict_get_update)
    show "dict_get (storage_dict b') ''rewards'' = Inr (Tensor [T, E, 1] rs)"
      using Suc.prems(5) by (simp add: b'_def dict_get_update)
    show "dict_get (storage_dict b') ''dones'' = Inr (Tensor [T, E] ds)"
      using Suc.prems(7) by (simp add: b'_def dict_get_update)
    show "dict_get (storage_dict b') ''returns'' = Inr (Tensor [T, E, 1] rets')"
      by (simp add: b'_def dict_get_update)
    show "length rets' = T * E" by (rule lrets')
    show "length (put_block E k g ms) = T * E"
      using kE Suc.prems(13) by (simp add: length_put_block g_row length_gae_row)
    show "Tensor [E, 1] g = Tensor [E, 1] (?row k)
        \<or> Tensor [E, 1] g = Tensor [] [0] \<and> ?row k = replicate E 0"
      by (simp add: g_row)
    show "\<forall>t. k \<le> t \<and> t < T \<longrightarrow> block E t rets' = map2 (+) (?row t) (block E t vs)"
      by (rule rows')
  qed (rule Suc.prems)+
  then obtain final D where f:
    "gae_loop gamma tau last_values (rev [0..<k]) b' (Tensor [T, E, 1] (put_block E k g ms))
         (Tensor [E, 1] g)
        = (Inr (), b'\<lparr>storage_dict :=
                      AList.update ''returns'' (Tensor [T, E, 1] final) (storage_dict b'),
                    data_dict := D\<rparr>)"
    "length final = T * E"
    "\<forall>t<T. block E t final = map2 (+) (?row t) (block E t vs)"
    by blast
  have "b'\<lparr>storage_dict := AList.update ''returns'' (Tensor [T, E, 1] final) (storage_dict b'),
           data_dict := D\<rparr>
      = b\<lparr>storage_dict := AList.update ''returns'' (Tensor [T, E, 1] final) (storage_dict b),
          data_dict := D\<rparr>"
    by (simp add: b'_def)
  with f step show ?case
    by (intro exI [of _ final] exI [of _ D]) simp
qed

lemma wf_dict_get:
  assumes "wf_buffer b" "(k, sh) \<in> set (layout b)"
  shows "\<exists>xs. dict_get (storage_dict b) k = Inr (Tensor sh xs) \<and> length xs = prod_list sh"
proof -
  from wf_lookup [OF assms] obtain x where
    x: "map_of (storage_dict b) k = Some x" "shape x = sh" "well_shaped x" by blast
  then have "x = Tensor sh (elems x)" by (cases x) simp
  with x show ?thesis
    by (intro exI [of _ "elems x"]) (simp add: dict_get_def well_shaped_def)
qed

lemma scalar_eq:
  "dict_get (storage_dict b) k = Inr (Tensor sh xs) \<Longrightarrow>
     scalar b k t e = xs ! (t * num_envs b + e)"
  by (simp add: scalar_def dict_get_def split: option.splits)

lemma computer_return_rows:
  assumes wf_buffer: "wf_buffer b" and lv: "shape last_values = [num_envs b, 1]" "well_shaped last_values"
  defines "T \<equiv> transitions_per_env b" and "E \<equiv> num_envs b"
  shows "\<exists>final D.
      computer_return b last_values gamma tau
        = (Inr (), b\<lparr>storage_dict :=
                      AList.update ''returns'' (Tensor [T, E, 1] final) (storage_dict b),
                    data_dict := D\<rparr>)
      \<and> length final = T * E
      \<and> (\<forall>t<T. \<forall>e<E. final ! (t * E + e) =
            last_gae (\<lambda>t. scalar b ''rewards'' t e) (\<lambda>t. scalar b ''values'' t e)
              (\<lambda>t. scalar b ''dones'' t e) (elems last_values ! e) gamma tau T t
            + scalar b ''values'' t e)"
proof -
  obtain vs where vs: "dict_get (storage_dict b) ''values'' = Inr (Tensor [T, E, 1] vs)"
    "length vs = T * E"
    using wf_dict_get [OF wf_buffer, of "''values''" "[T, E, 1]"]
    by (auto simp: layout_def Let_def T_def E_def)
  obtain rs where rs: "dict_get (storage_dict b) ''rewards'' = Inr (Tensor [T, E, 1] rs)"
    "length rs = T * E"
    using wf_dict_get [OF wf_buffer, of "''rewards''" "[T, E, 1]"]
    by (auto simp: layout_def Let_def T_def E_def)
  obtain ds where ds: "dict_get (storage_dict b) ''dones'' = Inr (Tensor [T, E] ds)"
    "length ds = T * E"
    using wf_dict_get [OF wf_buffer, of "''dones''" "[T, E]"]
    by (auto simp: layout_def Let_def T_def E_def)
  obtain rets where rets: "dict_get (storage_dict b) ''returns'' = Inr (Tensor [T, E, 1] rets)"
    "length rets = T * E"
    using wf_dict_get [OF wf_buffer, of "''returns''" "[T, E, 1]"]
    by (auto simp: layout_def Let_def T_def E_def)
  define lv where "lv = elems last_values"
  have lv: "last_values = Tensor [E, 1] lv" "length lv = E"
    using assms(2,3) by (cases last_values; simp add: lv_def well_shaped_def E_def)+
  let ?row = "gae_row gamma tau T E rs vs ds lv"
  have "\<exists>final D.
      gae_loop gamma tau last_values (rev [0..<T]) b (Tensor [T, E, 1] (replicate (T * E) 0))
          (Tensor [] [0])
        = (Inr (), b\<lparr>storage_dict :=
                      AList.update ''returns'' (Tensor [T, E, 1] final) (storage_dict b),
                    data_dict := D\<rparr>)
      \<and> length final = T * E
      \<and> (\<forall>t<T. block E t final = map2 (+) (?row t) (block E t vs))"
    by (rule gae_loop_result [OF le_refl _ vs rs ds rets lv])
       (auto simp: T_def gae_row_end)
  then obtain final D where f:
    "gae_loop gamma tau last_values (rev [0..<T]) b (Tensor [T, E, 1] (replicate (T * E) 0))
          (Tensor [] [0])
        = (Inr (), b\<lparr>storage_dict :=
                      AList.update ''returns'' (Tensor [T, E, 1] final) (storage_dict b),
                    data_dict := D\<rparr>)"
    "length final = T * E"
    "\<forall>t<T. block E t final = map2 (+) (?row t) (block E t vs)"
    by blast
  have cr: "computer_return b last_values gamma tau
        = (Inr (), b\<lparr>storage_dict :=
                      AList.update ''returns'' (Tensor [T, E, 1] final) (storage_dict b),
                    data_dict := D\<rparr>)"
    using f(1) rs(1) by (simp add: computer_return_def zeros_like_def zeros_def T_def)
  have "\<forall>t<T. \<forall>e<E. final ! (t * E + e) =
            last_gae (\<lambda>t. scalar b ''rewards'' t e) (\<lambda>t. scalar b ''values'' t e)
              (\<lambda>t. scalar b ''dones'' t e) (elems last_values ! e) gamma tau T t
            + scalar b ''values'' t e"
  proof (intro allI impI)
    fix t e assume t: "t < T" and e: "e < E"
    have tE: "(t + 1) * E \<le> T * E" using t by (rule block_le)
    have "final ! (t * E + e) = block E t final ! e"
      using e tE f(2) by (simp add: nth_block)
    also have "\<dots> = map2 (+) (?row t) (block E t vs) ! e"
      using f(3) t by simp
    also have "\<dots> = ?row t ! e + vs ! (t * E + e)"
      using e tE vs(2) by (simp add: length_gae_row length_block nth_block)
    also have "?row t ! e = last_gae (\<lambda>t. rs ! (t * E + e)) (\<lambda>t. vs ! (t * E + e))
        (\<lambda>t. ds ! (t * E + e)) (lv ! e) gamma tau T t"
      using e by (simp add: gae_row_def)
    finally show "final ! (t * E + e) =
            last_gae (\<lambda>t. scalar b ''rewards'' t e) (\<lambda>t. scalar b ''values'' t e)
              (\<lambda>t. scalar b ''dones'' t e) (elems last_values ! e) gamma tau T t
            + scalar b ''values'' t e"
      by (simp add: scalar_eq [OF vs(1)] scalar_eq [OF rs(1)] scalar_eq [OF ds(1)] E_def lv_def)
  qed
  with cr f(2) show ?thesis by blast
qed

section \<open>Well-formedness is kept\<close>

lemma rbind_eq_Inr: "rbind m f = Inr y \<longleftrightarrow> (\<exists>x. m = Inr x \<and> f x = Inr y)"
  by (cases m) auto

lemma rbind_eq_Inl: "rbind m f = Inl e \<longleftrightarrow> m = Inl e \<or> (\<exists>x. m = Inr x \<and> f x = Inl e)"
  by (cases m) auto

lemma length_concat_replicate: "length (concat (replicate d xs)) = d * length xs"
  by (induction d) auto

lemma wf_init:
  "init n_envs horizon_length b_size mb_size o_dim a_dim p_dim pc_dim = Inr b \<Longrightarrow> wf_buffer b"
  by (auto simp: init_def wf_buffer_def layout_def zeros_def well_shaped_def split: if_splits)

lemma prod_list_strip: "prod_list (dropWhile (\<lambda>d. d = 1) s) = prod_list (s :: nat list)"
  by (induction s) auto

lemma prod_list_pad: "prod_list (pad_shape n s) = prod_list s"
  by (simp add: pad_shape_def)

lemma length_concat_const:
  "(\<And>x. x \<in> set xs \<Longrightarrow> length (f x) = c) \<Longrightarrow> length (concat (map f xs)) = length xs * c"
  by (induction xs) auto

lemma length_expand_elems:
  "expandable src tgt \<Longrightarrow> length xs = prod_list src \<Longrightarrow>
     length (expand_elems src tgt xs) = prod_list tgt"
proof (induction src tgt arbitrary: xs rule: expandable.induct)
  case 1
  then show ?case by simp
next
  case (2 s ss d ds)
  show ?case
  proof (cases "s = d")
    case True
    have "\<And>i. i \<in> set [0..<s] \<Longrightarrow>
        length (expand_elems ss ds (block (prod_list ss) i xs)) = prod_list ds"
    proof -
      fix i assume "i \<in> set [0..<s]"
      then have "i < s" by simp
      then have "(i + 1) * prod_list ss \<le> s * prod_list ss" by (rule block_le)
      then have "length (block (prod_list ss) i xs) = prod_list ss"
        using "2.prems"(2) by (simp add: length_block)
      with "2.IH" "2.prems"(1) show
        "length (expand_elems ss ds (block (prod_list ss) i xs)) = prod_list ds"
        by simp
    qed
    then have "length (concat (map (\<lambda>i. expand_elems ss ds (block (prod_list ss) i xs)) [0..<s]))
        = length [0..<s] * prod_list ds"
      by (rule length_concat_const)
    with True show ?thesis by simp
  next
    case False
    with "2.prems" have s: "s = 1" and e: "expandable ss ds" by auto
    with "2.prems"(2) have "length xs = prod_list ss" by simp
    with "2.IH" e have "length (expand_elems ss ds xs) = prod_list ds" by simp
    with False show ?thesis by (simp add: length_concat_replicate)
  qed
qed simp_all

lemma copy_to_length:
  assumes "copy_to dst v = Inr ys" "well_shaped v"
  shows "length ys = prod_list dst"
proof -
  let ?s = "dropWhile (\<lambda>d. d = 1) (shape v)"
  from assms(1) have e: "expandable (pad_shape (length dst) ?s) dst"
    and ys: "ys = expand_elems (pad_shape (length dst) ?s) dst (elems v)"
    by (auto simp: copy_to_def expand_def Let_def split: if_splits)
  have "length (elems v) = prod_list (pad_shape (length dst) ?s)"
    using assms(2) by (simp add: well_shaped_def prod_list_pad prod_list_strip del: One_nat_def)
  with e show ?thesis unfolding ys by (rule length_expand_elems)
qed

lemma setitem_row_shape:
  assumes "setitem_row x i v = Inr x'" "well_shaped x" "well_shaped v"
  shows "shape x' = shape x \<and> well_shaped x'"
proof -
  from assms(1) obtain d e ds k ys where
    sh: "shape x = d # e # ds" and k: "norm_index d i = Some k"
    and ys: "copy_to (e # ds) v = Inr ys"
    and x': "x' = Tensor (d # e # ds) (put_block (prod_list (e # ds)) k ys (elems x))"
    by (auto simp: setitem_row_def rbind_eq_Inr split: list.splits option.splits)
  from k have "k < d" by (auto simp: norm_index_def split: if_splits)
  then have "(k + 1) * prod_list (e # ds) \<le> d * prod_list (e # ds)" by (rule block_le)
  moreover have "length ys = prod_list (e # ds)" using ys assms(3) by (rule copy_to_length)
  ultimately have "length (put_block (prod_list (e # ds)) k ys (elems x)) = length (elems x)"
    using assms(2) sh by (intro length_put_block) (simp_all add: well_shaped_def)
  then show ?thesis using sh x' assms(2) by (simp add: well_shaped_def)
qed

lemma map_update_same:
  "map_of sd name = Some x \<Longrightarrow> f x' = f x \<Longrightarrow>
     map (\<lambda>(k, x). (k, f x)) (AList.update name x' sd) = map (\<lambda>(k, x). (k, f x)) sd"
  by (induction sd) (auto split: if_splits)

lemma list_all_update:
  "list_all (\<lambda>(k, x). P x) sd \<Longrightarrow> P x' \<Longrightarrow> list_all (\<lambda>(k, x). P x) (AList.update name x' sd)"
  by (induction sd) auto

lemma wf_update_storage:
  assumes "wf_buffer b" "map_of (storage_dict b) name = Some x" "shape x' = shape x" "well_shaped x'"
  shows "wf_buffer (b\<lparr>storage_dict := AList.update name x' (storage_dict b)\<rparr>)"
  using assms
  by (simp add: wf_buffer_def layout_def map_update_same list_all_update)

lemma wf_data_dict: "wf_buffer (b\<lparr>data_dict := D\<rparr>) = wf_buffer b"
  by (simp add: wf_buffer_def layout_def)

lemma store_row_Inr:
  assumes "store_row b name i a = Inr b'"
  shows "\<exists>x x'. map_of (storage_dict b) name = Some x
     \<and> setitem_row x i (convert name a) = Inr x'
     \<and> b' = b\<lparr>storage_dict := AList.update name x' (storage_dict b),
               data_dict := map_option (alias_row name (shape x) i (convert name a))
                 (data_dict b)\<rparr>"
  using assms
  by (auto simp: store_row_def rbind_eq_Inr dict_get_def split: option.splits)

lemma wf_update_data:
  assumes "wf_buffer b" "well_shaped a"
  shows "wf_buffer (snd (update_data b name i (Array a)))"
proof (cases "store_row b name i a")
  case (Inl e)
  then show ?thesis using assms by (simp add: update_data_def)
next
  case (Inr b')
  from store_row_Inr [OF this] obtain x x' where
    x: "map_of (storage_dict b) name = Some x" "setitem_row x i (convert name a) = Inr x'"
    and b': "b' = b\<lparr>storage_dict := AList.update name x' (storage_dict b),
               data_dict := map_option (alias_row name (shape x) i (convert name a))
                 (data_dict b)\<rparr>"
    by blast
  from x(1) have "(name, x) \<in> set (storage_dict b)" by (rule map_of_SomeD)
  with assms(1) have "well_shaped x" by (auto simp: wf_buffer_def list_all_iff)
  moreover from assms(2) have "well_shaped (convert name a)" by simp
  ultimately have "shape x' = shape x \<and> well_shaped x'"
    using x(2) by (intro setitem_row_shape)
  with assms(1) x(1) have "wf_buffer (b\<lparr>storage_dict := AList.update name x' (storage_dict b)\<rparr>)"
    by (intro wf_update_storage) simp_all
  then have "wf_buffer b'"
    unfolding b'
    using wf_data_dict [where b = "b\<lparr>storage_dict := AList.update name x' (storage_dict b)\<rparr>"]
    by simp
  with Inr show ?thesis by (simp add: update_data_def)
qed

lemma dictionaries_only_refl: "dictionaries_only b b"
  by (simp add: dictionaries_only_def)

lemma dictionaries_only_update:
  "dictionaries_only b (b\<lparr>storage_dict := S, data_dict := D\<rparr>)"
  "dictionaries_only b (b\<lparr>data_dict := D\<rparr>)"
  by (simp_all add: dictionaries_only_def)

lemma dictionaries_only_trans:
  assumes "dictionaries_only b b'" "dictionaries_only b' b''"
  shows "dictionaries_only b b''"
proof -
  from assms(1) have 1: "b' = b\<lparr>storage_dict := storage_dict b', data_dict := data_dict b'\<rparr>"
    by (simp add: dictionaries_only_def)
  from assms(2) have 2: "b'' = b'\<lparr>storage_dict := storage_dict b'', data_dict := data_dict b''\<rparr>"
    by (simp add: dictionaries_only_def)
  have "b'' = b\<lparr>storage_dict := storage_dict b'', data_dict := data_dict b''\<rparr>"
    by (subst 2, subst 1) simp
  then show ?thesis by (simp add: dictionaries_only_def)
qed

lemma dictionaries_only_attributes:
  assumes "dictionaries_only b b'"
  shows "num_envs b' = num_envs b" "transitions_per_env b' = transitions_per_env b"
    "act_dim b' = act_dim b" "last_range b' = last_range b"
    "obs_dim b' = obs_dim b" "priv_dim b' = priv_dim b"
    "point_cloud_dim b' = point_cloud_dim b" "batch_size b' = batch_size b"
    "minibatch_size b' = minibatch_size b" "length' b' = length' b"
proof -
  from assms have 1: "b' = b\<lparr>storage_dict := storage_dict b', data_dict := data_dict b'\<rparr>"
    by (simp add: dictionaries_only_def)
  show "num_envs b' = num_envs b" by (subst 1) simp
  show "transitions_per_env b' = transitions_per_env b" by (subst 1) simp
  show "act_dim b' = act_dim b" by (subst 1) simp
  show "last_range b' = last_range b" by (subst 1) simp
  show "obs_dim b' = obs_dim b" by (subst 1) simp
  show "priv_dim b' = priv_dim b" by (subst 1) simp
  show "point_cloud_dim b' = point_cloud_dim b" by (subst 1) simp
  show "batch_size b' = batch_size b" by (subst 1) simp
  show "minibatch_size b' = minibatch_size b" by (subst 1) simp
  show "length' b' = length' b" by (subst 1) simp
qed

lemma store_item_dictionaries:
  "store_item b name k index v = Inr b' \<Longrightarrow> dictionaries_only b b'"
  by (cases k) (auto simp: store_item_def rbind_eq_Inr dictionaries_only_update)

lemma update_items_dictionaries:
  "dictionaries_only b (snd (update_items b name index kvs))"
proof (induction kvs arbitrary: b)
  case Nil
  show ?case by (simp add: dictionaries_only_refl)
next
  case (Cons kv kvs)
  obtain k v where kv: "kv = (k, v)" by (cases kv)
  show ?case
  proof (cases "store_item b name k index v")
    case (Inl e)
    then show ?thesis by (simp add: kv dictionaries_only_refl)
  next
    case (Inr b')
    from store_item_dictionaries [OF Inr] Cons.IH [of b']
    have "dictionaries_only b (snd (update_items b' name index kvs))"
      by (rule dictionaries_only_trans)
    with Inr show ?thesis by (simp add: kv)
  qed
qed

lemma update_data_dictionaries: "dictionaries_only b (snd (update_data b name index v))"
proof (cases v)
  case (Dict kvs)
  then show ?thesis by (simp add: update_data_def update_items_dictionaries)
next
  case (Array a)
  show ?thesis
  proof (cases "store_row b name index a")
    case (Inl e)
    with Array show ?thesis by (simp add: update_data_def dictionaries_only_refl)
  next
    case (Inr b')
    with Array store_row_Inr [OF Inr] show ?thesis
      by (auto simp: update_data_def dictionaries_only_update)
  qed
qed

lemma update_data_attributes:
  "num_envs (snd (update_data b name i v)) = num_envs b"
  "transitions_per_env (snd (update_data b name i v)) = transitions_per_env b"
  "obs_dim (snd (update_data b name i v)) = obs_dim b"
  "act_dim (snd (update_data b name i v)) = act_dim b"
  "priv_dim (snd (update_data b name i v)) = priv_dim b"
  "point_cloud_dim (snd (update_data b name i v)) = point_cloud_dim b"
  "batch_size (snd (update_data b name i v)) = batch_size b"
  "minibatch_size (snd (update_data b name i v)) = minibatch_size b"
  "length' (snd (update_data b name i v)) = length' b"
  "last_range (snd (update_data b name i v)) = last_range b"
  using dictionaries_only_attributes [OF update_data_dictionaries [of b name i v]]
  by simp_all

lemma wf_computer_return:
  assumes "wf_buffer b" "shape last_values = [num_envs b, 1]" "well_shaped last_values"
  shows "wf_buffer (snd (computer_return b last_values gamma tau))"
proof -
  from computer_return_rows [OF assms] obtain final D where
    f: "computer_return b last_values gamma tau
        = (Inr (), b\<lparr>storage_dict :=
             AList.update ''returns'' (Tensor [transitions_per_env b, num_envs b, 1] final)
               (storage_dict b),
             data_dict := D\<rparr>)"
      "length final = transitions_per_env b * num_envs b"
    by blast
  obtain x where x: "map_of (storage_dict b) ''returns'' = Some x"
    "shape x = [transitions_per_env b, num_envs b, 1]"
    using wf_lookup [OF assms(1), of "''returns''" "[transitions_per_env b, num_envs b, 1]"]
    by (auto simp: layout_def Let_def)
  have "wf_buffer (b\<lparr>storage_dict :=
             AList.update ''returns'' (Tensor [transitions_per_env b, num_envs b, 1] final)
               (storage_dict b)\<rparr>)"
    using assms(1) x(1) by (rule wf_update_storage) (simp_all add: x(2) f(2) well_shaped_def)
  then have "wf_buffer (b\<lparr>storage_dict :=
             AList.update ''returns'' (Tensor [transitions_per_env b, num_envs b, 1] final)
               (storage_dict b),
             data_dict := D\<rparr>)"
    using wf_data_dict
      [where b = "b\<lparr>storage_dict :=
             AList.update ''returns'' (Tensor [transitions_per_env b, num_envs b, 1] final)
               (storage_dict b)\<rparr>"]
    by simp
  with f(1) show ?thesis by simp
qed

section \<open>The example buffers, evaluated\<close>

lemmas eval_defs =
  init_def update_data_def store_row_def dict_get_def setitem_row_def norm_index_def
  copy_to_def expand_def pad_shape_def put_block_def zeros_def block_def
  convert_fields convert_dones tmap_def trunc_def

lemma example_buffer_eq: "init 1 2 2 1 1 1 1 1 = Inr example_buffer"
  by (simp add: example_buffer_def init_def)

lemma wf_example_buffer: "wf_buffer example_buffer"
  using example_buffer_eq by (rule wf_init)

lemma wf_example_rollout: "wf_buffer example_rollout"
  unfolding example_rollout_def
  by (intro wf_update_data wf_example_buffer) (simp_all add: well_shaped_def)

lemma wf_example_terminal: "wf_buffer example_terminal"
  unfolding example_terminal_def
  by (intro wf_update_data wf_example_rollout) (simp_all add: well_shaped_def)

lemma example_rollout_storage:
  "storage_dict example_rollout =
     [(''obses'', Tensor [2, 1, 1] [0, 0]),
      (''priv_info'', Tensor [2, 1, 1] [0, 0]),
      (''point_cloud_info'', Tensor [2, 1, 1, 3] [0, 0, 0, 0, 0, 0]),
      (''rewards'', Tensor [2, 1, 1] [1, 1]),
      (''values'', Tensor [2, 1, 1] [0, 2]),
      (''neglogpacs'', Tensor [2, 1] [0, 0]),
      (''dones'', Tensor [2, 1] [0, 0]),
      (''actions'', Tensor [2, 1, 1] [0, 0]),
      (''mus'', Tensor [2, 1, 1] [0, 0]),
      (''sigmas'', Tensor [2, 1, 1] [0, 0]),
      (''returns'', Tensor [2, 1, 1] [0, 0])]"
  by (simp add: example_rollout_def example_buffer_def eval_defs eval_nat_numeral)

lemma example_rollout_dims:
  "num_envs example_rollout = 1" "transitions_per_env example_rollout = 2"
  by (simp_all add: example_rollout_def example_buffer_def eval_defs)

lemma example_terminal_storage:
  "storage_dict example_terminal =
     [(''obses'', Tensor [2, 1, 1] [0, 0]),
      (''priv_info'', Tensor [2, 1, 1] [0, 0]),
      (''point_cloud_info'', Tensor [2, 1, 1, 3] [0, 0, 0, 0, 0, 0]),
      (''rewards'', Tensor [2, 1, 1] [1, 1]),
      (''values'', Tensor [2, 1, 1] [0, 2]),
      (''neglogpacs'', Tensor [2, 1] [0, 0]),
      (''dones'', Tensor [2, 1] [1, 1]),
      (''actions'', Tensor [2, 1, 1] [0, 0]),
      (''mus'', Tensor [2, 1, 1] [0, 0]),
      (''sigmas'', Tensor [2, 1, 1] [0, 0]),
      (''returns'', Tensor [2, 1, 1] [0, 0])]"
  by (simp add: example_terminal_def example_rollout_storage eval_defs)

lemma example_terminal_dims:
  "num_envs example_terminal = 1" "transitions_per_env example_terminal = 2"
  by (simp_all add: example_terminal_def example_rollout_dims update_data_attributes)

lemma example_terminal_scalars:
  "scalar example_terminal ''rewards'' t 0 = [1, 1] ! t"
  "scalar example_terminal ''values'' t 0 = [0, 2] ! t"
  "scalar example_terminal ''dones'' t 0 = [1, 1] ! t"
  by (simp_all add: scalar_def example_terminal_storage example_terminal_dims)

lemma less_two_cases: "t < (2::nat) \<Longrightarrow> t = 0 \<or> t = 1"
  by auto

section \<open>Consequences of the loop lemma\<close>

lemma last_gae_terminal:
  assumes "\<forall>t<T. done t = 1" "t < T"
  shows "last_gae reward value done bootstrap gamma tau T t = reward t - value t"
  using assms by (simp add: last_gae_step)

lemma last_gae_tau_zero:
  assumes "t < T"
  shows "last_gae reward value done bootstrap gamma 0 T t =
           reward t + gamma * (if Suc t = T then bootstrap else value (Suc t)) * (1 - done t)
           - value t"
  using assms by (simp add: last_gae_step)

lemma scalar_update_other:
  "name \<noteq> k \<Longrightarrow>
     scalar (b\<lparr>storage_dict := AList.update k x (storage_dict b), data_dict := D\<rparr>) name t e
       = scalar b name t e"
  by (simp add: scalar_def update_conv' split: option.splits)

lemma scalar_update_same:
  "scalar (b\<lparr>storage_dict := AList.update k x (storage_dict b), data_dict := D\<rparr>) k t e
     = elems x ! (t * num_envs b + e)"
  by (simp add: scalar_def update_conv')

lemma computer_return_scalars:
  assumes "wf_buffer b" "shape last_values = [num_envs b, 1]" "well_shaped last_values"
  shows "fst (computer_return b last_values gamma tau) = Inr ()"
    and "\<And>t e. t < transitions_per_env b \<Longrightarrow> e < num_envs b \<Longrightarrow>
           scalar (snd (computer_return b last_values gamma tau)) ''returns'' t e
           = last_gae (\<lambda>t. scalar b ''rewards'' t e) (\<lambda>t. scalar b ''values'' t e)
               (\<lambda>t. scalar b ''dones'' t e) (elems last_values ! e) gamma tau
               (transitions_per_env b) t
             + scalar b ''values'' t e"
    and "\<And>name t e. name \<noteq> ''returns'' \<Longrightarrow>
           scalar (snd (computer_return b last_values gamma tau)) name t e = scalar b name t e"
proof -
  from computer_return_rows [OF assms, of gamma tau] obtain final D where
    f: "computer_return b last_values gamma tau
        = (Inr (), b\<lparr>storage_dict :=
             AList.update ''returns'' (Tensor [transitions_per_env b, num_envs b, 1] final)
               (storage_dict b),
             data_dict := D\<rparr>)"
      "\<forall>t<transitions_per_env b. \<forall>e<num_envs b. final ! (t * num_envs b + e) =
            last_gae (\<lambda>t. scalar b ''rewards'' t e) (\<lambda>t. scalar b ''values'' t e)
              (\<lambda>t. scalar b ''dones'' t e) (elems last_values ! e) gamma tau
              (transitions_per_env b) t
            + scalar b ''values'' t e"
    by blast
  show "fst (computer_return b last_values gamma tau) = Inr ()"
    by (simp add: f(1))
  show "\<And>t e. t < transitions_per_env b \<Longrightarrow> e < num_envs b \<Longrightarrow>
           scalar (snd (computer_return b last_values gamma tau)) ''returns'' t e
           = last_gae (\<lambda>t. scalar b ''rewards'' t e) (\<lambda>t. scalar b ''values'' t e)
               (\<lambda>t. scalar b ''dones'' t e) (elems last_values ! e) gamma tau
               (transitions_per_env b) t
             + scalar b ''values'' t e"
    using f(2) by (simp add: f(1) scalar_update_same)
  show "\<And>name t e. name \<noteq> ''returns'' \<Longrightarrow>
           scalar (snd (computer_return b last_values gamma tau)) name t e = scalar b name t e"
    by (simp add: f(1) scalar_update_other)
qed

lemma example_rollout_scalars:
  "scalar example_rollout ''rewards'' t 0 = [1, 1] ! t"
  "scalar example_rollout ''values'' t 0 = [0, 2] ! t"
  "scalar example_rollout ''dones'' t 0 = [0, 0] ! t"
  by (simp_all add: scalar_def example_rollout_storage example_rollout_dims)

lemma only_returns_assigned_refl: "only_returns_assigned b b"
  by (simp add: only_returns_assigned_def)

lemma only_returns_assigned_trans:
  assumes "only_returns_assigned b b'" "only_returns_assigned b' b''"
  shows "only_returns_assigned b b''"
proof -
  from assms have a: "b'\<lparr>storage_dict := storage_dict b'', data_dict := data_dict b''\<rparr> = b''"
    and b: "b\<lparr>storage_dict := storage_dict b', data_dict := data_dict b'\<rparr> = b'"
    by (simp_all add: only_returns_assigned_def)
  have "b\<lparr>storage_dict := storage_dict b'', data_dict := data_dict b''\<rparr>
      = (b\<lparr>storage_dict := storage_dict b', data_dict := data_dict b'\<rparr>)
          \<lparr>storage_dict := storage_dict b'', data_dict := data_dict b''\<rparr>"
    by simp
  also have "\<dots> = b''" by (simp only: a b)
  finally have "b'' = b\<lparr>storage_dict := storage_dict b'', data_dict := data_dict b''\<rparr>"
    by simp
  with assms show ?thesis by (simp add: only_returns_assigned_def)
qed

lemma key_present: "map_of al k = Some v \<Longrightarrow> k \<in> set (map fst al)"
  by (metis map_of_eq_None_iff option.distinct(1) set_map)

lemma alias_row_frame:
  "map fst (alias_row name sh i v dd) = map fst dd"
  "AList.delete name (alias_row name sh i v dd) = AList.delete name dd"
  by (auto simp: alias_row_def update_keys delete_update_same dest: key_present
      split: option.splits sum.splits)

lemma alias_slice_frame:
  "map fst (alias_slice name sh start end' v sd) = map fst sd"
  "AList.delete name (alias_slice name sh start end' v sd) = AList.delete name sd"
  by (auto simp: alias_slice_def update_keys delete_update_same dest: key_present
      split: option.splits sum.splits)

lemma store_row_only_returns:
  assumes "store_row b ''returns'' i v = Inr b'"
  shows "only_returns_assigned b b'"
proof -
  from store_row_Inr [OF assms] obtain x x' where
    x: "map_of (storage_dict b) ''returns'' = Some x"
    and b': "b' = b\<lparr>storage_dict := AList.update ''returns'' x' (storage_dict b),
               data_dict := map_option (alias_row ''returns'' (shape x) i (convert ''returns'' v))
                 (data_dict b)\<rparr>"
    by blast
  have kp: "''returns'' \<in> fst ` set (storage_dict b)"
    using key_present [OF x] by simp
  show ?thesis
    unfolding b' only_returns_assigned_def
    by (cases "data_dict b")
       (simp_all add: update_keys delete_update_same kp alias_row_frame)
qed

lemma gae_step_frame:
  assumes "gae_step gamma tau last_values b t mb_advs lg = Inr (b', mb_advs', lg')"
  shows "only_returns_assigned b b'"
proof -
  from assms obtain ret where "store_row b ''returns'' (int t) ret = Inr b'"
    unfolding gae_step_def rbind_eq_Inr by blast
  then show ?thesis by (rule store_row_only_returns)
qed

lemma gae_loop_frame:
  "only_returns_assigned b (snd (gae_loop gamma tau last_values ts b mb_advs lg))"
proof (induction ts arbitrary: b mb_advs lg)
  case Nil
  then show ?case by (simp add: only_returns_assigned_refl)
next
  case (Cons t ts)
  show ?case
  proof (cases "gae_step gamma tau last_values b t mb_advs lg")
    case (Inl e)
    then show ?thesis by (simp add: only_returns_assigned_refl)
  next
    case (Inr r)
    then obtain b' mb_advs' lg' where
      r: "gae_step gamma tau last_values b t mb_advs lg = Inr (b', mb_advs', lg')"
      by (cases r) auto
    from r have "only_returns_assigned b b'" by (rule gae_step_frame)
    moreover have "only_returns_assigned b'
        (snd (gae_loop gamma tau last_values ts b' mb_advs' lg'))"
      by (rule Cons.IH)
    ultimately show ?thesis using r
      by (simp add: only_returns_assigned_trans)
  qed
qed

lemma computer_return_only_returns:
  "only_returns_assigned b (snd (computer_return b last_values gamma tau))"
  by (cases "dict_get (storage_dict b) ''rewards''")
     (simp_all add: computer_return_def only_returns_assigned_refl gae_loop_frame)

section \<open>Facts about \<open>transform_op\<close>\<close>

lemma index_less:
  assumes "e < E" "t < T"
  shows "t * E + e < T * (E::nat)"
proof -
  have "t * E + e < (t + 1) * E" using assms(1) by simp
  also have "\<dots> \<le> T * E" using assms(2) by (rule block_le)
  finally show ?thesis .
qed

lemma length_concat_upt:
  "(\<And>j. j < m \<Longrightarrow> length (f j) = n) \<Longrightarrow> length (concat (map f [0..<m])) = m * n"
  by (induction m) auto

lemma block_append_left:
  "(i + 1) * n \<le> length xs \<Longrightarrow> block n i (xs @ ys) = block n i xs"
  by (simp add: block_def)

lemma block_append_right:
  "length xs = m * n \<Longrightarrow> block n (m + i) (xs @ ys) = block n i ys"
  by (simp add: block_def add_mult_distrib)

lemma block_map: "block n i (map f xs) = map f (block n i xs)"
  by (simp add: block_def take_map drop_map)

lemma block_concat_uniform:
  assumes "\<And>j. j < m \<Longrightarrow> length (f j) = n" "i < m"
  shows "block n i (concat (map f [0..<m])) = f i"
  using assms
proof (induction m)
  case 0
  then show ?case by simp
next
  case (Suc m)
  have len: "length (concat (map f [0..<m])) = m * n"
    using Suc.prems(1) by (intro length_concat_upt) simp
  show ?case
  proof (cases "i < m")
    case True
    then have "(i + 1) * n \<le> m * n" by (rule block_le)
    then have "block n i (concat (map f [0..<m]) @ f m) = block n i (concat (map f [0..<m]))"
      using len by (simp add: block_append_left)
    with True Suc show ?thesis by simp
  next
    case False
    with Suc.prems(2) have i: "i = m" by simp
    have "block n (m + 0) (concat (map f [0..<m]) @ f m) = block n 0 (f m)"
      using len by (rule block_append_right)
    then show ?thesis using i Suc.prems(1) [of m] by (simp add: block_def)
  qed
qed

lemma block_block:
  assumes "t < T"
  shows "block n t (block (T * n) e xs) = block n (e * T + t) xs"
proof -
  from assms have "(t + 1) * n \<le> T * n" by (rule block_le)
  then have "n \<le> T * n - t * n" by simp
  then have "take n (take (T * n - t * n) (drop (t * n) (drop (e * (T * n)) xs)))
      = take n (drop (t * n) (drop (e * (T * n)) xs))"
    by (simp add: min_def)
  then show ?thesis
    by (simp add: block_def drop_take add_mult_distrib add.commute mult.assoc)
qed

lemma transform_op_Some:
  "2 \<le> length (shape x) \<Longrightarrow> transform_op (Some x) = Inr (Some (swap_flatten x))"
proof -
  assume "2 \<le> length (shape x)"
  then obtain s0 s1 rest where "shape x = s0 # s1 # rest"
    by (metis Suc_le_length_iff numeral_2_eq_2)
  then show ?thesis by (simp add: swap_flatten_def)
qed

lemma swap_flatten_eq:
  "shape x = s0 # s1 # rest \<Longrightarrow>
   swap_flatten x = Tensor ((s0 * s1) # rest)
     (concat (map (\<lambda>e. concat (map (\<lambda>t. block (prod_list rest) (t * s1 + e) (elems x)) [0..<s0]))
                  [0..<s1]))"
  by (simp add: swap_flatten_def)

lemma swap_flatten_block:
  assumes sh: "shape x = T # E # rest" and ws: "well_shaped x" and t: "t < T" and e: "e < E"
  shows "block (prod_list rest) (e * T + t) (elems (swap_flatten x))
         = block (prod_list rest) (t * E + e) (elems x)"
proof -
  let ?n = "prod_list rest"
  let ?g = "\<lambda>e t. block ?n (t * E + e) (elems x)"
  let ?f = "\<lambda>e. concat (map (?g e) [0..<T])"
  have len: "length (elems x) = T * E * ?n"
    using sh ws by (simp add: well_shaped_def)
  have lg: "\<And>e t. e < E \<Longrightarrow> t < T \<Longrightarrow> length (?g e t) = ?n"
  proof -
    fix e t assume "e < E" "t < T"
    then have "t * E + e < T * E"
      by (rule index_less)
    then have "((t * E + e) + 1) * ?n \<le> (T * E) * ?n" by (rule block_le)
    with len show "length (?g e t) = ?n" by (simp add: length_block)
  qed
  have lf: "\<And>e. e < E \<Longrightarrow> length (?f e) = T * ?n"
    using lg by (intro length_concat_upt) simp
  have "block ?n (e * T + t) (concat (map ?f [0..<E])) = block ?n t (block (T * ?n) e (concat (map ?f [0..<E])))"
    using t by (simp add: block_block)
  also have "block (T * ?n) e (concat (map ?f [0..<E])) = ?f e"
    using lf e by (intro block_concat_uniform) simp_all
  also have "block ?n t (?f e) = ?g e t"
    using lg e t by (intro block_concat_uniform) simp_all
  finally show ?thesis by (simp add: swap_flatten_eq [OF sh])
qed

lemma swap_flatten_well_shaped:
  assumes sh: "shape x = T # E # rest" and ws: "well_shaped x"
  shows "shape (swap_flatten x) = (T * E) # rest" "well_shaped (swap_flatten x)"
proof -
  let ?n = "prod_list rest"
  have len: "length (elems x) = T * E * ?n"
    using sh ws by (simp add: well_shaped_def)
  have lg: "\<And>e t. e < E \<Longrightarrow> t < T \<Longrightarrow> length (block ?n (t * E + e) (elems x)) = ?n"
  proof -
    fix e t assume "e < E" "t < T"
    then have "t * E + e < T * E"
      by (rule index_less)
    then have "((t * E + e) + 1) * ?n \<le> (T * E) * ?n" by (rule block_le)
    with len show "length (block ?n (t * E + e) (elems x)) = ?n" by (simp add: length_block)
  qed
  show "shape (swap_flatten x) = (T * E) # rest" by (simp add: swap_flatten_eq [OF sh])
  have inner: "\<And>e. e < E \<Longrightarrow>
      length (concat (map (\<lambda>t. block ?n (t * E + e) (elems x)) [0..<T])) = T * ?n"
    using lg by (intro length_concat_upt) simp
  have "length (concat (map (\<lambda>e. concat (map (\<lambda>t. block ?n (t * E + e) (elems x)) [0..<T])) [0..<E]))
      = E * (T * ?n)"
    by (rule length_concat_upt) (rule inner)
  then show "well_shaped (swap_flatten x)"
    by (simp add: swap_flatten_eq [OF sh] well_shaped_def mult.assoc mult.left_commute)
qed

section \<open>The result of \<open>prepare_training\<close>\<close>

lemma update_append_new:
  "k \<notin> fst ` set al \<Longrightarrow> AList.update k v al = al @ [(k, v)]"
  by (induction al) auto

lemma transform_items_ok:
  assumes "distinct (map fst dd @ map fst kvs)"
    "list_all (\<lambda>(k, x). 2 \<le> length (shape x)) kvs"
  shows "transform_items kvs dd = (None, dd @ map (\<lambda>(k, x). (k, swap_flatten x)) kvs)"
  using assms
proof (induction kvs arbitrary: dd)
  case Nil
  then show ?case by simp
next
  case (Cons kv kvs)
  obtain k x where kv: "kv = (k, x)" by (cases kv)
  from Cons.prems kv have k: "k \<notin> fst ` set dd" and x: "2 \<le> length (shape x)"
    by auto
  have d: "distinct (map fst (dd @ [(k, swap_flatten x)]) @ map fst kvs)"
    using Cons.prems(1) kv by auto
  have "transform_items (kv # kvs) dd = transform_items kvs (dd @ [(k, swap_flatten x)])"
    using k x by (simp add: kv transform_op_Some update_append_new del: transform_op.simps)
  also have "\<dots> = (None, (dd @ [(k, swap_flatten x)]) @ map (\<lambda>(k, x). (k, swap_flatten x)) kvs)"
    using d Cons.prems(2) by (intro Cons.IH) simp_all
  finally show ?case by (simp add: kv)
qed

lemma wf_keys: "wf_buffer b \<Longrightarrow> map fst (storage_dict b) = map fst (layout b)"
proof -
  assume "wf_buffer b"
  then have "map fst (map (\<lambda>(k, x). (k, shape x)) (storage_dict b)) = map fst (layout b)"
    by (simp add: wf_buffer_def)
  moreover have "map fst (map (\<lambda>(k, x). (k, shape x)) (storage_dict b)) = map fst (storage_dict b)"
    by (induction "storage_dict b") auto
  ultimately show ?thesis by simp
qed

lemma layout_shape:
  "(k, s) \<in> set (layout b) \<Longrightarrow> \<exists>sh. s = transitions_per_env b # num_envs b # sh"
  by (auto simp: layout_def Let_def)

lemma layout_distinct: "distinct (map fst (layout b))"
  by (simp add: layout_def Let_def)

lemma wf_entry:
  assumes "wf_buffer b" "(k, x) \<in> set (storage_dict b)"
  shows "(k, shape x) \<in> set (layout b) \<and> well_shaped x"
proof -
  from assms(2) have "(k, shape x) \<in> set (map (\<lambda>(k, x). (k, shape x)) (storage_dict b))"
    by force
  with assms show ?thesis by (auto simp: wf_buffer_def list_all_iff)
qed

lemma block_one: "k < length xs \<Longrightarrow> block 1 k xs = [xs ! k]"
  by (simp add: block_def take_Suc_conv_app_nth)

lemma flat_scalars:
  assumes sh: "shape x = [T, E, 1]" and ws: "well_shaped x"
  shows "elems (swap_flatten x) = map (\<lambda>i. elems x ! ((i mod T) * E + i div T)) [0..<T * E]"
proof (rule nth_equalityI)
  have len: "length (elems x) = T * E" using sh ws by (simp add: well_shaped_def)
  have fl: "length (elems (swap_flatten x)) = T * E"
    using swap_flatten_well_shaped [OF sh ws] by (simp add: well_shaped_def)
  then show "length (elems (swap_flatten x))
      = length (map (\<lambda>i. elems x ! ((i mod T) * E + i div T)) [0..<T * E])"
    by simp
  fix i assume "i < length (elems (swap_flatten x))"
  with fl have i: "i < T * E" by simp
  then have T: "0 < T" by (cases T) auto
  define t where "t = i mod T"
  define e where "e = i div T"
  have t: "t < T" using T by (simp add: t_def)
  have e: "e < E" using i by (simp add: e_def less_mult_imp_div_less mult.commute)
  have ie: "i = e * T + t" by (simp add: t_def e_def)
  have lt: "t * E + e < length (elems x)" using len index_less [OF e t] by simp
  have "[elems (swap_flatten x) ! i] = block 1 (e * T + t) (elems (swap_flatten x))"
    using i fl block_one [of "e * T + t" "elems (swap_flatten x)"] by (simp add: ie)
  also have "\<dots> = block 1 (t * E + e) (elems x)"
    using swap_flatten_block [OF sh ws t e] by simp
  also have "\<dots> = [elems x ! (t * E + e)]"
    using lt by (rule block_one)
  finally show "elems (swap_flatten x) ! i
      = map (\<lambda>i. elems x ! ((i mod T) * E + i div T)) [0..<T * E] ! i"
    using i by (simp add: t_def e_def)
qed

lemma map2_map_upt:
  "map2 f (map g [0..<n]) (map h [0..<n]) = map (\<lambda>i. f (g i) (h i)) [0..<n]"
  by (rule map2_map_map)

lemma map_of_flat:
  "map_of (map (\<lambda>(k, x). (k, f x)) sd) k = map_option f (map_of sd k)"
  by (induction sd) auto

lemma prepare_training_ok:
  assumes wf_buffer: "wf_buffer b"
  shows "prepare_training b = (Inr (training_view b), b\<lparr>data_dict := Some (training_view b)\<rparr>)"
proof -
  let ?T = "transitions_per_env b" and ?E = "num_envs b"
  let ?dd = "map (\<lambda>(k, x). (k, swap_flatten x)) (storage_dict b)"
  have dist: "distinct (map fst (storage_dict b))"
    using wf_keys [OF wf_buffer] layout_distinct by simp
  have two: "list_all (\<lambda>(k, x). 2 \<le> length (shape x)) (storage_dict b)"
    unfolding list_all_iff
  proof (intro ballI)
    fix kx assume "kx \<in> set (storage_dict b)"
    moreover obtain k x where "kx = (k, x)" by (cases kx)
    ultimately have kx: "kx = (k, x)" "(k, x) \<in> set (storage_dict b)" by simp_all
    from wf_entry [OF wf_buffer kx(2)] layout_shape [of k "shape x" b]
    show "case kx of (k, x) \<Rightarrow> 2 \<le> length (shape x)" by (auto simp: kx(1))
  qed
  have ti: "transform_items (storage_dict b) [] = (None, ?dd)"
    using transform_items_ok [of "[]" "storage_dict b"] dist two by simp
  obtain r where r: "map_of (storage_dict b) ''returns'' = Some r"
    "shape r = [?T, ?E, 1]" "well_shaped r"
    using wf_lookup [OF wf_buffer, of "''returns''" "[?T, ?E, 1]"] by (auto simp: layout_def Let_def)
  obtain v where v: "map_of (storage_dict b) ''values'' = Some v"
    "shape v = [?T, ?E, 1]" "well_shaped v"
    using wf_lookup [OF wf_buffer, of "''values''" "[?T, ?E, 1]"] by (auto simp: layout_def Let_def)
  have gr: "dict_get ?dd ''returns'' = Inr (swap_flatten r)"
    "dict_get ?dd ''values'' = Inr (swap_flatten v)"
    using r(1) v(1) by (simp_all add: dict_get_def map_of_flat)
  have fr: "shape (swap_flatten r) = [?T * ?E, 1]" "well_shaped (swap_flatten r)"
    using swap_flatten_well_shaped [OF r(2,3)] by simp_all
  have fv: "shape (swap_flatten v) = [?T * ?E, 1]" "well_shaped (swap_flatten v)"
    using swap_flatten_well_shaped [OF v(2,3)] by simp_all
  have raw: "map2 (-) (elems (swap_flatten r)) (elems (swap_flatten v)) = raw_advantages b"
    unfolding flat_scalars [OF r(2,3)] flat_scalars [OF v(2,3)] map2_map_upt
    by (simp add: raw_advantages_def scalar_def r(1) v(1))
  have sub: "binop (-) (swap_flatten r) (swap_flatten v)
      = Inr (Tensor [?T * ?E, 1] (raw_advantages b))"
    using binop_same_shape [of "swap_flatten r" "swap_flatten v" "(-)"] fr fv raw
    by (simp add: well_shaped_def)
  have sq: "squeeze1 (normalize_advantages (Tensor [?T * ?E, 1] (raw_advantages b)))
      = Inr (Tensor [?T * ?E] (elems (normalize_advantages (Tensor [?T * ?E, 1] (raw_advantages b)))))"
    by (simp add: squeeze1_def normalize_advantages_def tmap_def)
  have nk: "''advantages'' \<notin> fst ` set (view ?dd)"
  proof -
    have "fst ` set (view ?dd) = set (map fst (storage_dict b))"
      by (force simp: view_def)
    then show ?thesis using wf_keys [OF wf_buffer] by (simp add: layout_def Let_def)
  qed
  have up: "AList.update ''advantages''
        (Tensor [?T * ?E] (elems (normalize_advantages (Tensor [?T * ?E, 1] (raw_advantages b))))) (view ?dd)
      = training_view b"
    using nk by (simp add: update_append_new training_view_def)
  show ?thesis
    by (simp add: prepare_training_def ti gr sub sq up Let_def del: One_nat_def)
qed

lemma training_view_lookup:
  assumes "map_of (storage_dict b) name = Some x"
  shows "map_of (training_view b) name = Some (tmap Some (swap_flatten x))"
proof -
  have "map_of (view (map (\<lambda>(k, x). (k, swap_flatten x)) (storage_dict b))) name
      = Some (tmap Some (swap_flatten x))"
    unfolding view_def map_of_flat using assms by simp
  then show ?thesis
    by (simp add: training_view_def map_add_Some_iff)
qed

lemma viewed_training_view:
  assumes wf_buffer: "wf_buffer b" and x: "map_of (storage_dict b) name = Some x"
    and t: "t < transitions_per_env b" and e: "e < num_envs b"
  shows "viewed (training_view b) name (flat_index b t e) = map Some (stored b name t e)"
proof -
  from x have "(name, x) \<in> set (storage_dict b)" by (rule map_of_SomeD)
  from wf_entry [OF wf_buffer this] have l: "(name, shape x) \<in> set (layout b)" and ws: "well_shaped x"
    by simp_all
  from layout_shape [OF l] obtain sh where
    sh: "shape x = transitions_per_env b # num_envs b # sh" by blast
  have "viewed (training_view b) name (flat_index b t e)
      = map Some (block (prod_list sh) (e * transitions_per_env b + t) (elems (swap_flatten x)))"
    using swap_flatten_well_shaped(1) [OF sh ws]
    by (simp add: viewed_def training_view_lookup [OF x] tmap_def block_map flat_index_def)
  also have "\<dots> = map Some (block (prod_list sh) (t * num_envs b + e) (elems x))"
    using swap_flatten_block [OF sh ws t e] by simp
  also have "\<dots> = map Some (stored b name t e)"
    by (simp add: stored_def x sh)
  finally show ?thesis .
qed

lemma example_grid_eq: "init 2 2 4 2 1 1 1 1 = Inr example_grid"
  by (simp add: example_grid_def init_def)

lemma wf_example_grid: "wf_buffer example_grid"
  using example_grid_eq by (rule wf_init)

lemma example_grid_dims:
  "num_envs example_grid = 2" "transitions_per_env example_grid = 2"
  "obs_dim example_grid = 1" "act_dim example_grid = 1"
  "batch_size example_grid = 4" "minibatch_size example_grid = 2" "length' example_grid = 2"
  "last_range example_grid = None" "data_dict example_grid = None"
  by (simp_all add: example_grid_def init_def)

section \<open>When \<open>update_data\<close> raises\<close>

lemma copy_to_fails_iff: "isl (copy_to dst v) \<longleftrightarrow> \<not> broadcastable (shape v) dst"
  by (simp add: copy_to_def expand_def broadcastable_def Let_def)

lemma norm_index_None_iff: "norm_index n i = None \<longleftrightarrow> i < - int n \<or> int n \<le> i"
  by (auto simp: norm_index_def)

lemma norm_index_negative:
  "- int n \<le> i \<Longrightarrow> i < 0 \<Longrightarrow> norm_index n i = norm_index n (i + int n)"
  by (auto simp: norm_index_def)

lemma setitem_row_fails_iff:
  assumes "shape x = d # e # ds"
  shows "isl (setitem_row x i v)
     \<longleftrightarrow> \<not> (- int d \<le> i \<and> i < int d \<and> broadcastable (shape v) (e # ds))"
proof (cases "norm_index d i")
  case None
  then show ?thesis using assms norm_index_None_iff [of d i]
    by (auto simp: setitem_row_def)
next
  case (Some k)
  then have "\<not> (i < - int d \<or> int d \<le> i)"
    using norm_index_None_iff [of d i] by simp
  moreover have "isl (setitem_row x i v) \<longleftrightarrow> isl (copy_to (e # ds) v)"
    using assms Some by (cases "copy_to (e # ds) v") (simp_all add: setitem_row_def)
  ultimately show ?thesis by (auto simp: copy_to_fails_iff)
qed

lemma setitem_row_negative:
  assumes "- int d \<le> i" "i < 0" "shape x = d # e # ds"
  shows "setitem_row x i v = setitem_row x (i + int d) v"
  using assms by (simp add: setitem_row_def norm_index_negative)

lemma alias_row_negative:
  assumes "- int d \<le> i" "i < 0" "shape x = d # e # ds"
  shows "alias_row name (shape x) i v = alias_row name (shape x) (i + int d) v"
proof -
  have "\<And>y. setitem_row (Tensor (d # e # ds) (elems y)) i (tmap Some v)
      = setitem_row (Tensor (d # e # ds) (elems y)) (i + int d) (tmap Some v)"
    by (rule setitem_row_negative [OF assms(1,2)]) simp
  then show ?thesis
    by (intro ext) (simp add: alias_row_def assms(3) split: option.splits)
qed

lemma update_data_unchanged_on_error:
  "isl (fst (update_data b name i (Array v))) \<Longrightarrow> snd (update_data b name i (Array v)) = b"
  by (auto simp: update_data_def split: sum.splits)

section \<open>What \<open>update_data\<close> stores\<close>

lemma copy_to_expanded:
  "broadcastable (shape v) dst \<Longrightarrow> copy_to dst v = Inr (expanded dst v)"
  by (simp add: copy_to_def expand_def broadcastable_def expanded_def Let_def)

lemma broadcastable_same: "well_shaped v \<Longrightarrow> broadcastable (shape v) (shape v)"
  using copy_to_same [of v] copy_to_fails_iff [of "shape v" v]
  by (simp add: well_shaped_def)

lemma expanded_same: "well_shaped v \<Longrightarrow> expanded (shape v) v = elems v"
  using copy_to_same [of v] copy_to_expanded [OF broadcastable_same, of v]
  by (simp add: well_shaped_def)

lemma length_expanded:
  assumes "broadcastable (shape v) dst" "well_shaped v"
  shows "length (expanded dst v) = prod_list dst"
  using copy_to_expanded [OF assms(1)] assms(2) by (rule copy_to_length)

lemma norm_index_Some:
  "norm_index n i = Some k \<longleftrightarrow>
     - int n \<le> i \<and> i < int n \<and> k = nat (if i < 0 then i + int n else i)"
  by (auto simp: norm_index_def)

lemma update_data_stores:
  assumes wf: "wf_buffer b"
    and name: "(name, transitions_per_env b # num_envs b # sh) \<in> set (layout b)"
    and i: "- int (transitions_per_env b) \<le> i" "i < int (transitions_per_env b)"
    and v: "broadcastable (shape v) (num_envs b # sh)"
  shows "\<exists>x. map_of (storage_dict b) name = Some x
      \<and> shape x = transitions_per_env b # num_envs b # sh \<and> well_shaped x
      \<and> update_data b name i (Array v)
          = (Inr (), b\<lparr>storage_dict :=
               AList.update name
                 (Tensor (transitions_per_env b # num_envs b # sh)
                    (put_block (num_envs b * prod_list sh)
                       (nat (if i < 0 then i + int (transitions_per_env b) else i))
                       (expanded (num_envs b # sh) (convert name v)) (elems x)))
                 (storage_dict b),
               data_dict :=
                 map_option
                   (alias_row name (transitions_per_env b # num_envs b # sh) i (convert name v))
                   (data_dict b)\<rparr>)"
proof -
  let ?t = "nat (if i < 0 then i + int (transitions_per_env b) else i)"
  from wf_lookup [OF wf name] obtain x where
    x: "map_of (storage_dict b) name = Some x"
    "shape x = transitions_per_env b # num_envs b # sh" "well_shaped x"
    by blast
  have n: "norm_index (transitions_per_env b) i = Some ?t"
    using i by (simp add: norm_index_Some)
  have "copy_to (num_envs b # sh) (convert name v)
      = Inr (expanded (num_envs b # sh) (convert name v))"
    using v by (intro copy_to_expanded) simp
  then have "setitem_row x i (convert name v)
      = Inr (Tensor (transitions_per_env b # num_envs b # sh)
               (put_block (num_envs b * prod_list sh) ?t
                  (expanded (num_envs b # sh) (convert name v)) (elems x)))"
    using x(2) n by (simp add: setitem_row_def)
  then show ?thesis using x
    by (simp add: update_data_def store_row_def dict_get_def)
qed

lemma alias_row_apart:
  "s0 \<noteq> 1 \<Longrightarrow> s1 \<noteq> 1 \<Longrightarrow> map_option (alias_row name (s0 # s1 # rest) i v) D = D"
  by (cases D) (simp_all add: alias_row_def reshape_is_view_def split: option.splits)

lemma update_data_ok:
  assumes wf_buffer: "wf_buffer b"
    and name: "(name, transitions_per_env b # num_envs b # sh) \<in> set (layout b)"
    and t: "t < transitions_per_env b"
    and v: "shape v = num_envs b # sh" "well_shaped v"
  shows "\<exists>x. map_of (storage_dict b) name = Some x
      \<and> shape x = transitions_per_env b # num_envs b # sh \<and> well_shaped x
      \<and> update_data b name (int t) (Array v)
          = (Inr (), b\<lparr>storage_dict :=
               AList.update name
                 (Tensor (transitions_per_env b # num_envs b # sh)
                    (put_block (num_envs b * prod_list sh) t (elems (convert name v)) (elems x)))
                 (storage_dict b),
               data_dict :=
                 map_option
                   (alias_row name (transitions_per_env b # num_envs b # sh) (int t)
                      (convert name v))
                   (data_dict b)\<rparr>)"
proof -
  have b: "broadcastable (shape v) (num_envs b # sh)"
    using broadcastable_same [OF v(2)] v(1) by simp
  have e: "expanded (num_envs b # sh) (convert name v) = elems (convert name v)"
    using expanded_same [of "convert name v"] v by simp
  from update_data_stores [OF wf_buffer name _ _ b, of "int t"] t e show ?thesis
    by simp
qed

section \<open>Facts about training views\<close>

lemma length_raw_advantages:
  "length (raw_advantages b) = transitions_per_env b * num_envs b"
  by (simp add: raw_advantages_def)

lemma map_fst_pairs: "map fst (map (\<lambda>(k, x). (k, f x)) xs) = map fst xs"
  by (induction xs) auto

lemma wf_view_training_view:
  assumes wf_buffer: "wf_buffer b"
  shows "wf_view (b\<lparr>data_dict := Some (training_view b)\<rparr>)"
proof -
  let ?N = "transitions_per_env b * num_envs b"
  have e: "\<And>k x. (k, x) \<in> set (storage_dict b) \<Longrightarrow>
      shape (swap_flatten x) = ?N # drop 2 (shape x) \<and> well_shaped (swap_flatten x)"
  proof -
    fix k x assume "(k, x) \<in> set (storage_dict b)"
    from wf_entry [OF wf_buffer this] have l: "(k, shape x) \<in> set (layout b)" and ws: "well_shaped x"
      by simp_all
    from layout_shape [OF l] obtain sh where
      sh: "shape x = transitions_per_env b # num_envs b # sh" by blast
    from swap_flatten_well_shaped [OF sh ws] sh
    show "shape (swap_flatten x) = ?N # drop 2 (shape x) \<and> well_shaped (swap_flatten x)"
      by simp
  qed
  have "map (\<lambda>(k, x). (k, shape x)) (view (map (\<lambda>(k, x). (k, swap_flatten x)) (storage_dict b)))
      = map (\<lambda>(k, x). (k, ?N # drop 2 (shape x))) (storage_dict b)"
    using e by (auto simp: view_def tmap_def)
  also have "\<dots> = map (\<lambda>(k, s). (k, ?N # drop 2 s)) (map (\<lambda>(k, x). (k, shape x)) (storage_dict b))"
    by (simp add: case_prod_unfold)
  also have "\<dots> = map (\<lambda>(k, s). (k, ?N # drop 2 s)) (layout b)"
    using wf_buffer by (simp add: wf_buffer_def)
  finally have shapes: "map (\<lambda>(k, x). (k, shape x)) (training_view b) = view_layout b"
    by (simp add: training_view_def view_layout_def)
  have "list_all (\<lambda>(k, x). well_shaped x)
      (view (map (\<lambda>(k, x). (k, swap_flatten x)) (storage_dict b)))"
    using e by (auto simp: view_def tmap_def list_all_iff well_shaped_def)
  moreover have "well_shaped (Tensor [?N]
      (elems (normalize_advantages (Tensor [?N, 1] (raw_advantages b)))))"
    by (simp add: well_shaped_def normalize_advantages_def tmap_def length_raw_advantages)
  ultimately have "list_all (\<lambda>(k, x). well_shaped x) (training_view b)"
    by (simp add: training_view_def)
  with shapes show ?thesis
    by (simp add: wf_view_def view_layout_def layout_def)
qed

lemma wf_view_prepare_training: "wf_buffer b \<Longrightarrow> wf_view (snd (prepare_training b))"
  by (simp add: prepare_training_ok wf_view_training_view)

lemma view_layout_distinct: "distinct (map fst (view_layout b))"
  by (simp add: view_layout_def layout_def Let_def)

lemma view_layout_shape:
  "(k, s) \<in> set (view_layout b) \<Longrightarrow> \<exists>sh. s = (transitions_per_env b * num_envs b) # sh"
  by (auto simp: view_layout_def layout_def Let_def)

lemma wf_view_lookup:
  assumes "wf_view b" "(k, sh) \<in> set (view_layout b)"
  shows "\<exists>dd x. data_dict b = Some dd \<and> map_of dd k = Some x \<and> shape x = sh \<and> well_shaped x"
proof -
  from assms(1) obtain dd where dd: "data_dict b = Some dd"
    "map (\<lambda>(k, x). (k, shape x)) dd = view_layout b" "list_all (\<lambda>(k, x). well_shaped x) dd"
    by (auto simp: wf_view_def split: option.splits)
  have "map_of (view_layout b) k = Some sh"
    using view_layout_distinct assms(2) by (rule map_of_is_SomeI)
  then have "map_option shape (map_of dd k) = Some sh"
    using dd(2) map_of_flat [of shape dd k] by simp
  then obtain x where x: "map_of dd k = Some x" "shape x = sh" by auto
  from x(1) have "(k, x) \<in> set dd" by (rule map_of_SomeD)
  with dd(3) have "well_shaped x" by (auto simp: list_all_iff)
  with dd(1) x show ?thesis by blast
qed

lemma concat_blocks_from:
  "concat (map (\<lambda>j. block n j xs) [a..<a + m]) = take (m * n) (drop (a * n) xs)"
proof -
  have "map (\<lambda>j. block n j xs) [a..<a + m] = map (\<lambda>j. block n (j + a) xs) [0..<m]"
    using map_add_upt [of a m, symmetric] by (simp add: add.commute)
  also have "\<dots> = map (\<lambda>j. block n j (drop (a * n) xs)) [0..<m]"
    by (simp add: block_def add_mult_distrib add.commute)
  finally show ?thesis by (simp add: concat_blocks)
qed

lemma slice0_samples:
  assumes "shape x = d # ds" "0 \<le> start" "start \<le> end'" "end' \<le> int d"
  shows "slice0 x start end' = Inr (samples x (nat start) (nat (end' - start)))"
proof -
  have a: "slice_bound d start = nat start" "slice_bound d end' = nat end'"
    using assms(2-4) by (auto simp: slice_bound_def)
  have b: "nat end' - nat start = nat (end' - start)"
    using assms(2,3) by simp
  show ?thesis
    by (simp add: slice0_def assms(1) a b samples_def concat_blocks_from Let_def)
qed

lemma slice_items_ok:
  assumes "distinct (map fst acc @ map fst kvs)"
    "list_all (\<lambda>(k, x). \<exists>ds. shape x = d # ds) kvs"
    "0 \<le> start" "start \<le> end'" "end' \<le> int d"
  shows "slice_items kvs start end' acc
     = Inr (acc @ map (\<lambda>(k, x). (k, samples x (nat start) (nat (end' - start)))) kvs)"
  using assms(1,2)
proof (induction kvs arbitrary: acc)
  case Nil
  then show ?case by simp
next
  case (Cons kv kvs)
  obtain k x where kv: "kv = (k, x)" by (cases kv)
  from Cons.prems kv obtain ds where k: "k \<notin> fst ` set acc" and x: "shape x = d # ds"
    by auto
  let ?w = "samples x (nat start) (nat (end' - start))"
  have d: "distinct (map fst (acc @ [(k, ?w)]) @ map fst kvs)"
    using Cons.prems(1) kv by auto
  have "slice_items (kv # kvs) start end' acc = slice_items kvs start end' (acc @ [(k, ?w)])"
    using k by (simp add: kv slice0_samples [OF x assms(3-5)] update_append_new)
  also have "\<dots> = Inr ((acc @ [(k, ?w)])
      @ map (\<lambda>(k, x). (k, samples x (nat start) (nat (end' - start)))) kvs)"
    using d Cons.prems(2) by (intro Cons.IH) simp_all
  finally show ?case by (simp add: kv)
qed

lemma minibatch_range:
  fixes i mb :: int
  assumes "0 \<le> i" "i < int N div mb"
  shows "0 < mb" and "(i + 1) * mb \<le> int N" and "0 \<le> i * mb" and "i * mb \<le> (i + 1) * mb"
proof -
  show mb: "0 < mb"
  proof (rule ccontr)
    assume "\<not> 0 < mb"
    then have "int N div mb \<le> 0"
      by (cases "mb = 0") (simp_all add: div_nonneg_neg_le0)
    with assms show False by simp
  qed
  from assms(2) have "i + 1 \<le> int N div mb" by simp
  then have "(i + 1) * mb \<le> (int N div mb) * mb"
    using mb by (simp add: mult_right_mono)
  also have "\<dots> \<le> int N"
    using mb by (simp add: minus_mod_eq_div_mult [symmetric])
  finally show "(i + 1) * mb \<le> int N" .
  show "0 \<le> i * mb" using assms(1) mb by simp
  show "i * mb \<le> (i + 1) * mb" using mb by (simp add: distrib_right)
qed

lemma view_layout_keys:
  "(''values'', [transitions_per_env b * num_envs b, 1]) \<in> set (view_layout b)"
  "(''neglogpacs'', [transitions_per_env b * num_envs b]) \<in> set (view_layout b)"
  "(''advantages'', [transitions_per_env b * num_envs b]) \<in> set (view_layout b)"
  "(''mus'', [transitions_per_env b * num_envs b, act_dim b]) \<in> set (view_layout b)"
  "(''sigmas'', [transitions_per_env b * num_envs b, act_dim b]) \<in> set (view_layout b)"
  "(''returns'', [transitions_per_env b * num_envs b, 1]) \<in> set (view_layout b)"
  "(''actions'', [transitions_per_env b * num_envs b, act_dim b]) \<in> set (view_layout b)"
  "(''obses'', [transitions_per_env b * num_envs b, obs_dim b]) \<in> set (view_layout b)"
  "(''priv_info'', [transitions_per_env b * num_envs b, priv_dim b]) \<in> set (view_layout b)"
  "(''point_cloud_info'', [transitions_per_env b * num_envs b, point_cloud_dim b, 3])
     \<in> set (view_layout b)"
  by (simp_all add: view_layout_def layout_def Let_def)

lemma getitem_result:
  assumes v: "wf_view b" and dd: "data_dict b = Some dd"
    and s: "0 \<le> start" "start \<le> end'" "end' \<le> int (transitions_per_env b * num_envs b)"
    and st: "start = idx * minibatch_size b" "end' = (idx + 1) * minibatch_size b"
  defines "sl \<equiv> \<lambda>name. field_samples dd name (nat start) (nat (end' - start))"
  shows "getitem b idx
     = (Inr (sl ''values'', sl ''neglogpacs'', sl ''advantages'', sl ''mus'', sl ''sigmas'',
             sl ''returns'', sl ''actions'', sl ''obses'', sl ''priv_info'',
             sl ''point_cloud_info''),
        b\<lparr>last_range := Some (start, end')\<rparr>)"
proof -
  let ?N = "transitions_per_env b * num_envs b"
  from v dd have sh: "map (\<lambda>(k, x). (k, shape x)) dd = view_layout b"
    by (simp add: wf_view_def)
  have "map fst dd = map fst (view_layout b)"
    unfolding sh [symmetric] by (rule map_fst_pairs [symmetric])
  then have dist: "distinct (map fst dd)"
    using view_layout_distinct [of b] by simp
  have all: "list_all (\<lambda>(k, x). \<exists>ds. shape x = ?N # ds) dd"
    unfolding list_all_iff
  proof (intro ballI)
    fix kx assume kx: "kx \<in> set dd"
    obtain k x where e: "kx = (k, x)" by (cases kx)
    with kx have "(k, shape x) \<in> set (map (\<lambda>(k, x). (k, shape x)) dd)" by force
    with sh view_layout_shape [of k "shape x" b]
    show "case kx of (k, x) \<Rightarrow> \<exists>ds. shape x = ?N # ds" by (simp add: e)
  qed
  let ?f = "\<lambda>x. samples x (nat start) (nat (end' - start))"
  have si: "slice_items dd start end' [] = Inr (map (\<lambda>(k, x). (k, ?f x)) dd)"
    using slice_items_ok [of "[]" dd ?N start end'] dist all s by simp
  have get: "\<And>k sh. (k, sh) \<in> set (view_layout b) \<Longrightarrow>
      dict_get (map (\<lambda>(k, x). (k, ?f x)) dd) k = Inr (sl k)"
  proof -
    fix k sh assume "(k, sh) \<in> set (view_layout b)"
    from wf_view_lookup [OF v this] dd obtain x where "map_of dd k = Some x" by auto
    then show "dict_get (map (\<lambda>(k, x). (k, ?f x)) dd) k = Inr (sl k)"
      by (simp add: dict_get_def map_of_flat sl_def field_samples_def)
  qed
  show ?thesis
    unfolding getitem_def Let_def st [symmetric]
    by (simp add: dd si get [OF view_layout_keys(1)] get [OF view_layout_keys(2)]
        get [OF view_layout_keys(3)] get [OF view_layout_keys(4)] get [OF view_layout_keys(5)]
        get [OF view_layout_keys(6)] get [OF view_layout_keys(7)] get [OF view_layout_keys(8)]
        get [OF view_layout_keys(9)] get [OF view_layout_keys(10)])
qed

section \<open>Facts about \<open>update_mu_sigma\<close>\<close>

lemma block_drop: "block n j (drop (a * n) xs) = block n (a + j) xs"
  by (simp add: block_def add_mult_distrib add.commute)

lemma block_splice:
  assumes zs: "length zs = m * n" and ys: "(a + m) * n \<le> length ys"
  shows "block n j (take (a * n) ys @ zs @ drop ((a + m) * n) ys)
         = (if j < a then block n j ys
            else if j < a + m then block n (j - a) zs
            else block n j ys)"
proof -
  have la: "length (take (a * n) ys) = a * n"
    using ys by (simp add: add_mult_distrib)
  show ?thesis
  proof (cases "j < a")
    case True
    then have "(j + 1) * n \<le> a * n" by (rule block_le)
    then have "block n j (take (a * n) ys @ zs @ drop ((a + m) * n) ys)
        = block n j (take (a * n) ys)"
      using la by (simp add: block_append_left)
    also have "\<dots> = block n j ys"
      using \<open>(j + 1) * n \<le> a * n\<close> by (simp add: block_def take_drop min_def)
    finally show ?thesis using True by simp
  next
    case False
    then have j: "j = a + (j - a)" by simp
    have r: "block n j (take (a * n) ys @ zs @ drop ((a + m) * n) ys)
        = block n (j - a) (zs @ drop ((a + m) * n) ys)"
      using block_append_right [OF la, of "j - a" "zs @ drop ((a + m) * n) ys"] j by simp
    show ?thesis
    proof (cases "j < a + m")
      case True
      then have "j - a < m" using False by simp
      then have "((j - a) + 1) * n \<le> m * n" by (rule block_le)
      then have "block n (j - a) (zs @ drop ((a + m) * n) ys) = block n (j - a) zs"
        using zs by (simp add: block_append_left)
      with r True False show ?thesis by simp
    next
      case ge: False
      then have jm: "j - a = m + (j - a - m)" by simp
      have "block n (j - a) (zs @ drop ((a + m) * n) ys)
          = block n (j - a - m) (drop ((a + m) * n) ys)"
        using block_append_right [OF zs, of "j - a - m" "drop ((a + m) * n) ys"] jm by simp
      also have "\<dots> = block n ((a + m) + (j - a - m)) ys"
        by (rule block_drop)
      also have "(a + m) + (j - a - m) = j" using ge False by simp
      finally show ?thesis using r ge False by simp
    qed
  qed
qed

lemma setitem_slice_ok:
  assumes y: "shape y = N # ds" "well_shaped y"
    and r: "a + m \<le> N"
    and v: "shape v = m # ds" "well_shaped v"
  shows "setitem_slice y (int a) (int (a + m)) v
     = Inr (Tensor (N # ds)
         (take (a * prod_list ds) (elems y) @ elems v @ drop ((a + m) * prod_list ds) (elems y)))"
proof -
  have b: "slice_bound N (int a) = a" "slice_bound N (int a + int m) = a + m"
    using r by (simp_all add: slice_bound_def)
  have "copy_to (m # ds) v = Inr (elems v)"
    using copy_to_same [of v] v by (simp add: well_shaped_def)
  then show ?thesis
    by (simp add: setitem_slice_def y(1) b Let_def)
qed

lemma wf_view_entry:
  assumes "wf_view b" "data_dict b = Some dd" "(k, sh) \<in> set (view_layout b)"
  shows "\<exists>x. map_of dd k = Some x \<and> shape x = sh \<and> well_shaped x"
  using wf_view_lookup [OF assms(1,3)] assms(2) by auto

lemma viewed_update_other:
  "name \<noteq> k \<Longrightarrow> viewed (AList.update k x dd) name j = viewed dd name j"
  by (simp add: viewed_def update_conv')

lemma viewed_update_same:
  "viewed (AList.update k x dd) k j = block (prod_list (tl (shape x))) j (elems x)"
  by (simp add: viewed_def update_conv')

lemma wf_view_storage: "wf_view (b\<lparr>storage_dict := S\<rparr>) = wf_view b"
  by (simp add: wf_view_def view_layout_def layout_def split: option.splits)

lemma wf_view_update:
  assumes "wf_view b" "data_dict b = Some dd" "map_of dd name = Some y"
    "shape y' = shape y" "well_shaped y'"
  shows "wf_view (b\<lparr>data_dict := Some (AList.update name y' dd)\<rparr>)"
  using assms
  by (simp add: wf_view_def view_layout_def layout_def map_update_same list_all_update)

lemma set_view_slice_ok:
  assumes v: "wf_view b" and dd: "data_dict b = Some dd"
    and k: "(name, [transitions_per_env b * num_envs b, A]) \<in> set (view_layout b)"
    and r: "a + m \<le> transitions_per_env b * num_envs b"
    and x: "shape x = [m, A]" "well_shaped x"
  shows "\<exists>y y'. map_of dd name = Some y \<and> shape y' = shape y \<and> well_shaped y'
     \<and> elems y' = take (a * A) (elems y) @ map Some (elems x) @ drop ((a + m) * A) (elems y)
     \<and> shape y = [transitions_per_env b * num_envs b, A]
     \<and> set_view_slice b name (int a) (int (a + m)) x
         = (Inr (), b\<lparr>data_dict := Some (AList.update name y' dd),
                      storage_dict :=
                        alias_slice name (shape y) (int a) (int (a + m)) x (storage_dict b)\<rparr>)"
proof -
  let ?N = "transitions_per_env b * num_envs b"
  from wf_view_entry [OF v dd k] obtain y where
    y: "map_of dd name = Some y" "shape y = [?N, A]" "well_shaped y" by blast
  define y' where "y' = Tensor [?N, A]
      (take (a * A) (elems y) @ map Some (elems x) @ drop ((a + m) * A) (elems y))"
  have "setitem_slice y (int a) (int (a + m)) (tmap Some x) = Inr y'"
    using setitem_slice_ok [OF y(2,3) r, of "tmap Some x"] x
    by (simp add: tmap_def well_shaped_def y'_def)
  then have s: "set_view_slice b name (int a) (int (a + m)) x
         = (Inr (), b\<lparr>data_dict := Some (AList.update name y' dd),
                      storage_dict :=
                        alias_slice name (shape y) (int a) (int (a + m)) x (storage_dict b)\<rparr>)"
    by (simp add: set_view_slice_def dd dict_get_def y(1))
  have "(a + m) * A \<le> ?N * A" using r by (simp add: mult_le_mono1)
  then have "well_shaped y'"
    using y(2,3) x by (simp add: y'_def well_shaped_def add_mult_distrib)
  with s y show ?thesis
    by (intro exI [of _ y] exI [of _ y']) (simp add: y'_def)
qed

lemma update_mu_sigma_result:
  assumes v: "wf_view b" and dd: "data_dict b = Some dd"
    and lr: "last_range b = Some (int a, int (a + m))"
    and r: "a + m \<le> transitions_per_env b * num_envs b"
    and mu: "shape mu = [m, act_dim b]" "well_shaped mu"
    and sigma: "shape sigma = [m, act_dim b]" "well_shaped sigma"
  shows "\<exists>dd' sd'.
      update_mu_sigma b mu sigma = (Inr (), b\<lparr>data_dict := Some dd', storage_dict := sd'\<rparr>)
    \<and> wf_view (b\<lparr>data_dict := Some dd', storage_dict := sd'\<rparr>)
    \<and> map fst dd' = map fst dd
    \<and> (\<forall>name. name \<noteq> ''mus'' \<and> name \<noteq> ''sigmas'' \<longrightarrow> map_of dd' name = map_of dd name)
    \<and> (\<forall>j. viewed dd' ''mus'' j
            = (if a \<le> j \<and> j < a + m then map Some (block (act_dim b) (j - a) (elems mu))
               else viewed dd ''mus'' j))
    \<and> (\<forall>j. viewed dd' ''sigmas'' j
            = (if a \<le> j \<and> j < a + m then map Some (block (act_dim b) (j - a) (elems sigma))
               else viewed dd ''sigmas'' j))"
proof -
  let ?N = "transitions_per_env b * num_envs b" and ?A = "act_dim b"
  from set_view_slice_ok [OF v dd view_layout_keys(4) r mu] obtain ym ym' where
    m: "map_of dd ''mus'' = Some ym" "shape ym' = shape ym" "well_shaped ym'"
      "elems ym' = take (a * ?A) (elems ym) @ map Some (elems mu) @ drop ((a + m) * ?A) (elems ym)"
      "shape ym = [?N, ?A]"
      "set_view_slice b ''mus'' (int a) (int (a + m)) mu
         = (Inr (), b\<lparr>data_dict := Some (AList.update ''mus'' ym' dd),
                      storage_dict :=
                        alias_slice ''mus'' (shape ym) (int a) (int (a + m)) mu (storage_dict b)\<rparr>)"
    by blast
  define b1 where "b1 = b\<lparr>data_dict := Some (AList.update ''mus'' ym' dd),
      storage_dict := alias_slice ''mus'' (shape ym) (int a) (int (a + m)) mu (storage_dict b)\<rparr>"
  define dd1 where "dd1 = AList.update ''mus'' ym' dd"
  have v1: "wf_view b1"
    unfolding b1_def
    using wf_view_update [OF v dd m(1,2,3)]
      wf_view_storage [where b = "b\<lparr>data_dict := Some (AList.update ''mus'' ym' dd)\<rparr>"]
    by simp
  have d1: "data_dict b1 = Some dd1" "transitions_per_env b1 = transitions_per_env b"
    "num_envs b1 = num_envs b" "act_dim b1 = ?A" "view_layout b1 = view_layout b"
    by (simp_all add: b1_def dd1_def view_layout_def layout_def)
  have k1: "(''sigmas'', [transitions_per_env b1 * num_envs b1, ?A]) \<in> set (view_layout b1)"
    using view_layout_keys(5) [of b] by (simp add: d1)
  have r1: "a + m \<le> transitions_per_env b1 * num_envs b1" using r by (simp add: d1)
  from set_view_slice_ok [OF v1 d1(1) k1 r1 sigma] obtain ys ys' where
    s: "map_of dd1 ''sigmas'' = Some ys" "shape ys' = shape ys" "well_shaped ys'"
      "elems ys' = take (a * ?A) (elems ys) @ map Some (elems sigma) @ drop ((a + m) * ?A) (elems ys)"
      "shape ys = [?N, ?A]"
      "set_view_slice b1 ''sigmas'' (int a) (int (a + m)) sigma
         = (Inr (), b1\<lparr>data_dict := Some (AList.update ''sigmas'' ys' dd1),
                      storage_dict :=
                        alias_slice ''sigmas'' (shape ys) (int a) (int (a + m)) sigma
                          (storage_dict b1)\<rparr>)"
    by (auto simp: d1)
  define dd' where "dd' = AList.update ''sigmas'' ys' dd1"
  define sd' where "sd' = alias_slice ''sigmas'' (shape ys) (int a) (int (a + m)) sigma
                          (storage_dict b1)"
  have b2: "b1\<lparr>data_dict := Some dd', storage_dict := sd'\<rparr>
      = b\<lparr>data_dict := Some dd', storage_dict := sd'\<rparr>"
    by (simp add: b1_def)
  have m6: "set_view_slice b ''mus'' (int a) (int (a + m)) mu = (Inr (), b1)"
    using m(6) by (simp add: b1_def)
  have s6: "set_view_slice b1 ''sigmas'' (int a) (int (a + m)) sigma
      = (Inr (), b\<lparr>data_dict := Some dd', storage_dict := sd'\<rparr>)"
    using s(6) b2 by (simp add: dd'_def sd'_def)
  have u: "update_mu_sigma b mu sigma = (Inr (), b\<lparr>data_dict := Some dd', storage_dict := sd'\<rparr>)"
    using m6 s6 by (simp add: update_mu_sigma_def lr)
  have "wf_view (b1\<lparr>data_dict := Some dd', storage_dict := sd'\<rparr>)"
    using wf_view_update [OF v1 d1(1) s(1,2,3)]
      wf_view_storage [where b = "b1\<lparr>data_dict := Some (AList.update ''sigmas'' ys' dd1)\<rparr>"]
    by (simp add: dd'_def)
  then have v2: "wf_view (b\<lparr>data_dict := Some dd', storage_dict := sd'\<rparr>)"
    by (simp only: b2)
  have keys: "map fst dd' = map fst dd"
    using key_present [OF m(1)] key_present [OF s(1)]
    by (simp add: dd'_def dd1_def update_keys)
  have others: "\<forall>name. name \<noteq> ''mus'' \<and> name \<noteq> ''sigmas'' \<longrightarrow> map_of dd' name = map_of dd name"
    by (simp add: dd'_def dd1_def update_conv')
  have sy: "map_of dd ''sigmas'' = Some ys"
    using s(1) by (simp add: dd1_def update_conv')
  have lm: "length (map Some (elems mu)) = m * ?A" "length (map Some (elems sigma)) = m * ?A"
    using mu sigma by (simp_all add: well_shaped_def)
  have ly: "(a + m) * ?A \<le> length (elems ym)" "(a + m) * ?A \<le> length (elems ys)"
  proof -
    have "(a + m) * ?A \<le> ?N * ?A" using r by (simp add: mult_le_mono1)
    moreover have "well_shaped ym" "well_shaped ys"
      using wf_view_entry [OF v dd view_layout_keys(4)] wf_view_entry [OF v dd view_layout_keys(5)]
        m(1) sy by auto
    ultimately show "(a + m) * ?A \<le> length (elems ym)" "(a + m) * ?A \<le> length (elems ys)"
      using m(5) s(5) by (simp_all add: well_shaped_def)
  qed
  have vm: "\<forall>j. viewed dd' ''mus'' j
            = (if a \<le> j \<and> j < a + m then map Some (block ?A (j - a) (elems mu))
               else viewed dd ''mus'' j)"
  proof
    fix j
    have "viewed dd' ''mus'' j = block ?A j (elems ym')"
      using m(2,5) by (simp add: dd'_def dd1_def viewed_update_other viewed_update_same)
    also have "\<dots> = (if j < a then block ?A j (elems ym)
            else if j < a + m then block ?A (j - a) (map Some (elems mu))
            else block ?A j (elems ym))"
      unfolding m(4) using lm(1) ly(1) by (rule block_splice)
    also have "block ?A j (elems ym) = viewed dd ''mus'' j"
      by (simp add: viewed_def m(1,5))
    finally show "viewed dd' ''mus'' j
            = (if a \<le> j \<and> j < a + m then map Some (block ?A (j - a) (elems mu))
               else viewed dd ''mus'' j)"
      by (auto simp: block_map)
  qed
  have vs: "\<forall>j. viewed dd' ''sigmas'' j
            = (if a \<le> j \<and> j < a + m then map Some (block ?A (j - a) (elems sigma))
               else viewed dd ''sigmas'' j)"
  proof
    fix j
    have "viewed dd' ''sigmas'' j = block ?A j (elems ys')"
      using s(2,5) by (simp add: dd'_def viewed_update_same)
    also have "\<dots> = (if j < a then block ?A j (elems ys)
            else if j < a + m then block ?A (j - a) (map Some (elems sigma))
            else block ?A j (elems ys))"
      unfolding s(4) using lm(2) ly(2) by (rule block_splice)
    also have "block ?A j (elems ys) = viewed dd ''sigmas'' j"
      by (simp add: viewed_def sy s(5))
    finally show "viewed dd' ''sigmas'' j
            = (if a \<le> j \<and> j < a + m then map Some (block ?A (j - a) (elems sigma))
               else viewed dd ''sigmas'' j)"
      by (auto simp: block_map)
  qed
  from u v2 keys others vm vs show ?thesis by blast
qed

section \<open>What the calls leave alone\<close>

lemma computer_return_dictionaries:
  "dictionaries_only b (snd (computer_return b last_values gamma tau))"
  using computer_return_only_returns [of b last_values gamma tau]
  by (simp add: only_returns_assigned_def dictionaries_only_def)

lemma prepare_training_dictionaries: "dictionaries_only b (snd (prepare_training b))"
  by (simp add: prepare_training_def Let_def dictionaries_only_update
      split: prod.splits option.splits sum.splits)

lemma set_view_slice_dictionaries:
  "dictionaries_only b (snd (set_view_slice b name s e v))"
  by (simp add: set_view_slice_def dictionaries_only_refl dictionaries_only_def
      split: option.splits sum.splits)

lemma update_mu_sigma_dictionaries: "dictionaries_only b (snd (update_mu_sigma b mu sigma))"
proof (cases "last_range b")
  case None
  then show ?thesis by (simp add: update_mu_sigma_def dictionaries_only_refl)
next
  case (Some r)
  obtain s e where r: "r = (s, e)" by (cases r)
  obtain res b1 where m: "set_view_slice b ''mus'' s e mu = (res, b1)"
    by (cases "set_view_slice b ''mus'' s e mu")
  from set_view_slice_dictionaries [of b "''mus''" s e mu] m
  have b1: "dictionaries_only b b1" by simp
  show ?thesis
  proof (cases res)
    case (Inl err)
    with Some r m b1 show ?thesis by (simp add: update_mu_sigma_def)
  next
    case (Inr u)
    from b1 set_view_slice_dictionaries [of b1 "''sigmas''" s e sigma]
    have "dictionaries_only b (snd (set_view_slice b1 ''sigmas'' s e sigma))"
      by (rule dictionaries_only_trans)
    with Some r m Inr show ?thesis by (simp add: update_mu_sigma_def)
  qed
qed

lemma getitem_last_range:
  "snd (getitem b idx)
   = b\<lparr>last_range := Some (idx * minibatch_size b, (idx + 1) * minibatch_size b)\<rparr>"
  by (simp add: getitem_def Let_def)

lemma perform_dictionaries: "\<not> serves c \<Longrightarrow> dictionaries_only b (perform b c)"
  by (cases c)
     (simp_all add: update_data_dictionaries computer_return_dictionaries
        prepare_training_dictionaries update_mu_sigma_dictionaries)

lemma perform_attributes:
  "num_envs (perform b c) = num_envs b"
  "transitions_per_env (perform b c) = transitions_per_env b"
  "act_dim (perform b c) = act_dim b"
proof -
  have "num_envs (perform b c) = num_envs b \<and> transitions_per_env (perform b c) = transitions_per_env b
      \<and> act_dim (perform b c) = act_dim b"
  proof (cases "serves c")
    case True
    then obtain idx where "c = Getitem idx" by (cases c) simp_all
    then show ?thesis by (simp add: getitem_last_range)
  next
    case False
    from dictionaries_only_attributes [OF perform_dictionaries [OF this, of b]]
    show ?thesis by simp
  qed
  then show "num_envs (perform b c) = num_envs b"
    "transitions_per_env (perform b c) = transitions_per_env b"
    "act_dim (perform b c) = act_dim b" by simp_all
qed

lemma last_range_perform: "\<not> serves c \<Longrightarrow> last_range (perform b c) = last_range b"
  by (rule dictionaries_only_attributes(4) [OF perform_dictionaries])

lemma last_range_after:
  "\<not> list_ex serves cs \<Longrightarrow> last_range (after b cs) = last_range b"
  unfolding after_def
  by (induction cs arbitrary: b) (simp_all add: last_range_perform)

lemma last_range_init:
  "init n_envs horizon_length b_size mb_size o_dim a_dim p_dim pc_dim = Inr b
   \<Longrightarrow> last_range b = None"
  by (auto simp: init_def split: if_splits)

lemma wf_buffer_last_range: "wf_buffer (b\<lparr>last_range := r\<rparr>) = wf_buffer b"
  by (simp add: wf_buffer_def layout_def)

lemma wf_view_last_range: "wf_view (b\<lparr>last_range := r\<rparr>) = wf_view b"
  by (simp add: wf_view_def view_layout_def layout_def split: option.splits)

section \<open>The example cycles, evaluated\<close>

lemma after_Cons: "after b (c # cs) = after (perform b c) cs"
  by (simp add: after_def)

lemma after_Nil: "after b [] = b"
  by (simp add: after_def)

lemma wf_perform:
  assumes "wf_buffer b"
  shows "wf_buffer (perform b Prepare_training)"
    and "wf_buffer (perform b (Getitem idx))"
    and "well_shaped a \<Longrightarrow> wf_buffer (perform b (Update_data name index (Array a)))"
    and "shape last_values = [num_envs b, 1] \<Longrightarrow> well_shaped last_values
         \<Longrightarrow> wf_buffer (perform b (Computer_return last_values gamma tau))"
  using assms
  by (simp_all add: prepare_training_ok wf_data_dict getitem_last_range wf_buffer_last_range
      wf_update_data wf_computer_return)

lemma example_stale_facts:
  "wf_view example_stale" "last_range example_stale = Some (2, 4)"
  "num_envs example_stale = 2" "transitions_per_env example_stale = 2"
  "act_dim example_stale = 1"
proof -
  let ?b1 = "perform example_grid Prepare_training"
  let ?b2 = "perform ?b1 (Getitem 1)"
  let ?b3 = "perform ?b2 (Update_data ''rewards'' 0 (Array (Tensor [2, 1] [1, 1])))"
  let ?b4 = "perform ?b3 (Computer_return (Tensor [2, 1] [0, 0]) 1 1)"
  let ?b5 = "perform ?b4 Prepare_training"
  have s: "example_stale = ?b5"
    by (simp add: example_stale_def after_Cons after_Nil)
  have d3: "num_envs ?b3 = 2"
    by (simp only: perform_attributes example_grid_dims)
  have w1: "wf_buffer ?b1" using wf_example_grid by (rule wf_perform(1))
  then have w2: "wf_buffer ?b2" by (rule wf_perform(2))
  have "well_shaped (Tensor [2, 1] [1, 1 :: real])" by (simp add: well_shaped_def)
  with w2 have w3: "wf_buffer ?b3" by (rule wf_perform(3))
  have "shape (Tensor [2, 1] [0, 0 :: real]) = [num_envs ?b3, 1]"
    "well_shaped (Tensor [2, 1] [0, 0 :: real])"
    by (simp_all only: d3 tensor.sel) (simp add: well_shaped_def)
  with w3 have w4: "wf_buffer ?b4" by (rule wf_perform(4))
  then have "wf_view (snd (prepare_training ?b4))" by (rule wf_view_prepare_training)
  then show "wf_view example_stale" by (simp add: s)
  have "last_range ?b2 = Some (2, 4)"
    by (simp add: getitem_last_range prepare_training_ok [OF wf_example_grid] example_grid_dims)
  moreover have "last_range ?b5 = last_range ?b2"
    by (simp only: last_range_perform serves.simps not_False_eq_True)
  ultimately show "last_range example_stale = Some (2, 4)"
    by (simp only: s)
  show "num_envs example_stale = 2" "transitions_per_env example_stale = 2"
    "act_dim example_stale = 1"
    by (simp_all only: s perform_attributes example_grid_dims)
qed

section \<open>Mean and standard deviation of normalised numbers\<close>

lemma mean_Some: "xs \<noteq> [] \<Longrightarrow> mean xs = Some (sum_list xs / real (length xs))"
  by (simp add: mean_def)

lemma std_Some:
  assumes "std xs = Some s"
  shows "2 \<le> length xs"
    and "s = sqrt (sum_list (map (\<lambda>x. (x - sum_list xs / real (length xs))\<^sup>2) xs)
                   / real (length xs - 1))"
  using assms by (auto simp: std_def mean_def split: if_splits)

lemma sum_list_over:
  "sum_list (map (\<lambda>x. f x / k) xs) = sum_list (map f xs) / (k :: real)"
  by (induction xs) (simp_all add: add_divide_distrib)

lemma mean_scaled:
  assumes "xs \<noteq> []" "k \<noteq> 0"
  shows "mean (map (\<lambda>x. (x - sum_list xs / real (length xs)) / k) xs) = Some 0"
proof -
  let ?m = "sum_list xs / real (length xs)"
  have n: "real (length xs) \<noteq> 0" using assms(1) by simp
  have "sum_list (map (\<lambda>x. (x - ?m) / k) xs) = sum_list (map (\<lambda>x. x - ?m) xs) / k"
    by (simp add: sum_list_over)
  also have "sum_list (map (\<lambda>x. x - ?m) xs) = sum_list xs - real (length xs) * ?m"
    by (simp add: sum_list_subtractf sum_list_triv)
  also have "\<dots> = 0" using n by simp
  finally show ?thesis using assms(1) by (simp add: mean_def)
qed

lemma std_scaled:
  assumes s: "std xs = Some s" and k: "0 < k"
  shows "std (map (\<lambda>x. (x - sum_list xs / real (length xs)) / k) xs) = Some (s / k)"
proof -
  let ?m = "sum_list xs / real (length xs)"
  let ?ys = "map (\<lambda>x. (x - ?m) / k) xs"
  from std_Some [OF s] have n: "2 \<le> length xs"
    and sq: "s = sqrt (sum_list (map (\<lambda>x. (x - ?m)\<^sup>2) xs) / real (length xs - 1))"
    by simp_all
  from n have ne: "xs \<noteq> []" by auto
  from mean_scaled [OF ne] k have m0: "mean ?ys = Some 0" by simp
  have "sum_list (map (\<lambda>y. (y - 0)\<^sup>2) ?ys) = sum_list (map (\<lambda>x. (x - ?m)\<^sup>2 / k\<^sup>2) xs)"
    by (simp add: comp_def power_divide)
  also have "\<dots> = sum_list (map (\<lambda>x. (x - ?m)\<^sup>2) xs) / k\<^sup>2"
    by (simp add: sum_list_over)
  finally have "sqrt (sum_list (map (\<lambda>y. (y - 0)\<^sup>2) ?ys) / real (length ?ys - 1))
      = sqrt (sum_list (map (\<lambda>x. (x - ?m)\<^sup>2) xs) / real (length xs - 1) / k\<^sup>2)"
    by simp
  also have "\<dots> = sqrt (sum_list (map (\<lambda>x. (x - ?m)\<^sup>2) xs) / real (length xs - 1)) / sqrt (k\<^sup>2)"
    by (rule real_sqrt_divide)
  also have "\<dots> = s / k"
    using k sq by simp
  finally show ?thesis using n m0 by (simp add: std_def)
qed

section \<open>The advantages of the training view\<close>

lemma training_view_advantages:
  assumes "wf_buffer b"
  shows "map_of (training_view b) ''advantages''
     = Some (Tensor [transitions_per_env b * num_envs b]
          (map (\<lambda>x. case (mean (raw_advantages b), std (raw_advantages b)) of
                       (Some m, Some s) \<Rightarrow> Some ((x - m) / (s + 1 / 10 ^ 8))
                     | _ \<Rightarrow> None)
             (raw_advantages b)))"
proof -
  have "''advantages'' \<notin> set (map fst (storage_dict b))"
    unfolding wf_keys [OF assms] by (simp add: layout_def Let_def)
  then have "map_of (storage_dict b) ''advantages'' = None"
    by (simp add: map_of_eq_None_iff)
  then have "map_of (view (map (\<lambda>(k, x). (k, swap_flatten x)) (storage_dict b))) ''advantages''
      = None"
    unfolding view_def map_of_flat by simp
  then show ?thesis
    by (simp add: training_view_def normalize_advantages_def tmap_def map_add_def)
qed

lemma viewed_scalar:
  assumes wf: "wf_buffer b"
    and name: "(name, [transitions_per_env b, num_envs b, 1]) \<in> set (layout b)"
    and i: "i < transitions_per_env b * num_envs b"
  shows "viewed (training_view b) name i
     = [Some (scalar b name (i mod transitions_per_env b) (i div transitions_per_env b))]"
proof -
  let ?T = "transitions_per_env b" and ?E = "num_envs b"
  from wf_lookup [OF wf name] obtain x where
    x: "map_of (storage_dict b) name = Some x" "shape x = [?T, ?E, 1]" "well_shaped x"
    by blast
  from i have T: "0 < ?T" by (cases "?T = 0") simp_all
  then have t: "i mod ?T < ?T" by simp
  from i have e: "i div ?T < ?E"
    by (simp add: less_mult_imp_div_less mult.commute)
  have f: "flat_index b (i mod ?T) (i div ?T) = i"
    by (simp add: flat_index_def)
  have "(i mod ?T) * ?E + i div ?T < length (elems x)"
    using index_less [OF e t] x(2,3) by (simp add: well_shaped_def)
  then have "stored b name (i mod ?T) (i div ?T)
      = [scalar b name (i mod ?T) (i div ?T)]"
    using x(1,2) block_one [of "(i mod ?T) * ?E + i div ?T" "elems x"]
    by (simp add: stored_def scalar_def)
  with viewed_training_view [OF wf x(1) t e] f show ?thesis by simp
qed

lemma wf_example_spread: "wf_buffer example_spread"
  unfolding example_spread_def
  by (intro wf_update_data wf_example_grid) (simp add: well_shaped_def)

lemma example_spread_raw: "raw_advantages example_spread = [4, 0, 0, 0]"
proof -
  have d: "num_envs example_spread = 2" "transitions_per_env example_spread = 2"
    by (simp_all add: example_spread_def update_data_attributes example_grid_dims)
  have r: "map_of (storage_dict example_spread) ''returns'' = Some (Tensor [2, 2, 1] [4, 0, 0, 0])"
    and v: "map_of (storage_dict example_spread) ''values'' = Some (Tensor [2, 2, 1] [0, 0, 0, 0])"
    by (simp_all add: example_spread_def example_grid_def eval_defs eval_nat_numeral)
  have u: "[0..<4] = [0, 1, 2, 3]" by (simp add: upt_rec)
  show ?thesis
    by (simp add: raw_advantages_def scalar_def d r v u)
qed

lemma example_spread_std: "std (raw_advantages example_spread) = Some 2"
proof -
  have "sqrt (12 / 3) = sqrt (2\<^sup>2)" by simp
  also have "\<dots> = 2" by simp
  finally have "sqrt (12 / 3) = 2" .
  then show ?thesis
    by (simp add: example_spread_raw std_def mean_def power2_eq_square)
qed

section \<open>The filled buffer, evaluated\<close>

lemma after_dictionaries:
  "\<not> list_ex serves cs \<Longrightarrow> dictionaries_only b (after b cs)"
proof (induction cs arbitrary: b)
  case Nil
  show ?case by (simp add: after_def dictionaries_only_refl)
next
  case (Cons c cs)
  then have "dictionaries_only b (perform b c)" "dictionaries_only (perform b c) (after (perform b c) cs)"
    by (simp_all add: perform_dictionaries)
  then have "dictionaries_only b (after (perform b c) cs)" by (rule dictionaries_only_trans)
  then show ?case by (simp add: after_def)
qed

lemma example_filled_dims:
  "num_envs example_filled = 2" "transitions_per_env example_filled = 2"
  "obs_dim example_filled = 1" "act_dim example_filled = 1" "priv_dim example_filled = 1"
  "point_cloud_dim example_filled = 1"
  "batch_size example_filled = 4" "minibatch_size example_filled = 2"
  "length' example_filled = 2"
proof -
  have "dictionaries_only example_grid example_filled"
    unfolding example_filled_def by (rule after_dictionaries) simp
  from dictionaries_only_attributes [OF this]
  show "num_envs example_filled = 2" "transitions_per_env example_filled = 2"
    "obs_dim example_filled = 1" "act_dim example_filled = 1" "priv_dim example_filled = 1"
    "point_cloud_dim example_filled = 1"
    "batch_size example_filled = 4" "minibatch_size example_filled = 2"
    "length' example_filled = 2"
    by (simp_all add: example_grid_dims example_grid_def init_def)
qed

lemma example_filled_storage:
  "storage_dict example_filled =
     [(''obses'', Tensor [2, 2, 1] [11, 12, 13, 14]),
      (''priv_info'', Tensor [2, 2, 1] [21, 22, 23, 24]),
      (''point_cloud_info'', Tensor [2, 2, 1, 3] [31, 32, 33, 34, 35, 36, 37, 38, 39, 40, 41, 42]),
      (''rewards'', Tensor [2, 2, 1] [0, 0, 0, 0]),
      (''values'', Tensor [2, 2, 1] [1, 2, 3, 5]),
      (''neglogpacs'', Tensor [2, 2] [41, 42, 43, 44]),
      (''dones'', Tensor [2, 2] [0, 0, 0, 0]),
      (''actions'', Tensor [2, 2, 1] [51, 52, 53, 54]),
      (''mus'', Tensor [2, 2, 1] [61, 62, 63, 64]),
      (''sigmas'', Tensor [2, 2, 1] [71, 72, 73, 74]),
      (''returns'', Tensor [2, 2, 1] [1, 6, 3, 5])]"
  by (simp add: example_filled_def after_def example_grid_def eval_defs eval_nat_numeral)

lemma wf_example_filled: "wf_buffer example_filled"
  by (simp add: wf_buffer_def layout_def example_filled_storage example_filled_dims
      well_shaped_def)

lemma example_filled_raw: "raw_advantages example_filled = [0, 0, 4, 0]"
proof -
  have u: "[0..<4] = [0, 1, 2, 3]" by (simp add: upt_rec)
  show ?thesis
    by (simp add: raw_advantages_def scalar_def example_filled_dims example_filled_storage u)
qed

lemma example_filled_std:
  "mean (raw_advantages example_filled) = Some 1" "std (raw_advantages example_filled) = Some 2"
proof -
  have "sqrt (12 / 3) = sqrt (2\<^sup>2)" by simp
  also have "\<dots> = 2" by simp
  finally have "sqrt (12 / 3) = 2" .
  then show "std (raw_advantages example_filled) = Some 2"
    by (simp add: example_filled_raw std_def mean_def power2_eq_square)
  show "mean (raw_advantages example_filled) = Some 1"
    by (simp add: example_filled_raw mean_def)
qed

lemma swap_flatten_Tensor:
  "swap_flatten (Tensor (s0 # s1 # rest) xs)
   = Tensor ((s0 * s1) # rest)
       (concat (map (\<lambda>e. concat (map (\<lambda>t. block (prod_list rest) (t * s1 + e) xs) [0..<s0]))
                    [0..<s1]))"
  by (simp add: swap_flatten_eq)

lemma example_filled_view:
  "map_of (training_view example_filled) ''values'' = Some (Tensor [4, 1] [Some 1, Some 3, Some 2, Some 5])"
  "map_of (training_view example_filled) ''neglogpacs''
     = Some (Tensor [4] [Some 41, Some 43, Some 42, Some 44])"
  "map_of (training_view example_filled) ''advantages''
     = Some (Tensor [4] [Some (- 1 / (2 + 1 / 10 ^ 8)), Some (- 1 / (2 + 1 / 10 ^ 8)),
                         Some (3 / (2 + 1 / 10 ^ 8)), Some (- 1 / (2 + 1 / 10 ^ 8))])"
  "map_of (training_view example_filled) ''mus'' = Some (Tensor [4, 1] [Some 61, Some 63, Some 62, Some 64])"
  "map_of (training_view example_filled) ''sigmas''
     = Some (Tensor [4, 1] [Some 71, Some 73, Some 72, Some 74])"
  "map_of (training_view example_filled) ''returns''
     = Some (Tensor [4, 1] [Some 1, Some 3, Some 6, Some 5])"
  "map_of (training_view example_filled) ''actions''
     = Some (Tensor [4, 1] [Some 51, Some 53, Some 52, Some 54])"
  "map_of (training_view example_filled) ''obses''
     = Some (Tensor [4, 1] [Some 11, Some 13, Some 12, Some 14])"
  "map_of (training_view example_filled) ''priv_info''
     = Some (Tensor [4, 1] [Some 21, Some 23, Some 22, Some 24])"
  "map_of (training_view example_filled) ''point_cloud_info''
     = Some (Tensor [4, 1, 3] [Some 31, Some 32, Some 33, Some 37, Some 38, Some 39,
                               Some 34, Some 35, Some 36, Some 40, Some 41, Some 42])"
proof -
  have u: "[0..<2] = [0, 1]" by (simp add: upt_rec)
  have l: "map_of (training_view example_filled) name = Some (tmap Some (swap_flatten x))"
    if "map_of (storage_dict example_filled) name = Some x" for name x
    using that by (rule training_view_lookup)
  have s: "map_of (storage_dict example_filled) ''values'' = Some (Tensor [2, 2, 1] [1, 2, 3, 5])"
    "map_of (storage_dict example_filled) ''neglogpacs'' = Some (Tensor [2, 2] [41, 42, 43, 44])"
    "map_of (storage_dict example_filled) ''mus'' = Some (Tensor [2, 2, 1] [61, 62, 63, 64])"
    "map_of (storage_dict example_filled) ''sigmas'' = Some (Tensor [2, 2, 1] [71, 72, 73, 74])"
    "map_of (storage_dict example_filled) ''returns'' = Some (Tensor [2, 2, 1] [1, 6, 3, 5])"
    "map_of (storage_dict example_filled) ''actions'' = Some (Tensor [2, 2, 1] [51, 52, 53, 54])"
    "map_of (storage_dict example_filled) ''obses'' = Some (Tensor [2, 2, 1] [11, 12, 13, 14])"
    "map_of (storage_dict example_filled) ''priv_info'' = Some (Tensor [2, 2, 1] [21, 22, 23, 24])"
    "map_of (storage_dict example_filled) ''point_cloud_info''
       = Some (Tensor [2, 2, 1, 3] [31, 32, 33, 34, 35, 36, 37, 38, 39, 40, 41, 42])"
    by (simp_all add: example_filled_storage)
  note v = s [THEN l]
  show "map_of (training_view example_filled) ''values'' = Some (Tensor [4, 1] [Some 1, Some 3, Some 2, Some 5])"
    "map_of (training_view example_filled) ''neglogpacs''
       = Some (Tensor [4] [Some 41, Some 43, Some 42, Some 44])"
    "map_of (training_view example_filled) ''mus'' = Some (Tensor [4, 1] [Some 61, Some 63, Some 62, Some 64])"
    "map_of (training_view example_filled) ''sigmas''
       = Some (Tensor [4, 1] [Some 71, Some 73, Some 72, Some 74])"
    "map_of (training_view example_filled) ''returns''
       = Some (Tensor [4, 1] [Some 1, Some 3, Some 6, Some 5])"
    "map_of (training_view example_filled) ''actions''
       = Some (Tensor [4, 1] [Some 51, Some 53, Some 52, Some 54])"
    "map_of (training_view example_filled) ''obses''
       = Some (Tensor [4, 1] [Some 11, Some 13, Some 12, Some 14])"
    "map_of (training_view example_filled) ''priv_info''
       = Some (Tensor [4, 1] [Some 21, Some 23, Some 22, Some 24])"
    "map_of (training_view example_filled) ''point_cloud_info''
       = Some (Tensor [4, 1, 3] [Some 31, Some 32, Some 33, Some 37, Some 38, Some 39,
                                 Some 34, Some 35, Some 36, Some 40, Some 41, Some 42])"
    unfolding v by (simp_all add: swap_flatten_Tensor tmap_def block_def u)
  have "(0 - 1) / (2 + 1 / 10 ^ 8) = - 1 / (2 + 1 / 10 ^ 8 :: real)"
    "(4 - 1) / (2 + 1 / 10 ^ 8) = 3 / (2 + 1 / 10 ^ 8 :: real)"
    by simp_all
  then show "map_of (training_view example_filled) ''advantages''
     = Some (Tensor [4] [Some (- 1 / (2 + 1 / 10 ^ 8)), Some (- 1 / (2 + 1 / 10 ^ 8)),
                         Some (3 / (2 + 1 / 10 ^ 8)), Some (- 1 / (2 + 1 / 10 ^ 8))])"
    unfolding training_view_advantages [OF wf_example_filled] example_filled_std
    by (simp add: example_filled_raw example_filled_dims)
qed

lemma example_filled_samples:
  "field_samples (training_view example_filled) ''values'' 2 2 = Tensor [2, 1] [Some 2, Some 5]"
  "field_samples (training_view example_filled) ''neglogpacs'' 2 2 = Tensor [2] [Some 42, Some 44]"
  "field_samples (training_view example_filled) ''advantages'' 2 2
     = Tensor [2] [Some (3 / (2 + 1 / 10 ^ 8)), Some (- 1 / (2 + 1 / 10 ^ 8))]"
  "field_samples (training_view example_filled) ''mus'' 2 2 = Tensor [2, 1] [Some 62, Some 64]"
  "field_samples (training_view example_filled) ''sigmas'' 2 2 = Tensor [2, 1] [Some 72, Some 74]"
  "field_samples (training_view example_filled) ''returns'' 2 2 = Tensor [2, 1] [Some 6, Some 5]"
  "field_samples (training_view example_filled) ''actions'' 2 2 = Tensor [2, 1] [Some 52, Some 54]"
  "field_samples (training_view example_filled) ''obses'' 2 2 = Tensor [2, 1] [Some 12, Some 14]"
  "field_samples (training_view example_filled) ''priv_info'' 2 2
     = Tensor [2, 1] [Some 22, Some 24]"
  "field_samples (training_view example_filled) ''point_cloud_info'' 2 2
     = Tensor [2, 1, 3] [Some 34, Some 35, Some 36, Some 40, Some 41, Some 42]"
proof -
  have u: "[2..<4] = [2, 3]" by (simp add: upt_rec)
  show "field_samples (training_view example_filled) ''values'' 2 2 = Tensor [2, 1] [Some 2, Some 5]"
    "field_samples (training_view example_filled) ''neglogpacs'' 2 2 = Tensor [2] [Some 42, Some 44]"
    "field_samples (training_view example_filled) ''advantages'' 2 2
       = Tensor [2] [Some (3 / (2 + 1 / 10 ^ 8)), Some (- 1 / (2 + 1 / 10 ^ 8))]"
    "field_samples (training_view example_filled) ''mus'' 2 2 = Tensor [2, 1] [Some 62, Some 64]"
    "field_samples (training_view example_filled) ''sigmas'' 2 2 = Tensor [2, 1] [Some 72, Some 74]"
    "field_samples (training_view example_filled) ''returns'' 2 2 = Tensor [2, 1] [Some 6, Some 5]"
    "field_samples (training_view example_filled) ''actions'' 2 2 = Tensor [2, 1] [Some 52, Some 54]"
    "field_samples (training_view example_filled) ''obses'' 2 2 = Tensor [2, 1] [Some 12, Some 14]"
    "field_samples (training_view example_filled) ''priv_info'' 2 2
       = Tensor [2, 1] [Some 22, Some 24]"
    "field_samples (training_view example_filled) ''point_cloud_info'' 2 2
       = Tensor [2, 1, 3] [Some 34, Some 35, Some 36, Some 40, Some 41, Some 42]"
    by (simp_all add: field_samples_def samples_def example_filled_view block_def u)
qed

lemma example_filled_first_samples:
  "field_samples (training_view example_filled) ''values'' 0 2 = Tensor [2, 1] [Some 1, Some 3]"
  "field_samples (training_view example_filled) ''neglogpacs'' 0 2 = Tensor [2] [Some 41, Some 43]"
  "field_samples (training_view example_filled) ''advantages'' 0 2
     = Tensor [2] [Some (- 1 / (2 + 1 / 10 ^ 8)), Some (- 1 / (2 + 1 / 10 ^ 8))]"
  "field_samples (training_view example_filled) ''mus'' 0 2 = Tensor [2, 1] [Some 61, Some 63]"
  "field_samples (training_view example_filled) ''sigmas'' 0 2 = Tensor [2, 1] [Some 71, Some 73]"
  "field_samples (training_view example_filled) ''returns'' 0 2 = Tensor [2, 1] [Some 1, Some 3]"
  "field_samples (training_view example_filled) ''actions'' 0 2 = Tensor [2, 1] [Some 51, Some 53]"
  "field_samples (training_view example_filled) ''obses'' 0 2 = Tensor [2, 1] [Some 11, Some 13]"
  "field_samples (training_view example_filled) ''priv_info'' 0 2
     = Tensor [2, 1] [Some 21, Some 23]"
  "field_samples (training_view example_filled) ''point_cloud_info'' 0 2
     = Tensor [2, 1, 3] [Some 31, Some 32, Some 33, Some 37, Some 38, Some 39]"
proof -
  have u: "[0..<2] = [0, 1]" by (simp add: upt_rec)
  show "field_samples (training_view example_filled) ''values'' 0 2 = Tensor [2, 1] [Some 1, Some 3]"
    "field_samples (training_view example_filled) ''neglogpacs'' 0 2 = Tensor [2] [Some 41, Some 43]"
    "field_samples (training_view example_filled) ''advantages'' 0 2
       = Tensor [2] [Some (- 1 / (2 + 1 / 10 ^ 8)), Some (- 1 / (2 + 1 / 10 ^ 8))]"
    "field_samples (training_view example_filled) ''mus'' 0 2 = Tensor [2, 1] [Some 61, Some 63]"
    "field_samples (training_view example_filled) ''sigmas'' 0 2 = Tensor [2, 1] [Some 71, Some 73]"
    "field_samples (training_view example_filled) ''returns'' 0 2 = Tensor [2, 1] [Some 1, Some 3]"
    "field_samples (training_view example_filled) ''actions'' 0 2 = Tensor [2, 1] [Some 51, Some 53]"
    "field_samples (training_view example_filled) ''obses'' 0 2 = Tensor [2, 1] [Some 11, Some 13]"
    "field_samples (training_view example_filled) ''priv_info'' 0 2
       = Tensor [2, 1] [Some 21, Some 23]"
    "field_samples (training_view example_filled) ''point_cloud_info'' 0 2
       = Tensor [2, 1, 3] [Some 31, Some 32, Some 33, Some 37, Some 38, Some 39]"
    by (simp_all add: field_samples_def samples_def example_filled_view block_def u)
qed

section \<open>The dictionary branch of \<open>update_data\<close>, evaluated\<close>

lemmas item_defs =
  update_data_def store_item_def setitem_item_def dict_get_def setitem_row_def norm_index_def
  copy_to_def expand_def pad_shape_def put_block_def zeros_def block_def convert_fields
  init_def example_grid_def

lemma update_data_int_key:
  "fst (update_data example_grid ''obses'' 1 (Dict [(Int_key 0, Tensor [1] [9])])) = Inr ()"
  "map_of (storage_dict
     (snd (update_data example_grid ''obses'' 1 (Dict [(Int_key 0, Tensor [1] [9])]))))
     ''obses'' = Some (Tensor [2, 2, 1] [0, 9, 0, 0])"
  by (simp_all add: item_defs eval_nat_numeral)

lemma update_data_str_key:
  "update_data example_grid ''obses'' 1 (Dict [(Str_key ''a'', Tensor [1] [9])])
     = (Inl TypeError, example_grid)"
  by (simp add: item_defs)

lemma update_data_items_in_turn:
  "fst (update_data example_grid ''obses'' 1
          (Dict [(Int_key 0, Tensor [1] [9]), (Str_key ''a'', Tensor [1] [9])]))
     = Inl TypeError"
  "map_of (storage_dict
     (snd (update_data example_grid ''obses'' 1
             (Dict [(Int_key 0, Tensor [1] [9]), (Str_key ''a'', Tensor [1] [9])]))))
     ''obses'' = Some (Tensor [2, 2, 1] [0, 9, 0, 0])"
  by (simp_all add: item_defs eval_nat_numeral)

lemma update_data_item_too_few_axes:
  "update_data example_grid ''neglogpacs'' 1 (Dict [(Int_key 0, Tensor [1] [9])])
     = (Inl IndexError, example_grid)"
  by (simp add: item_defs eval_nat_numeral)

section \<open>The returns that \<open>computer_return\<close> stores\<close>

text \<open>
  C1: on a well-formed buffer, with bootstrap values of shape \<open>[num_envs, 1]\<close>,
  \<open>computer_return\<close> succeeds and the return it stores for timestep \<open>t\<close> and
  environment \<open>e\<close> is the accumulator of the specified backward recursion at \<open>t\<close> plus
  the stored value: the recursion starts from zero, takes the bootstrap value as next
  value at the last timestep and the stored value at \<open>t + 1\<close> otherwise, and uses the
  done flag of timestep \<open>t\<close>.
\<close>

theorem computer_return_gae:
  assumes "wf_buffer b" "shape last_values = [num_envs b, 1]" "well_shaped last_values"
  shows "fst (computer_return b last_values gamma tau) = Inr ()
    \<and> (\<forall>t<transitions_per_env b. \<forall>e<num_envs b.
          scalar (snd (computer_return b last_values gamma tau)) ''returns'' t e
          = last_gae (\<lambda>t. scalar b ''rewards'' t e) (\<lambda>t. scalar b ''values'' t e)
              (\<lambda>t. scalar b ''dones'' t e) (elems last_values ! e) gamma tau
              (transitions_per_env b) t
            + scalar b ''values'' t e)"
  using computer_return_scalars(1,2) [OF assms] by blast

theorem computer_return_gae_witness:
  "wf_buffer example_rollout
   \<and> shape (Tensor [1, 1] [3 :: real]) = [num_envs example_rollout, 1]
   \<and> well_shaped (Tensor [1, 1] [3 :: real])
   \<and> fst (computer_return example_rollout (Tensor [1, 1] [3]) (1 / 2) (1 / 2)) = Inr ()
   \<and> scalar (snd (computer_return example_rollout (Tensor [1, 1] [3]) (1 / 2) (1 / 2)))
        ''returns'' 1 0 = 5 / 2
   \<and> scalar (snd (computer_return example_rollout (Tensor [1, 1] [3]) (1 / 2) (1 / 2)))
        ''returns'' 0 0 = 17 / 8"
proof -
  have h: "shape (Tensor [1, 1] [3 :: real]) = [num_envs example_rollout, 1]"
    "well_shaped (Tensor [1, 1] [3 :: real])"
    by (simp_all add: example_rollout_dims well_shaped_def)
  note r = computer_return_gae [OF wf_example_rollout h, of "1 / 2" "1 / 2"]
  have t: "(0::nat) < transitions_per_env example_rollout"
    "(1::nat) < transitions_per_env example_rollout" "(0::nat) < num_envs example_rollout"
    by (simp_all add: example_rollout_dims)
  from r t have "scalar (snd (computer_return example_rollout (Tensor [1, 1] [3]) (1 / 2) (1 / 2)))
        ''returns'' 1 0 = 5 / 2"
    by (simp add: example_rollout_scalars example_rollout_dims last_gae_step last_gae_end)
  moreover from r t have
    "scalar (snd (computer_return example_rollout (Tensor [1, 1] [3]) (1 / 2) (1 / 2)))
        ''returns'' 0 0 = 17 / 8"
    by (simp add: example_rollout_scalars example_rollout_dims last_gae_step last_gae_end
        eval_nat_numeral)
  ultimately show ?thesis using r h wf_example_rollout by simp
qed

section \<open>Terminal steps\<close>

text \<open>
  C4: if the done flag is \<open>1\<close> for every environment at every timestep, then after
  \<open>computer_return\<close> the stored return less the stored value is, for every timestep
  and environment, the reward less the value of that same step: nothing of a later
  step and nothing of the bootstrap values enters.
\<close>

theorem computer_return_all_done:
  assumes "wf_buffer b" "shape last_values = [num_envs b, 1]" "well_shaped last_values"
    and "\<forall>t<transitions_per_env b. \<forall>e<num_envs b. scalar b ''dones'' t e = 1"
  shows "fst (computer_return b last_values gamma tau) = Inr ()
    \<and> (\<forall>t<transitions_per_env b. \<forall>e<num_envs b.
          scalar (snd (computer_return b last_values gamma tau)) ''returns'' t e
            - scalar (snd (computer_return b last_values gamma tau)) ''values'' t e
          = scalar b ''rewards'' t e - scalar b ''values'' t e)"
proof (intro conjI allI impI)
  show "fst (computer_return b last_values gamma tau) = Inr ()"
    using assms(1-3) by (rule computer_return_scalars(1))
next
  fix t e assume t: "t < transitions_per_env b" and e: "e < num_envs b"
  have "last_gae (\<lambda>t. scalar b ''rewards'' t e) (\<lambda>t. scalar b ''values'' t e)
          (\<lambda>t. scalar b ''dones'' t e) (elems last_values ! e) gamma tau
          (transitions_per_env b) t
        = scalar b ''rewards'' t e - scalar b ''values'' t e"
    using assms(4) e t by (intro last_gae_terminal) simp_all
  then show "scalar (snd (computer_return b last_values gamma tau)) ''returns'' t e
            - scalar (snd (computer_return b last_values gamma tau)) ''values'' t e
          = scalar b ''rewards'' t e - scalar b ''values'' t e"
    using computer_return_scalars(2) [OF assms(1-3) t e, of gamma tau]
      computer_return_scalars(3) [OF assms(1-3), of "''values''" gamma tau t e]
    by simp
qed

theorem computer_return_all_done_witness:
  "wf_buffer example_terminal
   \<and> shape (Tensor [1, 1] [3 :: real]) = [num_envs example_terminal, 1]
   \<and> well_shaped (Tensor [1, 1] [3 :: real])
   \<and> scalar example_terminal ''dones'' 0 0 = 1
   \<and> scalar example_terminal ''dones'' 1 0 = 1
   \<and> fst (computer_return example_terminal (Tensor [1, 1] [3]) (1 / 2) (1 / 2)) = Inr ()
   \<and> scalar (snd (computer_return example_terminal (Tensor [1, 1] [3]) (1 / 2) (1 / 2)))
          ''returns'' 0 0
        - scalar (snd (computer_return example_terminal (Tensor [1, 1] [3]) (1 / 2) (1 / 2)))
          ''values'' 0 0 = 1
   \<and> scalar (snd (computer_return example_terminal (Tensor [1, 1] [3]) (1 / 2) (1 / 2)))
          ''returns'' 1 0
        - scalar (snd (computer_return example_terminal (Tensor [1, 1] [3]) (1 / 2) (1 / 2)))
          ''values'' 1 0 = - 1"
proof -
  have h: "shape (Tensor [1, 1] [3 :: real]) = [num_envs example_terminal, 1]"
    "well_shaped (Tensor [1, 1] [3 :: real])"
    by (simp_all add: example_terminal_dims well_shaped_def)
  have d: "\<forall>t<transitions_per_env example_terminal. \<forall>e<num_envs example_terminal.
      scalar example_terminal ''dones'' t e = 1"
    by (auto simp: example_terminal_dims example_terminal_scalars dest: less_two_cases)
  note r = computer_return_all_done [OF wf_example_terminal h d, of "1 / 2" "1 / 2"]
  have t: "(0::nat) < transitions_per_env example_terminal"
    "(1::nat) < transitions_per_env example_terminal" "(0::nat) < num_envs example_terminal"
    by (simp_all add: example_terminal_dims)
  from r t have
    "scalar (snd (computer_return example_terminal (Tensor [1, 1] [3]) (1 / 2) (1 / 2)))
          ''returns'' 0 0
        - scalar (snd (computer_return example_terminal (Tensor [1, 1] [3]) (1 / 2) (1 / 2)))
          ''values'' 0 0 = 1"
    "scalar (snd (computer_return example_terminal (Tensor [1, 1] [3]) (1 / 2) (1 / 2)))
          ''returns'' 1 0
        - scalar (snd (computer_return example_terminal (Tensor [1, 1] [3]) (1 / 2) (1 / 2)))
          ''values'' 1 0 = - 1"
    by (simp_all add: example_terminal_scalars)
  then show ?thesis
    using r h wf_example_terminal by (simp add: example_terminal_scalars)
qed

section \<open>The one-step residual\<close>

text \<open>
  C5: with \<open>tau = 0\<close>, after \<open>computer_return\<close> the stored return less the stored
  value is the one-step temporal-difference residual
  \<open>reward + gamma * next_value * (1 - done) - value\<close> of that step, where the next
  value is the bootstrap value at the last timestep and the stored value at \<open>t + 1\<close>
  otherwise.
\<close>

theorem computer_return_tau_zero:
  assumes "wf_buffer b" "shape last_values = [num_envs b, 1]" "well_shaped last_values"
  shows "fst (computer_return b last_values gamma 0) = Inr ()
    \<and> (\<forall>t<transitions_per_env b. \<forall>e<num_envs b.
          scalar (snd (computer_return b last_values gamma 0)) ''returns'' t e
            - scalar (snd (computer_return b last_values gamma 0)) ''values'' t e
          = scalar b ''rewards'' t e
            + gamma * (if t = transitions_per_env b - 1 then elems last_values ! e
                       else scalar b ''values'' (t + 1) e)
                * (1 - scalar b ''dones'' t e)
            - scalar b ''values'' t e)"
proof (intro conjI allI impI)
  show "fst (computer_return b last_values gamma 0) = Inr ()"
    using assms by (rule computer_return_scalars(1))
next
  fix t e assume t: "t < transitions_per_env b" and e: "e < num_envs b"
  from t have c: "(Suc t = transitions_per_env b) = (t = transitions_per_env b - 1)"
    by auto
  show "scalar (snd (computer_return b last_values gamma 0)) ''returns'' t e
            - scalar (snd (computer_return b last_values gamma 0)) ''values'' t e
          = scalar b ''rewards'' t e
            + gamma * (if t = transitions_per_env b - 1 then elems last_values ! e
                       else scalar b ''values'' (t + 1) e)
                * (1 - scalar b ''dones'' t e)
            - scalar b ''values'' t e"
    using computer_return_scalars(2) [OF assms t e, of gamma 0]
      computer_return_scalars(3) [OF assms, of "''values''" gamma 0 t e]
    by (simp add: last_gae_tau_zero [OF t] c)
qed

theorem computer_return_tau_zero_witness:
  "wf_buffer example_rollout
   \<and> shape (Tensor [1, 1] [3 :: real]) = [num_envs example_rollout, 1]
   \<and> well_shaped (Tensor [1, 1] [3 :: real])
   \<and> fst (computer_return example_rollout (Tensor [1, 1] [3]) (1 / 2) 0) = Inr ()
   \<and> scalar (snd (computer_return example_rollout (Tensor [1, 1] [3]) (1 / 2) 0))
          ''returns'' 0 0
        - scalar (snd (computer_return example_rollout (Tensor [1, 1] [3]) (1 / 2) 0))
          ''values'' 0 0 = 2
   \<and> scalar (snd (computer_return example_rollout (Tensor [1, 1] [3]) (1 / 2) 0))
          ''returns'' 1 0
        - scalar (snd (computer_return example_rollout (Tensor [1, 1] [3]) (1 / 2) 0))
          ''values'' 1 0 = 1 / 2"
proof -
  have h: "shape (Tensor [1, 1] [3 :: real]) = [num_envs example_rollout, 1]"
    "well_shaped (Tensor [1, 1] [3 :: real])"
    by (simp_all add: example_rollout_dims well_shaped_def)
  note r = computer_return_tau_zero [OF wf_example_rollout h, of "1 / 2"]
  have t: "(0::nat) < transitions_per_env example_rollout"
    "(1::nat) < transitions_per_env example_rollout" "(0::nat) < num_envs example_rollout"
    by (simp_all add: example_rollout_dims)
  from r t have
    "scalar (snd (computer_return example_rollout (Tensor [1, 1] [3]) (1 / 2) 0))
          ''returns'' 0 0
        - scalar (snd (computer_return example_rollout (Tensor [1, 1] [3]) (1 / 2) 0))
          ''values'' 0 0 = 2"
    "scalar (snd (computer_return example_rollout (Tensor [1, 1] [3]) (1 / 2) 0))
          ''returns'' 1 0
        - scalar (snd (computer_return example_rollout (Tensor [1, 1] [3]) (1 / 2) 0))
          ''values'' 1 0 = 1 / 2"
    by (simp_all add: example_rollout_scalars example_rollout_dims)
  then show ?thesis
    using r h wf_example_rollout by simp
qed

section \<open>What \<open>computer_return\<close> leaves alone\<close>

text \<open>
  C10: for every buffer and all arguments, whether the call succeeds or raises,
  \<open>computer_return\<close> changes no attribute of the object but the two dictionaries,
  keeps the keys of \<open>storage_dict\<close> and their order, and leaves the tensor under every
  key other than \<^verbatim>\<open>returns\<close> as it was. Of the training view, if there is one, it
  changes at most the tensor under \<^verbatim>\<open>returns\<close>, which shares its elements with the
  stored one when the horizon length or the number of environments is one. The
  per-step advantages \<^verbatim>\<open>mb_advs\<close> are a local of the call: the object has no attribute
  that holds them.
\<close>

theorem computer_return_frame:
  "snd (computer_return b last_values gamma tau)
     = b\<lparr>storage_dict := storage_dict (snd (computer_return b last_values gamma tau)),
         data_dict := data_dict (snd (computer_return b last_values gamma tau))\<rparr>
   \<and> map fst (storage_dict (snd (computer_return b last_values gamma tau)))
       = map fst (storage_dict b)
   \<and> (\<forall>name. name \<noteq> ''returns'' \<longrightarrow>
         map_of (storage_dict (snd (computer_return b last_values gamma tau))) name
         = map_of (storage_dict b) name)
   \<and> map_option (map fst) (data_dict (snd (computer_return b last_values gamma tau)))
       = map_option (map fst) (data_dict b)
   \<and> map_option (AList.delete ''returns'')
         (data_dict (snd (computer_return b last_values gamma tau)))
       = map_option (AList.delete ''returns'') (data_dict b)"
proof -
  let ?b' = "snd (computer_return b last_values gamma tau)"
  have o: "only_returns_assigned b ?b'" by (rule computer_return_only_returns)
  have "\<forall>name. name \<noteq> ''returns'' \<longrightarrow>
      map_of (storage_dict ?b') name = map_of (storage_dict b) name"
  proof (intro allI impI)
    fix name :: string assume n: "name \<noteq> ''returns''"
    have "map_of (storage_dict ?b') name
        = map_of (AList.delete ''returns'' (storage_dict ?b')) name"
      using n by simp
    also have "\<dots> = map_of (AList.delete ''returns'' (storage_dict b)) name"
      using o by (simp add: only_returns_assigned_def)
    also have "\<dots> = map_of (storage_dict b) name"
      using n by simp
    finally show "map_of (storage_dict ?b') name = map_of (storage_dict b) name" .
  qed
  with o show ?thesis unfolding only_returns_assigned_def by blast
qed

theorem computer_return_frame_witness:
  "snd (computer_return example_rollout (Tensor [1, 1] [3]) (1 / 2) (1 / 2))
     = example_rollout\<lparr>storage_dict :=
         storage_dict (snd (computer_return example_rollout (Tensor [1, 1] [3]) (1 / 2) (1 / 2))),
       data_dict :=
         data_dict (snd (computer_return example_rollout (Tensor [1, 1] [3]) (1 / 2) (1 / 2)))\<rparr>
   \<and> map_of (storage_dict (snd (computer_return example_rollout (Tensor [1, 1] [3])
         (1 / 2) (1 / 2)))) ''values''
       = Some (Tensor [2, 1, 1] [0, 2])
   \<and> map_of (storage_dict (snd (computer_return example_rollout (Tensor [1, 1] [3])
         (1 / 2) (1 / 2)))) ''rewards''
       = Some (Tensor [2, 1, 1] [1, 1])
   \<and> map_of (storage_dict (snd (computer_return example_rollout (Tensor [1, 1] [3])
         (1 / 2) (1 / 2)))) ''dones''
       = Some (Tensor [2, 1] [0, 0])"
  using computer_return_frame [of example_rollout "Tensor [1, 1] [3]" "1 / 2" "1 / 2"]
  by (simp add: example_rollout_storage)

section \<open>Number of minibatches\<close>

text \<open>
  C3, as stated: for every buffer the constructor returns,
  \<open>length() * minibatch_size = batch_size\<close>. The constructor accepts sizes that do not
  divide: with \<open>batch_size = 5\<close> and \<open>minibatch_size = 2\<close> it returns a buffer of length
  \<open>2\<close>, and \<open>2 * 2\<close> is not \<open>5\<close>.
\<close>

theorem len_times_minibatch_counterexample:
  "\<not> isl (init 1 5 5 2 1 1 1 1)
   \<and> len (projr (init 1 5 5 2 1 1 1 1)) = 2
   \<and> minibatch_size (projr (init 1 5 5 2 1 1 1 1)) = 2
   \<and> batch_size (projr (init 1 5 5 2 1 1 1 1)) = 5
   \<and> len (projr (init 1 5 5 2 1 1 1 1)) * minibatch_size (projr (init 1 5 5 2 1 1 1 1))
       \<noteq> batch_size (projr (init 1 5 5 2 1 1 1 1))"
  by (simp add: init_def len_def)

text \<open>
  C3, amended: for a buffer the constructor returns, \<open>length() * minibatch_size\<close> is
  \<open>batch_size\<close> less the remainder of the floor division, so it equals \<open>batch_size\<close>
  exactly when \<open>minibatch_size\<close> divides \<open>batch_size\<close>.
\<close>

theorem len_times_minibatch:
  assumes "init n_envs horizon_length b_size mb_size o_dim a_dim p_dim pc_dim = Inr b"
  shows "len b * minibatch_size b = batch_size b - batch_size b mod minibatch_size b
         \<and> (len b * minibatch_size b = batch_size b \<longleftrightarrow> minibatch_size b dvd batch_size b)"
proof -
  from assms have b: "batch_size b = b_size" "minibatch_size b = mb_size"
    "len b = b_size div mb_size" and nz: "mb_size \<noteq> 0"
    by (auto simp: init_def len_def split: if_splits)
  have "b_size div mb_size * mb_size = b_size - b_size mod mb_size"
    by (simp add: minus_mod_eq_div_mult)
  moreover have "(b_size div mb_size * mb_size = b_size) \<longleftrightarrow> mb_size dvd b_size"
    by (metis dvd_div_mult_self dvd_triv_right)
  ultimately show ?thesis using b by simp
qed

theorem len_times_minibatch_witness:
  "\<exists>b. init 2 4 8 4 3 1 1 1 = Inr b
       \<and> len b * minibatch_size b = batch_size b \<and> len b = 2"
proof -
  obtain b where i: "init 2 4 8 4 3 1 1 1 = Inr b"
    by (simp add: init_def)
  then have "minibatch_size b = 4" "batch_size b = 8"
    by (auto simp: init_def)
  with len_times_minibatch [OF i] i show ?thesis by simp
qed

section \<open>Writing, then reading through the training view\<close>

text \<open>
  C2, as stated: for every field, a correctly shaped value written at a timestep is read
  back exactly through the training view. The field \<^verbatim>\<open>dones\<close> holds unsigned bytes, and a
  write converts to them: on the buffer of two timesteps and two environments, the flags
  \<open>1/2\<close> and \<open>256\<close> written for the two environments at the first timestep are both
  read back as \<open>0\<close>.
\<close>

theorem write_then_flatten_counterexample:
  "update_data example_grid ''dones'' 0 (Array (Tensor [2] [1 / 2, 256]))
     = (Inr (), example_flags)
   \<and> fst (prepare_training example_flags) = Inr (training_view example_flags)
   \<and> view_sample (snd (prepare_training example_flags)) ''dones'' (flat_index example_grid 0 0)
       = [Some 0]
   \<and> view_sample (snd (prepare_training example_flags)) ''dones'' (flat_index example_grid 0 1)
       = [Some 0]"
proof -
  have s: "map_of (storage_dict example_flags) ''dones'' = Some (Tensor [2, 2] [0, 0, 0, 0])"
    and u: "fst (update_data example_grid ''dones'' 0 (Array (Tensor [2] [1 / 2, 256]))) = Inr ()"
    by (simp_all add: example_flags_def example_grid_def eval_defs eval_nat_numeral)
  have wf: "wf_buffer example_flags"
    unfolding example_flags_def
    by (intro wf_update_data wf_example_grid) (simp add: well_shaped_def)
  have d: "transitions_per_env example_flags = 2" "num_envs example_flags = 2"
    by (simp_all add: example_flags_def update_data_attributes example_grid_dims)
  have f: "flat_index example_grid t e = flat_index example_flags t e" for t e
    by (simp add: flat_index_def d example_grid_dims)
  have "viewed (training_view example_flags) ''dones'' (flat_index example_flags 0 e)
      = map Some (stored example_flags ''dones'' 0 e)" if "e < 2" for e
    using that by (intro viewed_training_view [OF wf s]) (simp_all add: d)
  from this [of 0] this [of 1]
  have "viewed (training_view example_flags) ''dones'' (flat_index example_grid 0 0) = [Some 0]"
    "viewed (training_view example_flags) ''dones'' (flat_index example_grid 0 1) = [Some 0]"
    by (simp_all add: f stored_def s d block_def)
  moreover have "prepare_training example_flags
      = (Inr (training_view example_flags),
         example_flags\<lparr>data_dict := Some (training_view example_flags)\<rparr>)"
    using wf by (rule prepare_training_ok)
  moreover have "update_data example_grid ''dones'' 0 (Array (Tensor [2] [1 / 2, 256]))
      = (Inr (), example_flags)"
    using u by (simp add: example_flags_def prod_eq_iff)
  ultimately show ?thesis
    by (simp add: view_sample_def)
qed

text \<open>
  C2, amended: on a well-formed buffer, writing a value \<open>v\<close> of the field's per-timestep
  shape at a timestep \<open>t\<close> succeeds, and \<open>prepare_training\<close> then succeeds with a view in
  which the sample of that field at the flattened index \<open>flat_index b t e\<close> is the row
  of \<open>v\<close> for environment \<open>e\<close>, for every field other than \<^verbatim>\<open>dones\<close>, and for
  \<^verbatim>\<open>dones\<close> when the flags written are whole numbers from \<open>0\<close> to \<open>255\<close>. For \<^verbatim>\<open>dones\<close> in
  general the sample is the flag written for environment \<open>e\<close> without its fraction and
  reduced modulo \<open>256\<close>. The flattened index does not depend on the field: for
  every stored field, the sample at \<open>flat_index b t' e\<close> is what the storage holds at
  \<open>(t', e)\<close>, and so the sample at an index \<open>i\<close> is what the storage holds at timestep
  \<open>i mod T\<close> for environment \<open>i div T\<close>, in every field.
\<close>

theorem write_then_flatten:
  assumes "wf_buffer b"
    and "(name, transitions_per_env b # num_envs b # sh) \<in> set (layout b)"
    and "t < transitions_per_env b"
    and "shape v = num_envs b # sh" "well_shaped v"
  shows "\<exists>b1 dd.
      update_data b name (int t) (Array v) = (Inr (), b1)
    \<and> prepare_training b1 = (Inr dd, b1\<lparr>data_dict := Some dd\<rparr>)
    \<and> (name \<noteq> ''dones'' \<or> (\<forall>x\<in>set (elems v). \<exists>n::nat. n < 256 \<and> x = real n)
          \<longrightarrow> (\<forall>e<num_envs b.
                viewed dd name (flat_index b t e) = map Some (block (prod_list sh) e (elems v))))
    \<and> (name = ''dones''
          \<longrightarrow> (\<forall>e<num_envs b.
                viewed dd name (flat_index b t e)
                = [Some (of_int (trunc (elems v ! e) mod 256))]))
    \<and> (\<forall>k\<in>set (map fst (layout b)). \<forall>t'<transitions_per_env b. \<forall>e<num_envs b.
          viewed dd k (flat_index b t' e) = map Some (stored b1 k t' e))
    \<and> (\<forall>k\<in>set (map fst (layout b)). \<forall>i<transitions_per_env b * num_envs b.
          viewed dd k i
          = map Some (stored b1 k (i mod transitions_per_env b) (i div transitions_per_env b)))"
proof -
  let ?T = "transitions_per_env b" and ?E = "num_envs b"
  let ?n = "prod_list sh"
  let ?v = "convert name v"
  from update_data_ok [OF assms] obtain x where
    x: "map_of (storage_dict b) name = Some x" "shape x = ?T # ?E # sh" "well_shaped x"
    and u: "update_data b name (int t) (Array v)
          = (Inr (), b\<lparr>storage_dict :=
               AList.update name
                 (Tensor (?T # ?E # sh) (put_block (?E * ?n) t (elems ?v) (elems x)))
                 (storage_dict b),
               data_dict :=
                 map_option (alias_row name (?T # ?E # sh) (int t) ?v) (data_dict b)\<rparr>)"
    by blast
  define x' where "x' = Tensor (?T # ?E # sh) (put_block (?E * ?n) t (elems ?v) (elems x))"
  define b1 where "b1 = b\<lparr>storage_dict := AList.update name x' (storage_dict b),
      data_dict := map_option (alias_row name (?T # ?E # sh) (int t) ?v) (data_dict b)\<rparr>"
  have u': "update_data b name (int t) (Array v) = (Inr (), b1)"
    using u by (simp add: b1_def x'_def)
  have wf1: "wf_buffer b1"
    using wf_update_data [OF assms(1,5), of name "int t"] u' by simp
  have dims: "transitions_per_env b1 = ?T" "num_envs b1 = ?E" "layout b1 = layout b"
    by (simp_all add: b1_def layout_def)
  have p: "prepare_training b1 = (Inr (training_view b1), b1\<lparr>data_dict := Some (training_view b1)\<rparr>)"
    using wf1 by (rule prepare_training_ok)
  have fi: "\<And>t e. flat_index b1 t e = flat_index b t e"
    by (simp add: flat_index_def dims)
  have all: "\<And>k t' e. k \<in> set (map fst (layout b)) \<Longrightarrow> t' < ?T \<Longrightarrow> e < ?E \<Longrightarrow>
      viewed (training_view b1) k (flat_index b t' e) = map Some (stored b1 k t' e)"
  proof -
    fix k t' e assume k: "k \<in> set (map fst (layout b))" and t': "t' < ?T" and e: "e < ?E"
    from k obtain s where "(k, s) \<in> set (layout b1)" by (auto simp: dims)
    from wf_lookup [OF wf1 this] obtain y where "map_of (storage_dict b1) k = Some y"
      by blast
    from viewed_training_view [OF wf1 this, of t' e] t' e
    show "viewed (training_view b1) k (flat_index b t' e) = map Some (stored b1 k t' e)"
      by (simp add: dims fi)
  qed
  have len: "length (elems x) = ?T * (?E * ?n)" "length (elems ?v) = ?E * ?n"
    using x(2,3) assms(4,5) by (simp_all add: well_shaped_def convert_elems)
  have tE: "(t + 1) * (?E * ?n) \<le> ?T * (?E * ?n)" using assms(3) by (rule block_le)
  have rt: "\<And>e. e < ?E \<Longrightarrow> stored b1 name t e = block ?n e (elems ?v)"
  proof -
    fix e assume e: "e < ?E"
    have "stored b1 name t e = block ?n (t * ?E + e) (put_block (?E * ?n) t (elems ?v) (elems x))"
      by (simp add: stored_def b1_def x'_def update_conv')
    also have "\<dots> = block ?n e (block (?E * ?n) t (put_block (?E * ?n) t (elems ?v) (elems x)))"
      using e by (simp add: block_block)
    also have "block (?E * ?n) t (put_block (?E * ?n) t (elems ?v) (elems x)) = elems ?v"
      using len tE by (intro block_put_block_same) simp_all
    finally show "stored b1 name t e = block ?n e (elems ?v)" .
  qed
  have name_in: "name \<in> set (map fst (layout b))"
    using assms(2) by force
  have c0: "\<forall>e<?E. viewed (training_view b1) name (flat_index b t e)
      = map Some (block ?n e (elems ?v))"
    using all [OF name_in assms(3)] rt by simp
  have c1: "name \<noteq> ''dones'' \<or> (\<forall>x\<in>set (elems v). \<exists>n::nat. n < 256 \<and> x = real n)
      \<longrightarrow> (\<forall>e<?E. viewed (training_view b1) name (flat_index b t e)
            = map Some (block ?n e (elems v)))"
  proof
    assume "name \<noteq> ''dones'' \<or> (\<forall>x\<in>set (elems v). \<exists>n::nat. n < 256 \<and> x = real n)"
    then have "?v = v" using convert_float [of name v] convert_bytes [of v name] by blast
    with c0 show "\<forall>e<?E. viewed (training_view b1) name (flat_index b t e)
            = map Some (block ?n e (elems v))"
      by simp
  qed
  have c2: "name = ''dones''
      \<longrightarrow> (\<forall>e<?E. viewed (training_view b1) name (flat_index b t e)
            = [Some (of_int (trunc (elems v ! e) mod 256))])"
  proof (intro impI allI)
    fix e assume n: "name = ''dones''" and e: "e < ?E"
    have "(''dones'', [?T, ?E]) \<in> set (layout b)" by (simp add: layout_def Let_def)
    with assms(2) n layout_distinct [of b] have sh: "sh = []"
      by (metis eq_key_imp_eq_value list.inject)
    then have l: "length (elems v) = ?E"
      using assms(4,5) by (simp add: well_shaped_def)
    have "block 1 e (map (cast UInt8) (elems v)) = [map (cast UInt8) (elems v) ! e]"
      using e l by (intro block_one) simp
    then have "block 1 e (elems ?v) = [cast UInt8 (elems v ! e)]"
      using e l by (simp add: convert_elems n field_dtype_def del: One_nat_def)
    with c0 [rule_format, OF e] show "viewed (training_view b1) name (flat_index b t e)
            = [Some (of_int (trunc (elems v ! e) mod 256))]"
      by (simp add: sh cast_uint8)
  qed
  have c3: "\<forall>k\<in>set (map fst (layout b)). \<forall>i<?T * ?E.
      viewed (training_view b1) k i = map Some (stored b1 k (i mod ?T) (i div ?T))"
  proof (intro ballI allI impI)
    fix k i assume k: "k \<in> set (map fst (layout b))" and i: "i < ?T * ?E"
    then have T: "0 < ?T" by (cases ?T) auto
    have "i mod ?T < ?T" using T by simp
    moreover have "i div ?T < ?E" using i by (simp add: less_mult_imp_div_less mult.commute)
    ultimately have "viewed (training_view b1) k (flat_index b (i mod ?T) (i div ?T))
        = map Some (stored b1 k (i mod ?T) (i div ?T))"
      using k by (intro all)
    then show "viewed (training_view b1) k i = map Some (stored b1 k (i mod ?T) (i div ?T))"
      by (simp add: flat_index_def)
  qed
  have c4: "\<forall>k\<in>set (map fst (layout b)). \<forall>t'<?T. \<forall>e<?E.
      viewed (training_view b1) k (flat_index b t' e) = map Some (stored b1 k t' e)"
    using all by blast
  show ?thesis
    using u' p c1 c2 c4 c3
    by (intro exI [of _ b1] exI [of _ "training_view b1"]) (simp only: simp_thms)
qed

theorem write_then_flatten_witness:
  "wf_buffer example_filled
   \<and> (''obses'', transitions_per_env example_filled # num_envs example_filled # [1])
       \<in> set (layout example_filled)
   \<and> (''dones'', transitions_per_env example_filled # num_envs example_filled # [])
       \<in> set (layout example_filled)
   \<and> 1 < transitions_per_env example_filled
   \<and> shape (Tensor [2, 1] [5, 7 :: real]) = num_envs example_filled # [1]
   \<and> well_shaped (Tensor [2, 1] [5, 7 :: real])
   \<and> shape (Tensor [2] [1, 300 :: real]) = num_envs example_filled # []
   \<and> well_shaped (Tensor [2] [1, 300 :: real])
   \<and> (\<exists>b1 dd.
        update_data example_filled ''obses'' 1 (Array (Tensor [2, 1] [5, 7])) = (Inr (), b1)
      \<and> prepare_training b1 = (Inr dd, b1\<lparr>data_dict := Some dd\<rparr>)
      \<and> viewed dd ''obses'' 1 = [Some 5]
      \<and> viewed dd ''obses'' 3 = [Some 7]
      \<and> viewed dd ''obses'' 0 = [Some 11]
      \<and> viewed dd ''obses'' 2 = [Some 12]
      \<and> viewed dd ''values'' 2 = [Some 2]
      \<and> viewed dd ''point_cloud_info'' 1 = [Some 37, Some 38, Some 39])
   \<and> (\<exists>b1 dd.
        update_data example_filled ''dones'' 0 (Array (Tensor [2] [1, 300])) = (Inr (), b1)
      \<and> prepare_training b1 = (Inr dd, b1\<lparr>data_dict := Some dd\<rparr>)
      \<and> viewed dd ''dones'' 0 = [Some 1]
      \<and> viewed dd ''dones'' 2 = [Some 44]
      \<and> viewed dd ''dones'' 1 = [Some 0])"
proof -
  let ?f = example_filled
  let ?v = "Tensor [2, 1] [5, 7 :: real]" and ?w = "Tensor [2] [1, 300 :: real]"
  have h: "(''obses'', transitions_per_env ?f # num_envs ?f # [1]) \<in> set (layout ?f)"
    "1 < transitions_per_env ?f" "shape ?v = num_envs ?f # [1]" "well_shaped ?v"
    and g: "(''dones'', transitions_per_env ?f # num_envs ?f # []) \<in> set (layout ?f)"
    "0 < transitions_per_env ?f" "shape ?w = num_envs ?f # []" "well_shaped ?w"
    by (simp_all add: layout_def example_filled_dims well_shaped_def)
  have k: "''obses'' \<in> set (map fst (layout ?f))" "''values'' \<in> set (map fst (layout ?f))"
    "''point_cloud_info'' \<in> set (map fst (layout ?f))" "''dones'' \<in> set (map fst (layout ?f))"
    by (simp_all add: layout_def Let_def)
  have d: "transitions_per_env ?f = 2" "num_envs ?f = 2" by (simp_all add: example_filled_dims)
  from write_then_flatten [OF wf_example_filled h] obtain b1 dd where
    r: "update_data ?f ''obses'' (int 1) (Array ?v) = (Inr (), b1)"
      "prepare_training b1 = (Inr dd, b1\<lparr>data_dict := Some dd\<rparr>)"
      "''obses'' \<noteq> ''dones'' \<or> (\<forall>x\<in>set (elems ?v). \<exists>n::nat. n < 256 \<and> x = real n)
          \<longrightarrow> (\<forall>e<num_envs ?f.
                viewed dd ''obses'' (flat_index ?f 1 e)
                = map Some (block (prod_list [1]) e (elems ?v)))"
      "\<forall>k\<in>set (map fst (layout ?f)). \<forall>i<transitions_per_env ?f * num_envs ?f.
          viewed dd k i
          = map Some (stored b1 k (i mod transitions_per_env ?f) (i div transitions_per_env ?f))"
    by (elim exE conjE) (rule that)
  have b1: "b1 = snd (update_data ?f ''obses'' 1 (Array ?v))" using r(1) by simp
  have s1: "map_of (storage_dict b1) ''obses'' = Some (Tensor [2, 2, 1] [11, 12, 5, 7])"
    "map_of (storage_dict b1) ''values'' = Some (Tensor [2, 2, 1] [1, 2, 3, 5])"
    "map_of (storage_dict b1) ''point_cloud_info''
       = Some (Tensor [2, 2, 1, 3] [31, 32, 33, 34, 35, 36, 37, 38, 39, 40, 41, 42])"
    "num_envs b1 = 2"
    by (simp_all add: b1 update_data_attributes d)
       (simp_all add: update_data_def store_row_def dict_get_def setitem_row_def norm_index_def
          copy_to_def expand_def pad_shape_def put_block_def block_def convert_fields
          example_filled_storage eval_nat_numeral)
  from r(3) have o: "\<forall>e<num_envs ?f. viewed dd ''obses'' (flat_index ?f 1 e)
                = map Some (block (prod_list [1]) e (elems ?v))"
    by simp
  have a: "viewed dd ''obses'' 1 = [Some 5]" "viewed dd ''obses'' 3 = [Some 7]"
    using o [rule_format, of 0] o [rule_format, of 1]
    by (simp_all add: d flat_index_def block_def)
  have c: "viewed dd ''obses'' 0 = [Some 11]" "viewed dd ''obses'' 2 = [Some 12]"
    "viewed dd ''values'' 2 = [Some 2]"
    "viewed dd ''point_cloud_info'' 1 = [Some 37, Some 38, Some 39]"
    using r(4) [rule_format, OF k(1), of 0] r(4) [rule_format, OF k(1), of 2]
      r(4) [rule_format, OF k(2), of 2] r(4) [rule_format, OF k(3), of 1]
    by (simp_all add: d stored_def s1 block_def)
  from write_then_flatten [OF wf_example_filled g] obtain b2 dd2 where
    q: "update_data ?f ''dones'' (int 0) (Array ?w) = (Inr (), b2)"
      "prepare_training b2 = (Inr dd2, b2\<lparr>data_dict := Some dd2\<rparr>)"
      "''dones'' = ''dones''
          \<longrightarrow> (\<forall>e<num_envs ?f.
                viewed dd2 ''dones'' (flat_index ?f 0 e)
                = [Some (of_int (trunc (elems ?w ! e) mod 256))])"
      "\<forall>k\<in>set (map fst (layout ?f)). \<forall>i<transitions_per_env ?f * num_envs ?f.
          viewed dd2 k i
          = map Some (stored b2 k (i mod transitions_per_env ?f) (i div transitions_per_env ?f))"
    by (elim exE conjE) (rule that)
  have b2: "b2 = snd (update_data ?f ''dones'' 0 (Array ?w))" using q(1) by simp
  have s2: "map_of (storage_dict b2) ''dones'' = Some (Tensor [2, 2] [1, 44, 0, 0])"
    "num_envs b2 = 2"
    by (simp_all add: b2 update_data_attributes d)
       (simp_all add: update_data_def store_row_def dict_get_def setitem_row_def norm_index_def
          copy_to_def expand_def pad_shape_def put_block_def block_def convert_dones tmap_def
          trunc_def example_filled_storage eval_nat_numeral)
  from q(3) have o2: "\<forall>e<num_envs ?f. viewed dd2 ''dones'' (flat_index ?f 0 e)
                = [Some (of_int (trunc (elems ?w ! e) mod 256))]"
    by simp
  have a2: "viewed dd2 ''dones'' 0 = [Some 1]" "viewed dd2 ''dones'' 2 = [Some 44]"
    using o2 [rule_format, of 0] o2 [rule_format, of 1]
    by (simp_all add: d flat_index_def trunc_def)
  have c2: "viewed dd2 ''dones'' 1 = [Some 0]"
    using q(4) [rule_format, OF k(4), of 1]
    by (simp add: d stored_def s2 block_def)
  have 1: "\<exists>b1 dd.
        update_data ?f ''obses'' 1 (Array ?v) = (Inr (), b1)
      \<and> prepare_training b1 = (Inr dd, b1\<lparr>data_dict := Some dd\<rparr>)
      \<and> viewed dd ''obses'' 1 = [Some 5]
      \<and> viewed dd ''obses'' 3 = [Some 7]
      \<and> viewed dd ''obses'' 0 = [Some 11]
      \<and> viewed dd ''obses'' 2 = [Some 12]
      \<and> viewed dd ''values'' 2 = [Some 2]
      \<and> viewed dd ''point_cloud_info'' 1 = [Some 37, Some 38, Some 39]"
    using r(1,2) a c by (intro exI [of _ b1] exI [of _ dd]) simp
  have 2: "\<exists>b1 dd.
        update_data ?f ''dones'' 0 (Array ?w) = (Inr (), b1)
      \<and> prepare_training b1 = (Inr dd, b1\<lparr>data_dict := Some dd\<rparr>)
      \<and> viewed dd ''dones'' 0 = [Some 1]
      \<and> viewed dd ''dones'' 2 = [Some 44]
      \<and> viewed dd ''dones'' 1 = [Some 0]"
    using q(1,2) a2 c2 by (intro exI [of _ b2] exI [of _ dd2]) simp
  from wf_example_filled h g(1,3,4) 1 2 show ?thesis by (simp only: simp_thms)
qed

section \<open>Out-of-range and ill-shaped writes\<close>

text \<open>
  C8, as stated: every time index outside \<open>0 \<le> time_index < horizon_length\<close> and
  every value whose shape is not \<open>[num_envs, *trailing]\<close> is rejected. On the buffer
  of two timesteps and one environment, the index \<open>-1\<close> is accepted and the value is
  stored at the last timestep; on the buffer of two timesteps and two environments, a
  value of shape \<open>[1]\<close> is accepted for the field of shape \<open>[2, 1]\<close> per timestep and
  stored for both environments.
\<close>

theorem update_data_rejects_counterexample:
  "fst (update_data example_buffer ''rewards'' (- 1) (Array (Tensor [1, 1] [9]))) = Inr ()
   \<and> map_of (storage_dict
        (snd (update_data example_buffer ''rewards'' (- 1) (Array (Tensor [1, 1] [9])))))
        ''rewards'' = Some (Tensor [2, 1, 1] [0, 9])
   \<and> fst (update_data example_grid ''obses'' 0 (Array (Tensor [1] [4]))) = Inr ()
   \<and> map_of (storage_dict
        (snd (update_data example_grid ''obses'' 0 (Array (Tensor [1] [4])))))
        ''obses'' = Some (Tensor [2, 2, 1] [4, 4, 0, 0])"
  by (simp add: example_buffer_def example_grid_def eval_defs eval_nat_numeral)

text \<open>
  C8, amended: on a well-formed buffer, writing an array to a stored field raises exactly
  when the time index is outside \<open>-horizon_length \<le> time_index < horizon_length\<close> or
  the value's shape is not broadcastable to \<open>[num_envs, *trailing]\<close>; a call that raises
  leaves the buffer as it was; and an index \<open>-horizon_length \<le> time_index < 0\<close> does what
  the index \<open>time_index + horizon_length\<close> does. A call that does not raise returns and
  stores: in the tensor of the field, the run of the timestep \<open>time_index\<close>, or
  \<open>time_index + horizon_length\<close> for a negative index, becomes the value broadcast to
  \<open>[num_envs, *trailing]\<close>, with its elements converted to the element type of the field;
  the rest of that tensor and every other stored tensor are as before, and outside the two
  dictionaries the buffer is as before. The training view, if there is one, is as before
  unless the horizon length or the number of environments is one. The elements stored
  are those of the value itself when it has the shape \<open>[num_envs, *trailing]\<close>, and
  converting changes no value written to a field other than \<^verbatim>\<open>dones\<close>.
\<close>

theorem update_data_rejects:
  assumes "wf_buffer b" and "(name, transitions_per_env b # num_envs b # sh) \<in> set (layout b)"
  shows "(isl (fst (update_data b name i (Array v)))
            \<longleftrightarrow> \<not> (- int (transitions_per_env b) \<le> i \<and> i < int (transitions_per_env b)
                   \<and> broadcastable (shape v) (num_envs b # sh)))
    \<and> (isl (fst (update_data b name i (Array v)))
            \<longrightarrow> snd (update_data b name i (Array v)) = b)
    \<and> (- int (transitions_per_env b) \<le> i \<and> i < 0
            \<longrightarrow> update_data b name i (Array v)
                = update_data b name (i + int (transitions_per_env b)) (Array v))
    \<and> (- int (transitions_per_env b) \<le> i \<and> i < int (transitions_per_env b)
         \<and> broadcastable (shape v) (num_envs b # sh)
            \<longrightarrow> (\<exists>x b'. map_of (storage_dict b) name = Some x
                  \<and> update_data b name i (Array v) = (Inr (), b')
                  \<and> dictionaries_only b b'
                  \<and> storage_dict b'
                      = AList.update name
                          (Tensor (transitions_per_env b # num_envs b # sh)
                             (put_block (num_envs b * prod_list sh)
                                (nat (if i < 0 then i + int (transitions_per_env b) else i))
                                (expanded (num_envs b # sh) (convert name v)) (elems x)))
                          (storage_dict b)
                  \<and> (transitions_per_env b \<noteq> 1 \<and> num_envs b \<noteq> 1
                        \<longrightarrow> data_dict b' = data_dict b)))
    \<and> (shape v = num_envs b # sh \<and> well_shaped v
            \<longrightarrow> expanded (num_envs b # sh) (convert name v) = elems (convert name v))
    \<and> (name \<noteq> ''dones'' \<longrightarrow> convert name v = v)"
proof -
  let ?T = "transitions_per_env b" and ?E = "num_envs b"
  from wf_lookup [OF assms] obtain x where
    x: "map_of (storage_dict b) name = Some x" "shape x = ?T # ?E # sh"
    by blast
  have u: "\<And>j. update_data b name j (Array v)
      = (case setitem_row x j (convert name v) of
           Inl e \<Rightarrow> (Inl e, b)
         | Inr x' \<Rightarrow>
             (Inr (), b\<lparr>storage_dict := AList.update name x' (storage_dict b),
                        data_dict :=
                          map_option (alias_row name (shape x) j (convert name v))
                            (data_dict b)\<rparr>))"
    by (simp add: update_data_def store_row_def dict_get_def x(1) split: sum.splits)
  have "isl (fst (update_data b name i (Array v))) \<longleftrightarrow> isl (setitem_row x i (convert name v))"
    by (cases "setitem_row x i (convert name v)") (simp_all add: u)
  then have 1: "isl (fst (update_data b name i (Array v)))
            \<longleftrightarrow> \<not> (- int ?T \<le> i \<and> i < int ?T \<and> broadcastable (shape v) (?E # sh))"
    by (simp add: setitem_row_fails_iff [OF x(2)])
  have 3: "- int ?T \<le> i \<and> i < 0
            \<longrightarrow> update_data b name i (Array v) = update_data b name (i + int ?T) (Array v)"
  proof (intro impI)
    assume "- int ?T \<le> i \<and> i < 0"
    then have a: "- int ?T \<le> i" "i < 0" by simp_all
    show "update_data b name i (Array v) = update_data b name (i + int ?T) (Array v)"
      by (simp only: u setitem_row_negative [OF a x(2)] alias_row_negative [OF a x(2)])
  qed
  have 4: "- int ?T \<le> i \<and> i < int ?T \<and> broadcastable (shape v) (?E # sh)
            \<longrightarrow> (\<exists>x b'. map_of (storage_dict b) name = Some x
                  \<and> update_data b name i (Array v) = (Inr (), b')
                  \<and> dictionaries_only b b'
                  \<and> storage_dict b'
                      = AList.update name
                          (Tensor (?T # ?E # sh)
                             (put_block (?E * prod_list sh)
                                (nat (if i < 0 then i + int ?T else i))
                                (expanded (?E # sh) (convert name v)) (elems x)))
                          (storage_dict b)
                  \<and> (?T \<noteq> 1 \<and> ?E \<noteq> 1 \<longrightarrow> data_dict b' = data_dict b))"
  proof (intro impI)
    assume "- int ?T \<le> i \<and> i < int ?T \<and> broadcastable (shape v) (?E # sh)"
    then have h: "- int ?T \<le> i" "i < int ?T" "broadcastable (shape v) (?E # sh)"
      by simp_all
    let ?x' = "Tensor (?T # ?E # sh)
        (put_block (?E * prod_list sh) (nat (if i < 0 then i + int ?T else i))
           (expanded (?E # sh) (convert name v)) (elems x))"
    let ?b' = "b\<lparr>storage_dict := AList.update name ?x' (storage_dict b),
        data_dict := map_option (alias_row name (?T # ?E # sh) i (convert name v)) (data_dict b)\<rparr>"
    from update_data_stores [OF assms h] x(1)
    have s: "update_data b name i (Array v) = (Inr (), ?b')" by auto
    have "dictionaries_only b ?b'" by (rule dictionaries_only_update)
    moreover have "storage_dict ?b' = AList.update name ?x' (storage_dict b)" by simp
    moreover have "?T \<noteq> 1 \<and> ?E \<noteq> 1 \<longrightarrow> data_dict ?b' = data_dict b"
      by (simp add: alias_row_apart)
    ultimately show "\<exists>x b'. map_of (storage_dict b) name = Some x
                  \<and> update_data b name i (Array v) = (Inr (), b')
                  \<and> dictionaries_only b b'
                  \<and> storage_dict b'
                      = AList.update name
                          (Tensor (?T # ?E # sh)
                             (put_block (?E * prod_list sh)
                                (nat (if i < 0 then i + int ?T else i))
                                (expanded (?E # sh) (convert name v)) (elems x)))
                          (storage_dict b)
                  \<and> (?T \<noteq> 1 \<and> ?E \<noteq> 1 \<longrightarrow> data_dict b' = data_dict b)"
      using x(1) s by (intro exI [of _ x] exI [of _ ?b']) (simp only: simp_thms)
  qed
  have 5: "shape v = ?E # sh \<and> well_shaped v
            \<longrightarrow> expanded (?E # sh) (convert name v) = elems (convert name v)"
    using expanded_same [of "convert name v"] by auto
  have 6: "name \<noteq> ''dones'' \<longrightarrow> convert name v = v"
    by (simp add: convert_float)
  from 1 3 4 5 6 update_data_unchanged_on_error [of b name i v] show ?thesis
    by (intro conjI) blast+
qed

theorem update_data_rejects_witness:
  "wf_buffer example_grid
   \<and> (''obses'', transitions_per_env example_grid # num_envs example_grid # [1])
       \<in> set (layout example_grid)
   \<and> update_data example_grid ''obses'' 2 (Array (Tensor [2, 1] [8, 9]))
       = (Inl IndexError, example_grid)
   \<and> update_data example_grid ''obses'' (- 3) (Array (Tensor [2, 1] [8, 9]))
       = (Inl IndexError, example_grid)
   \<and> update_data example_grid ''obses'' 0 (Array (Tensor [3, 1] [7, 8, 9]))
       = (Inl RuntimeError, example_grid)
   \<and> update_data example_grid ''obses'' (- 1) (Array (Tensor [2, 1] [8, 9]))
       = update_data example_grid ''obses'' 1 (Array (Tensor [2, 1] [8, 9]))
   \<and> (\<exists>b'. update_data example_grid ''obses'' (- 1) (Array (Tensor [2, 1] [8, 9])) = (Inr (), b')
        \<and> dictionaries_only example_grid b'
        \<and> storage_dict b'
            = AList.update ''obses'' (Tensor [2, 2, 1] [0, 0, 8, 9]) (storage_dict example_grid)
        \<and> data_dict b' = data_dict example_grid)
   \<and> (\<exists>b'. update_data example_grid ''obses'' 0 (Array (Tensor [1] [4])) = (Inr (), b')
        \<and> dictionaries_only example_grid b'
        \<and> storage_dict b'
            = AList.update ''obses'' (Tensor [2, 2, 1] [4, 4, 0, 0]) (storage_dict example_grid)
        \<and> data_dict b' = data_dict example_grid)"
proof -
  let ?g = example_grid
  let ?v = "Tensor [2, 1] [8, 9 :: real]" and ?w = "Tensor [1] [4 :: real]"
  have h: "(''obses'', transitions_per_env ?g # num_envs ?g # [1]) \<in> set (layout ?g)"
    by (simp add: layout_def Let_def example_grid_dims)
  have d: "transitions_per_env ?g = 2" "num_envs ?g = 2"
    by (simp_all add: example_grid_dims)
  have o: "map_of (storage_dict ?g) ''obses'' = Some (Tensor [2, 2, 1] [0, 0, 0, 0])"
    by (simp add: example_grid_def init_def zeros_def eval_nat_numeral)
  note r = update_data_rejects [OF wf_example_grid h]
  have e1: "fst (update_data ?g ''obses'' 2 (Array ?v)) = Inl IndexError"
    "fst (update_data ?g ''obses'' (- 3) (Array ?v)) = Inl IndexError"
    "fst (update_data ?g ''obses'' 0 (Array (Tensor [3, 1] [7, 8, 9]))) = Inl RuntimeError"
    by (simp_all add: example_grid_def eval_defs)
  have "snd (update_data ?g ''obses'' 2 (Array ?v)) = ?g"
    "snd (update_data ?g ''obses'' (- 3) (Array ?v)) = ?g"
    "snd (update_data ?g ''obses'' 0 (Array (Tensor [3, 1] [7, 8, 9]))) = ?g"
    using r [of 2 ?v] r [of "- 3" ?v] r [of 0 "Tensor [3, 1] [7, 8, 9]"] e1
    by simp_all
  with e1 have e: "update_data ?g ''obses'' 2 (Array ?v) = (Inl IndexError, ?g)"
    "update_data ?g ''obses'' (- 3) (Array ?v) = (Inl IndexError, ?g)"
    "update_data ?g ''obses'' 0 (Array (Tensor [3, 1] [7, 8, 9])) = (Inl RuntimeError, ?g)"
    by (simp_all add: prod_eq_iff)
  have n: "update_data ?g ''obses'' (- 1) (Array ?v) = update_data ?g ''obses'' 1 (Array ?v)"
    using r [of "- 1" ?v] by (simp add: d)
  have bv: "broadcastable (shape ?v) (num_envs ?g # [1])"
    "broadcastable (shape ?w) (num_envs ?g # [1])"
    by (simp_all add: broadcastable_def pad_shape_def d)
  have ev: "expanded [2, 1] (convert ''obses'' ?v) = [8, 9]"
    "expanded [2, 1] (convert ''obses'' ?w) = [4, 4]"
    by (simp_all add: expanded_def convert_fields pad_shape_def block_def eval_nat_numeral)
  from r [of "- 1" ?v, THEN conjunct2, THEN conjunct2, THEN conjunct2, THEN conjunct1] bv(1) ev(1)
  obtain b1 where s1: "update_data ?g ''obses'' (- 1) (Array ?v) = (Inr (), b1)"
    "dictionaries_only ?g b1"
    "storage_dict b1
       = AList.update ''obses'' (Tensor [2, 2, 1] [0, 0, 8, 9]) (storage_dict ?g)"
    "data_dict b1 = data_dict ?g"
    by (auto simp: d o put_block_def)
  from r [of 0 ?w, THEN conjunct2, THEN conjunct2, THEN conjunct2, THEN conjunct1] bv(2) ev(2)
  obtain b2 where s2: "update_data ?g ''obses'' 0 (Array ?w) = (Inr (), b2)"
    "dictionaries_only ?g b2"
    "storage_dict b2
       = AList.update ''obses'' (Tensor [2, 2, 1] [4, 4, 0, 0]) (storage_dict ?g)"
    "data_dict b2 = data_dict ?g"
    by (auto simp: d o put_block_def)
  from s1 have "\<exists>b'. update_data ?g ''obses'' (- 1) (Array ?v) = (Inr (), b')
        \<and> dictionaries_only ?g b'
        \<and> storage_dict b'
            = AList.update ''obses'' (Tensor [2, 2, 1] [0, 0, 8, 9]) (storage_dict ?g)
        \<and> data_dict b' = data_dict ?g"
    by (intro exI [of _ b1]) (simp only: simp_thms)
  moreover from s2 have "\<exists>b'. update_data ?g ''obses'' 0 (Array ?w) = (Inr (), b')
        \<and> dictionaries_only ?g b'
        \<and> storage_dict b'
            = AList.update ''obses'' (Tensor [2, 2, 1] [4, 4, 0, 0]) (storage_dict ?g)
        \<and> data_dict b' = data_dict ?g"
    by (intro exI [of _ b2]) (simp only: simp_thms)
  ultimately show ?thesis
    using wf_example_grid h e n by (simp only: simp_thms)
qed

section \<open>Minibatches\<close>

text \<open>
  C7: let the buffer hold a training view as \<open>prepare_training\<close> builds it, let
  \<open>batch_size\<close> be \<open>horizon_length * num_envs\<close> and \<open>length\<close> be as the constructor
  set it. Then for \<open>0 \<le> i < length()\<close>, \<^verbatim>\<open>__getitem__(i)\<close> returns, in the order
  value, neg_log_prob, advantage, action_mean, action_std, return, action, observation,
  privileged_info, point_cloud, the samples of each field with the flattened indices
  \<open>i * minibatch_size, \<dots>, (i + 1) * minibatch_size - 1\<close>, and records
  \<open>(i * minibatch_size, (i + 1) * minibatch_size)\<close> as \<open>last_range\<close>; nothing else of
  the buffer changes.
\<close>

theorem getitem_minibatch:
  assumes "wf_view b"
    and "batch_size b = int (transitions_per_env b * num_envs b)"
    and "length' b = batch_size b div minibatch_size b"
    and "0 \<le> i" "i < len b"
  shows "\<exists>dd. data_dict b = Some dd
    \<and> getitem b i
       = (Inr (field_samples dd ''values'' (nat (i * minibatch_size b)) (nat (minibatch_size b)),
               field_samples dd ''neglogpacs'' (nat (i * minibatch_size b)) (nat (minibatch_size b)),
               field_samples dd ''advantages'' (nat (i * minibatch_size b)) (nat (minibatch_size b)),
               field_samples dd ''mus'' (nat (i * minibatch_size b)) (nat (minibatch_size b)),
               field_samples dd ''sigmas'' (nat (i * minibatch_size b)) (nat (minibatch_size b)),
               field_samples dd ''returns'' (nat (i * minibatch_size b)) (nat (minibatch_size b)),
               field_samples dd ''actions'' (nat (i * minibatch_size b)) (nat (minibatch_size b)),
               field_samples dd ''obses'' (nat (i * minibatch_size b)) (nat (minibatch_size b)),
               field_samples dd ''priv_info'' (nat (i * minibatch_size b)) (nat (minibatch_size b)),
               field_samples dd ''point_cloud_info'' (nat (i * minibatch_size b))
                 (nat (minibatch_size b))),
          b\<lparr>last_range := Some (i * minibatch_size b, (i + 1) * minibatch_size b)\<rparr>)"
proof -
  from assms(1) obtain dd where dd: "data_dict b = Some dd"
    by (auto simp: wf_view_def split: option.splits)
  have i: "i < int (transitions_per_env b * num_envs b) div minibatch_size b"
    using assms(2,3,5) by (simp add: len_def)
  note r = minibatch_range [OF assms(4) i]
  have m: "(i + 1) * minibatch_size b - i * minibatch_size b = minibatch_size b"
    by (simp add: distrib_right)
  from getitem_result [OF assms(1) dd r(3,4,2) refl refl] dd show ?thesis
    by (simp add: m)
qed

theorem getitem_minibatch_witness:
  "wf_view (snd (prepare_training example_filled))
   \<and> batch_size (snd (prepare_training example_filled))
       = int (transitions_per_env (snd (prepare_training example_filled))
              * num_envs (snd (prepare_training example_filled)))
   \<and> length' (snd (prepare_training example_filled))
       = batch_size (snd (prepare_training example_filled))
         div minibatch_size (snd (prepare_training example_filled))
   \<and> (1::int) < len (snd (prepare_training example_filled))
   \<and> getitem (snd (prepare_training example_filled)) 1
       = (Inr (Tensor [2, 1] [Some 2, Some 5],
               Tensor [2] [Some 42, Some 44],
               Tensor [2] [Some (3 / (2 + 1 / 10 ^ 8)), Some (- 1 / (2 + 1 / 10 ^ 8))],
               Tensor [2, 1] [Some 62, Some 64],
               Tensor [2, 1] [Some 72, Some 74],
               Tensor [2, 1] [Some 6, Some 5],
               Tensor [2, 1] [Some 52, Some 54],
               Tensor [2, 1] [Some 12, Some 14],
               Tensor [2, 1] [Some 22, Some 24],
               Tensor [2, 1, 3] [Some 34, Some 35, Some 36, Some 40, Some 41, Some 42]),
          (snd (prepare_training example_filled))\<lparr>last_range := Some (2, 4)\<rparr>)
   \<and> getitem (snd (prepare_training example_filled)) 0
       = (Inr (Tensor [2, 1] [Some 1, Some 3],
               Tensor [2] [Some 41, Some 43],
               Tensor [2] [Some (- 1 / (2 + 1 / 10 ^ 8)), Some (- 1 / (2 + 1 / 10 ^ 8))],
               Tensor [2, 1] [Some 61, Some 63],
               Tensor [2, 1] [Some 71, Some 73],
               Tensor [2, 1] [Some 1, Some 3],
               Tensor [2, 1] [Some 51, Some 53],
               Tensor [2, 1] [Some 11, Some 13],
               Tensor [2, 1] [Some 21, Some 23],
               Tensor [2, 1, 3] [Some 31, Some 32, Some 33, Some 37, Some 38, Some 39]),
          (snd (prepare_training example_filled))\<lparr>last_range := Some (0, 2)\<rparr>)"
proof -
  let ?b = "snd (prepare_training example_filled)"
  have b: "?b = example_filled\<lparr>data_dict := Some (training_view example_filled)\<rparr>"
    by (simp add: prepare_training_ok [OF wf_example_filled])
  have h: "wf_view ?b" "batch_size ?b = int (transitions_per_env ?b * num_envs ?b)"
    "length' ?b = batch_size ?b div minibatch_size ?b"
    using wf_view_prepare_training [OF wf_example_filled]
    by (simp_all add: b example_filled_dims)
  have i: "(0::int) \<le> 1" "1 < len ?b" "(0::int) \<le> 0" "0 < len ?b"
    by (simp_all add: b example_filled_dims len_def)
  have m: "minibatch_size ?b = 2" by (simp add: b example_filled_dims)
  have dd: "data_dict ?b = Some (training_view example_filled)" by (simp add: b)
  from getitem_minibatch [OF h i(1,2)] dd
  have 1: "getitem ?b 1
       = (Inr (Tensor [2, 1] [Some 2, Some 5],
               Tensor [2] [Some 42, Some 44],
               Tensor [2] [Some (3 / (2 + 1 / 10 ^ 8)), Some (- 1 / (2 + 1 / 10 ^ 8))],
               Tensor [2, 1] [Some 62, Some 64],
               Tensor [2, 1] [Some 72, Some 74],
               Tensor [2, 1] [Some 6, Some 5],
               Tensor [2, 1] [Some 52, Some 54],
               Tensor [2, 1] [Some 12, Some 14],
               Tensor [2, 1] [Some 22, Some 24],
               Tensor [2, 1, 3] [Some 34, Some 35, Some 36, Some 40, Some 41, Some 42]),
          ?b\<lparr>last_range := Some (2, 4)\<rparr>)"
    unfolding m using example_filled_samples by (elim exE conjE) simp
  from getitem_minibatch [OF h i(3,4)] dd
  have 0: "getitem ?b 0
       = (Inr (Tensor [2, 1] [Some 1, Some 3],
               Tensor [2] [Some 41, Some 43],
               Tensor [2] [Some (- 1 / (2 + 1 / 10 ^ 8)), Some (- 1 / (2 + 1 / 10 ^ 8))],
               Tensor [2, 1] [Some 61, Some 63],
               Tensor [2, 1] [Some 71, Some 73],
               Tensor [2, 1] [Some 1, Some 3],
               Tensor [2, 1] [Some 51, Some 53],
               Tensor [2, 1] [Some 11, Some 13],
               Tensor [2, 1] [Some 21, Some 23],
               Tensor [2, 1, 3] [Some 31, Some 32, Some 33, Some 37, Some 38, Some 39]),
          ?b\<lparr>last_range := Some (0, 2)\<rparr>)"
    unfolding m using example_filled_first_samples by (elim exE conjE) simp
  from h i(2) 1 0 show ?thesis by (simp only: simp_thms)
qed

section \<open>Calling \<open>update_mu_sigma\<close>\<close>

text \<open>
  C9, as stated: \<^verbatim>\<open>update_mu_sigma\<close> fails when no minibatch has been served in the current
  cycle. It does not. \<open>last_range\<close> is assigned by \<^verbatim>\<open>__getitem__\<close> and by nothing else, so
  it outlives the cycle it was set in. In \<open>example_stale\<close> the second minibatch is served in
  the first cycle; the second cycle writes a reward, computes the returns and builds its
  training view, and serves no minibatch. \<^verbatim>\<open>update_mu_sigma\<close> then returns, and writes the
  samples 2 and 3 of \<open>mus\<close> and \<open>sigmas\<close> of the new view, the range of the cycle before.
\<close>

theorem update_mu_sigma_range_counterexample:
  "fst (update_mu_sigma example_stale (Tensor [2, 1] [5, 6]) (Tensor [2, 1] [7, 8])) = Inr ()
   \<and> view_sample (snd (update_mu_sigma example_stale (Tensor [2, 1] [5, 6]) (Tensor [2, 1] [7, 8])))
       ''mus'' 2 = [Some 5]
   \<and> view_sample (snd (update_mu_sigma example_stale (Tensor [2, 1] [5, 6]) (Tensor [2, 1] [7, 8])))
       ''sigmas'' 3 = [Some 8]"
proof -
  let ?mu = "Tensor [2, 1] [5, 6 :: real]" and ?sigma = "Tensor [2, 1] [7, 8 :: real]"
  from example_stale_facts(1) obtain dd where dd: "data_dict example_stale = Some dd"
    by (auto simp: wf_view_def split: option.splits)
  have h: "last_range example_stale = Some (int 2, int (2 + 2))"
    "2 + 2 \<le> transitions_per_env example_stale * num_envs example_stale"
    "shape ?mu = [2, act_dim example_stale]" "well_shaped ?mu"
    "shape ?sigma = [2, act_dim example_stale]" "well_shaped ?sigma"
    by (simp_all add: example_stale_facts well_shaped_def)
  from update_mu_sigma_result [OF example_stale_facts(1) dd h] obtain dd' sd' where
    u: "update_mu_sigma example_stale ?mu ?sigma
        = (Inr (), example_stale\<lparr>data_dict := Some dd', storage_dict := sd'\<rparr>)"
    and m: "\<forall>j. viewed dd' ''mus'' j
            = (if 2 \<le> j \<and> j < 2 + 2
               then map Some (block (act_dim example_stale) (j - 2) (elems ?mu))
               else viewed dd ''mus'' j)"
    and s: "\<forall>j. viewed dd' ''sigmas'' j
            = (if 2 \<le> j \<and> j < 2 + 2
               then map Some (block (act_dim example_stale) (j - 2) (elems ?sigma))
               else viewed dd ''sigmas'' j)"
    by blast
  from m [rule_format, of 2] s [rule_format, of 3] u show ?thesis
    by (simp add: view_sample_def example_stale_facts block_def)
qed

text \<open>
  C9, amended. First part: on a buffer that the constructor returned and that any calls
  other than \<^verbatim>\<open>__getitem__\<close> have been made on since, \<^verbatim>\<open>update_mu_sigma\<close> raises
  \<^verbatim>\<open>AttributeError\<close> and leaves the buffer as it was. Second part: let the buffer hold a
  training view as \<open>prepare_training\<close> builds it, with \<open>batch_size\<close> and \<open>length\<close> as in C7,
  let \<open>0 \<le> i < length()\<close>, and let \<open>mu\<close> and \<open>sigma\<close> have the shape
  \<open>[minibatch_size, act_dim]\<close>. Then \<^verbatim>\<open>update_mu_sigma\<close>, called after \<^verbatim>\<open>__getitem__(i)\<close>,
  returns; of the training view it changes the samples \<open>i * minibatch_size \<le> j <
  (i + 1) * minibatch_size\<close> of \<open>mus\<close> and \<open>sigmas\<close>, which become the rows
  \<open>j - i * minibatch_size\<close> of \<open>mu\<close> and \<open>sigma\<close>, and nothing else: every other sample of
  the two fields and every other field is as before, and so are the keys. Outside the two
  dictionaries the buffer is as \<^verbatim>\<open>__getitem__\<close> left it. (The stored \<open>mus\<close> and \<open>sigmas\<close>
  change with the view where the two share their elements, which is why the theorem does
  not fix \<open>storage_dict\<close>.)
\<close>

theorem update_mu_sigma_range:
  "(init n_envs horizon_length b_size mb_size o_dim a_dim p_dim pc_dim = Inr b0
      \<and> \<not> list_ex serves cs
    \<longrightarrow> update_mu_sigma (after b0 cs) mu sigma = (Inl AttributeError, after b0 cs))
   \<and> (wf_view b
      \<and> batch_size b = int (transitions_per_env b * num_envs b)
      \<and> length' b = batch_size b div minibatch_size b
      \<and> 0 \<le> i \<and> i < len b
      \<and> shape mu = [nat (minibatch_size b), act_dim b] \<and> well_shaped mu
      \<and> shape sigma = [nat (minibatch_size b), act_dim b] \<and> well_shaped sigma
    \<longrightarrow> (\<exists>dd dd' sd'. data_dict b = Some dd
          \<and> update_mu_sigma (snd (getitem b i)) mu sigma
              = (Inr (), b\<lparr>last_range := Some (i * minibatch_size b, (i + 1) * minibatch_size b),
                           data_dict := Some dd', storage_dict := sd'\<rparr>)
          \<and> map fst dd' = map fst dd
          \<and> (\<forall>name. name \<noteq> ''mus'' \<and> name \<noteq> ''sigmas'' \<longrightarrow> map_of dd' name = map_of dd name)
          \<and> (\<forall>j. viewed dd' ''mus'' j
                = (if nat (i * minibatch_size b) \<le> j \<and> j < nat ((i + 1) * minibatch_size b)
                   then map Some (block (act_dim b) (j - nat (i * minibatch_size b)) (elems mu))
                   else viewed dd ''mus'' j))
          \<and> (\<forall>j. viewed dd' ''sigmas'' j
                = (if nat (i * minibatch_size b) \<le> j \<and> j < nat ((i + 1) * minibatch_size b)
                   then map Some (block (act_dim b) (j - nat (i * minibatch_size b)) (elems sigma))
                   else viewed dd ''sigmas'' j))))"
proof (intro conjI impI; (elim conjE)?)
  assume "init n_envs horizon_length b_size mb_size o_dim a_dim p_dim pc_dim = Inr b0"
    and "\<not> list_ex serves cs"
  then have "last_range (after b0 cs) = None"
    by (simp add: last_range_after last_range_init)
  then show "update_mu_sigma (after b0 cs) mu sigma = (Inl AttributeError, after b0 cs)"
    by (simp add: update_mu_sigma_def)
next
  let ?mb = "minibatch_size b" and ?N = "transitions_per_env b * num_envs b"
  let ?b1 = "b\<lparr>last_range := Some (i * ?mb, (i + 1) * ?mb)\<rparr>"
  assume v: "wf_view b" and bs: "batch_size b = int ?N"
    and l: "length' b = batch_size b div ?mb" and i: "0 \<le> i" "i < len b"
    and mu: "shape mu = [nat ?mb, act_dim b]" "well_shaped mu"
    and sigma: "shape sigma = [nat ?mb, act_dim b]" "well_shaped sigma"
  from v obtain dd where dd: "data_dict b = Some dd"
    by (auto simp: wf_view_def split: option.splits)
  have "i < int ?N div ?mb" using bs l i(2) by (simp add: len_def)
  note r = minibatch_range [OF i(1) this]
  define a m where "a = nat (i * ?mb)" and "m = nat ?mb"
  have a: "int a = i * ?mb" "int (a + m) = (i + 1) * ?mb"
    using r(1,3) by (simp_all add: a_def m_def distrib_right)
  have am: "a + m = nat ((i + 1) * ?mb)" using a(2) by linarith
  have h: "wf_view ?b1" "data_dict ?b1 = Some dd" "last_range ?b1 = Some (int a, int (a + m))"
    "a + m \<le> transitions_per_env ?b1 * num_envs ?b1"
    "shape mu = [m, act_dim ?b1]" "shape sigma = [m, act_dim ?b1]"
    using v dd a r(2) mu(1) sigma(1)
    by (simp_all add: wf_view_last_range m_def del: of_nat_add of_nat_mult)
  from update_mu_sigma_result [OF h(1,2,3,4,5) mu(2) h(6) sigma(2)] obtain dd' sd' where
    u: "update_mu_sigma ?b1 mu sigma = (Inr (), ?b1\<lparr>data_dict := Some dd', storage_dict := sd'\<rparr>)"
    and k: "map fst dd' = map fst dd"
    and o: "\<forall>name. name \<noteq> ''mus'' \<and> name \<noteq> ''sigmas'' \<longrightarrow> map_of dd' name = map_of dd name"
    and vm: "\<forall>j. viewed dd' ''mus'' j
            = (if a \<le> j \<and> j < a + m then map Some (block (act_dim ?b1) (j - a) (elems mu))
               else viewed dd ''mus'' j)"
    and vs: "\<forall>j. viewed dd' ''sigmas'' j
            = (if a \<le> j \<and> j < a + m then map Some (block (act_dim ?b1) (j - a) (elems sigma))
               else viewed dd ''sigmas'' j)"
    by blast
  have "update_mu_sigma (snd (getitem b i)) mu sigma
      = (Inr (), b\<lparr>last_range := Some (i * ?mb, (i + 1) * ?mb),
                   data_dict := Some dd', storage_dict := sd'\<rparr>)"
    using u by (simp add: getitem_last_range)
  with dd k o vm vs show "\<exists>dd dd' sd'. data_dict b = Some dd
          \<and> update_mu_sigma (snd (getitem b i)) mu sigma
              = (Inr (), b\<lparr>last_range := Some (i * minibatch_size b, (i + 1) * minibatch_size b),
                           data_dict := Some dd', storage_dict := sd'\<rparr>)
          \<and> map fst dd' = map fst dd
          \<and> (\<forall>name. name \<noteq> ''mus'' \<and> name \<noteq> ''sigmas'' \<longrightarrow> map_of dd' name = map_of dd name)
          \<and> (\<forall>j. viewed dd' ''mus'' j
                = (if nat (i * minibatch_size b) \<le> j \<and> j < nat ((i + 1) * minibatch_size b)
                   then map Some (block (act_dim b) (j - nat (i * minibatch_size b)) (elems mu))
                   else viewed dd ''mus'' j))
          \<and> (\<forall>j. viewed dd' ''sigmas'' j
                = (if nat (i * minibatch_size b) \<le> j \<and> j < nat ((i + 1) * minibatch_size b)
                   then map Some (block (act_dim b) (j - nat (i * minibatch_size b)) (elems sigma))
                   else viewed dd ''sigmas'' j))"
    unfolding am a_def [symmetric]
    by (intro exI [of _ dd] exI [of _ dd'] exI [of _ sd']) (simp add: a_def [symmetric])
qed

theorem update_mu_sigma_range_witness:
  "init 2 2 4 2 1 1 1 1 = Inr example_grid
   \<and> \<not> list_ex serves
         [Update_data ''rewards'' 0 (Array (Tensor [2, 1] [1, 1])), Prepare_training]
   \<and> update_mu_sigma
         (after example_grid
            [Update_data ''rewards'' 0 (Array (Tensor [2, 1] [1, 1])), Prepare_training])
         (Tensor [2, 1] [5, 6]) (Tensor [2, 1] [7, 8])
       = (Inl AttributeError,
          after example_grid
            [Update_data ''rewards'' 0 (Array (Tensor [2, 1] [1, 1])), Prepare_training])
   \<and> wf_view (snd (prepare_training example_grid))
   \<and> batch_size (snd (prepare_training example_grid))
       = int (transitions_per_env (snd (prepare_training example_grid))
              * num_envs (snd (prepare_training example_grid)))
   \<and> length' (snd (prepare_training example_grid))
       = batch_size (snd (prepare_training example_grid))
         div minibatch_size (snd (prepare_training example_grid))
   \<and> (1::int) < len (snd (prepare_training example_grid))
   \<and> shape (Tensor [2, 1] [5, 6 :: real])
       = [nat (minibatch_size (snd (prepare_training example_grid))),
          act_dim (snd (prepare_training example_grid))]
   \<and> well_shaped (Tensor [2, 1] [5, 6 :: real])
   \<and> shape (Tensor [2, 1] [7, 8 :: real])
       = [nat (minibatch_size (snd (prepare_training example_grid))),
          act_dim (snd (prepare_training example_grid))]
   \<and> well_shaped (Tensor [2, 1] [7, 8 :: real])
   \<and> (\<exists>dd dd' sd'. data_dict (snd (prepare_training example_grid)) = Some dd
      \<and> update_mu_sigma (snd (getitem (snd (prepare_training example_grid)) 1))
           (Tensor [2, 1] [5, 6]) (Tensor [2, 1] [7, 8])
         = (Inr (), (snd (prepare_training example_grid))
                      \<lparr>last_range := Some (2, 4), data_dict := Some dd', storage_dict := sd'\<rparr>)
      \<and> viewed dd' ''mus'' 2 = [Some 5] \<and> viewed dd' ''mus'' 3 = [Some 6]
      \<and> viewed dd' ''sigmas'' 2 = [Some 7] \<and> viewed dd' ''sigmas'' 3 = [Some 8]
      \<and> viewed dd' ''mus'' 0 = viewed dd ''mus'' 0
      \<and> viewed dd' ''sigmas'' 1 = viewed dd ''sigmas'' 1
      \<and> map_of dd' ''values'' = map_of dd ''values'')"
proof -
  let ?b = "snd (prepare_training example_grid)"
  let ?cs = "[Update_data ''rewards'' 0 (Array (Tensor [2, 1] [1, 1])), Prepare_training]"
  let ?mu = "Tensor [2, 1] [5, 6 :: real]" and ?sigma = "Tensor [2, 1] [7, 8 :: real]"
  note t = update_mu_sigma_range [where n_envs = 2 and horizon_length = 2 and b_size = 4
      and mb_size = 2 and o_dim = 1 and a_dim = 1 and p_dim = 1 and pc_dim = 1
      and ?b0.0 = example_grid and cs = ?cs and mu = ?mu and sigma = ?sigma and b = ?b and i = 1]
  have b: "?b = example_grid\<lparr>data_dict := Some (training_view example_grid)\<rparr>"
    by (simp add: prepare_training_ok [OF wf_example_grid])
  have h1: "init 2 2 4 2 1 1 1 1 = Inr example_grid \<and> \<not> list_ex serves ?cs"
    using example_grid_eq by simp
  have h2: "wf_view ?b \<and> batch_size ?b = int (transitions_per_env ?b * num_envs ?b)
      \<and> length' ?b = batch_size ?b div minibatch_size ?b \<and> (0::int) \<le> 1 \<and> 1 < len ?b
      \<and> shape ?mu = [nat (minibatch_size ?b), act_dim ?b] \<and> well_shaped ?mu
      \<and> shape ?sigma = [nat (minibatch_size ?b), act_dim ?b] \<and> well_shaped ?sigma"
    using wf_view_prepare_training [OF wf_example_grid]
    by (simp add: b example_grid_dims len_def well_shaped_def)
  from t [THEN conjunct1, rule_format, OF h1]
  have 1: "update_mu_sigma (after example_grid ?cs) ?mu ?sigma
      = (Inl AttributeError, after example_grid ?cs)" .
  from t [THEN conjunct2, rule_format, OF h2] obtain dd dd' sd' where
    dd: "data_dict ?b = Some dd"
    and u: "update_mu_sigma (snd (getitem ?b 1)) ?mu ?sigma
        = (Inr (), ?b\<lparr>last_range := Some (1 * minibatch_size ?b, (1 + 1) * minibatch_size ?b),
                       data_dict := Some dd', storage_dict := sd'\<rparr>)"
    and o: "\<forall>name. name \<noteq> ''mus'' \<and> name \<noteq> ''sigmas'' \<longrightarrow> map_of dd' name = map_of dd name"
    and vm: "\<forall>j. viewed dd' ''mus'' j
          = (if nat (1 * minibatch_size ?b) \<le> j \<and> j < nat ((1 + 1) * minibatch_size ?b)
             then map Some (block (act_dim ?b) (j - nat (1 * minibatch_size ?b)) (elems ?mu))
             else viewed dd ''mus'' j)"
    and vs: "\<forall>j. viewed dd' ''sigmas'' j
          = (if nat (1 * minibatch_size ?b) \<le> j \<and> j < nat ((1 + 1) * minibatch_size ?b)
             then map Some (block (act_dim ?b) (j - nat (1 * minibatch_size ?b)) (elems ?sigma))
             else viewed dd ''sigmas'' j)"
    by (elim exE conjE) (rule that)
  have m: "minibatch_size ?b = 2" "act_dim ?b = 1" by (simp_all add: b example_grid_dims)
  have u': "update_mu_sigma (snd (getitem ?b 1)) ?mu ?sigma
      = (Inr (), ?b\<lparr>last_range := Some (2, 4), data_dict := Some dd', storage_dict := sd'\<rparr>)"
    using u by (simp only: m) simp
  have s: "viewed dd' ''mus'' 2 = [Some 5]" "viewed dd' ''mus'' 3 = [Some 6]"
    "viewed dd' ''sigmas'' 2 = [Some 7]" "viewed dd' ''sigmas'' 3 = [Some 8]"
    "viewed dd' ''mus'' 0 = viewed dd ''mus'' 0" "viewed dd' ''sigmas'' 1 = viewed dd ''sigmas'' 1"
    using vm [rule_format, of 2] vm [rule_format, of 3] vs [rule_format, of 2]
      vs [rule_format, of 3] vm [rule_format, of 0] vs [rule_format, of 1]
    by (simp_all add: m block_def)
  have v: "map_of dd' ''values'' = map_of dd ''values''"
    using o [rule_format, of "''values''"] by simp
  from dd u' s v have "\<exists>dd dd' sd'. data_dict ?b = Some dd
      \<and> update_mu_sigma (snd (getitem ?b 1)) ?mu ?sigma
         = (Inr (), ?b\<lparr>last_range := Some (2, 4), data_dict := Some dd', storage_dict := sd'\<rparr>)
      \<and> viewed dd' ''mus'' 2 = [Some 5] \<and> viewed dd' ''mus'' 3 = [Some 6]
      \<and> viewed dd' ''sigmas'' 2 = [Some 7] \<and> viewed dd' ''sigmas'' 3 = [Some 8]
      \<and> viewed dd' ''mus'' 0 = viewed dd ''mus'' 0
      \<and> viewed dd' ''sigmas'' 1 = viewed dd ''sigmas'' 1
      \<and> map_of dd' ''values'' = map_of dd ''values''"
    by (intro exI [of _ dd] exI [of _ dd'] exI [of _ sd']) (simp only: simp_thms)
  with h1 1 h2 show ?thesis by (simp only: simp_thms)
qed

section \<open>The normalisation of the advantages\<close>

text \<open>
  C6: on a well-formed buffer \<open>prepare_training\<close> returns, and the \<open>advantages\<close> field of
  the view it builds has one number per flattened sample. With \<open>raw\<close> the list of return
  minus value by flattened sample, both as the view holds them, \<open>mean raw\<close> its mean and
  \<open>std raw\<close> its standard deviation (the unbiased one, which does not exist for a single
  sample), the number for sample \<open>i\<close> is \<open>(raw ! i - mean raw) / (std raw + 1e-8)\<close>. When
  \<open>std raw\<close> exists and is not zero, the stored advantages have mean \<open>0\<close> and standard
  deviation \<open>std raw / (std raw + 1e-8)\<close>, which lies below \<open>1\<close> by less than
  \<open>1e-8 / std raw\<close>. The numbers are real numbers: rounding is not modelled.
\<close>

theorem prepare_training_normalises:
  assumes "wf_buffer b"
  shows "\<exists>dd adv. prepare_training b = (Inr dd, b\<lparr>data_dict := Some dd\<rparr>)
    \<and> map_of dd ''advantages'' = Some adv
    \<and> length (raw_advantages b) = transitions_per_env b * num_envs b
    \<and> (\<forall>i < transitions_per_env b * num_envs b.
          \<exists>r v. viewed dd ''returns'' i = [Some r] \<and> viewed dd ''values'' i = [Some v]
            \<and> raw_advantages b ! i = r - v)
    \<and> shape adv = [transitions_per_env b * num_envs b]
    \<and> elems adv
        = map (\<lambda>x. case (mean (raw_advantages b), std (raw_advantages b)) of
                     (Some m, Some s) \<Rightarrow> Some ((x - m) / (s + 1 / 10 ^ 8))
                   | _ \<Rightarrow> None)
            (raw_advantages b)
    \<and> (\<forall>s. std (raw_advantages b) = Some s \<and> s \<noteq> 0
          \<longrightarrow> (\<exists>xs. elems adv = map Some xs \<and> mean xs = Some 0
                 \<and> std xs = Some (s / (s + 1 / 10 ^ 8))
                 \<and> s / (s + 1 / 10 ^ 8) < 1
                 \<and> 1 - s / (s + 1 / 10 ^ 8) < 1 / 10 ^ 8 / s))"
proof -
  let ?raw = "raw_advantages b"
  let ?c = "1 / 10 ^ 8 :: real"
  let ?adv = "Tensor [transitions_per_env b * num_envs b]
          (map (\<lambda>x. case (mean ?raw, std ?raw) of
                       (Some m, Some s) \<Rightarrow> Some ((x - m) / (s + ?c))
                     | _ \<Rightarrow> None) ?raw)"
  have n: "\<exists>xs. elems ?adv = map Some xs \<and> mean xs = Some 0
                 \<and> std xs = Some (s / (s + ?c)) \<and> s / (s + ?c) < 1
                 \<and> 1 - s / (s + ?c) < ?c / s"
    if s: "std ?raw = Some s" "s \<noteq> 0" for s
  proof -
    let ?m = "sum_list ?raw / real (length ?raw)"
    let ?xs = "map (\<lambda>x. (x - ?m) / (s + ?c)) ?raw"
    from std_Some [OF s(1)] have l: "2 \<le> length ?raw"
      and sq: "s = sqrt (sum_list (map (\<lambda>x. (x - ?m)\<^sup>2) ?raw) / real (length ?raw - 1))"
      by simp_all
    have "0 \<le> sum_list (map (\<lambda>x. (x - ?m)\<^sup>2) ?raw)"
      by (rule sum_list_nonneg) auto
    then have "0 \<le> s" unfolding sq by simp
    with s(2) have pos: "0 < s" by simp
    from l have ne: "?raw \<noteq> []" by auto
    have k: "0 < s + ?c" using pos by simp
    have e: "elems ?adv = map Some ?xs"
      using s(1) by (simp add: mean_Some [OF ne] comp_def)
    have m: "mean ?xs = Some 0"
      using k by (intro mean_scaled ne) simp
    have sd: "std ?xs = Some (s / (s + ?c))"
      using s(1) k by (rule std_scaled)
    have lt: "s / (s + ?c) < 1" using pos by simp
    have "1 - s / (s + ?c) = ?c / (s + ?c)"
      using k by (simp add: field_simps)
    also have "\<dots> < ?c / s"
      using pos by (intro divide_strict_left_mono) simp_all
    finally have "1 - s / (s + ?c) < ?c / s" .
    with e m sd lt show ?thesis by blast
  qed
  have r: "\<exists>r v. viewed (training_view b) ''returns'' i = [Some r]
      \<and> viewed (training_view b) ''values'' i = [Some v] \<and> ?raw ! i = r - v"
    if i: "i < transitions_per_env b * num_envs b" for i
  proof -
    have "(''returns'', [transitions_per_env b, num_envs b, 1]) \<in> set (layout b)"
      "(''values'', [transitions_per_env b, num_envs b, 1]) \<in> set (layout b)"
      by (simp_all add: layout_def Let_def)
    from viewed_scalar [OF assms this(1) i] viewed_scalar [OF assms this(2) i] i
    show ?thesis by (simp add: raw_advantages_def)
  qed
  from prepare_training_ok [OF assms] training_view_advantages [OF assms] n r
  show ?thesis
    by (intro exI [of _ "training_view b"] exI [of _ ?adv]) (simp add: length_raw_advantages)
qed

theorem prepare_training_normalises_witness:
  "wf_buffer example_spread
   \<and> std (raw_advantages example_spread) = Some 2
   \<and> (\<exists>dd adv xs.
        prepare_training example_spread = (Inr dd, example_spread\<lparr>data_dict := Some dd\<rparr>)
      \<and> map_of dd ''advantages'' = Some adv
      \<and> shape adv = [4]
      \<and> elems adv = map Some xs
      \<and> xs = [3 / (2 + 1 / 10 ^ 8), - 1 / (2 + 1 / 10 ^ 8), - 1 / (2 + 1 / 10 ^ 8),
              - 1 / (2 + 1 / 10 ^ 8)]
      \<and> mean xs = Some 0
      \<and> std xs = Some (2 / (2 + 1 / 10 ^ 8)))"
proof -
  let ?b = example_spread
  from prepare_training_normalises [OF wf_example_spread] obtain dd adv where
    p: "prepare_training ?b = (Inr dd, ?b\<lparr>data_dict := Some dd\<rparr>)"
    and a: "map_of dd ''advantages'' = Some adv"
    and l: "length (raw_advantages ?b) = transitions_per_env ?b * num_envs ?b"
    and rv: "\<forall>i < transitions_per_env ?b * num_envs ?b.
          \<exists>r v. viewed dd ''returns'' i = [Some r] \<and> viewed dd ''values'' i = [Some v]
            \<and> raw_advantages ?b ! i = r - v"
    and sh: "shape adv = [transitions_per_env ?b * num_envs ?b]"
    and e: "elems adv
        = map (\<lambda>x. case (mean (raw_advantages ?b), std (raw_advantages ?b)) of
                     (Some m, Some s) \<Rightarrow> Some ((x - m) / (s + 1 / 10 ^ 8))
                   | _ \<Rightarrow> None)
            (raw_advantages ?b)"
    and n: "\<forall>s. std (raw_advantages ?b) = Some s \<and> s \<noteq> 0
          \<longrightarrow> (\<exists>xs. elems adv = map Some xs \<and> mean xs = Some 0
                 \<and> std xs = Some (s / (s + 1 / 10 ^ 8))
                 \<and> s / (s + 1 / 10 ^ 8) < 1
                 \<and> 1 - s / (s + 1 / 10 ^ 8) < 1 / 10 ^ 8 / s)"
    by (elim exE conjE) (rule that)
  from n [rule_format, of 2] example_spread_std obtain xs where
    xs: "elems adv = map Some xs" "mean xs = Some 0" "std xs = Some (2 / (2 + 1 / 10 ^ 8))"
    by auto
  have d: "transitions_per_env ?b * num_envs ?b = 4"
    by (simp add: example_spread_def update_data_attributes example_grid_dims)
  have "elems adv = map Some [3 / (2 + 1 / 10 ^ 8), - 1 / (2 + 1 / 10 ^ 8),
      - 1 / (2 + 1 / 10 ^ 8), - 1 / (2 + 1 / 10 ^ 8)]"
    unfolding e example_spread_std
    by (simp add: example_spread_raw mean_def)
  with xs(1) have "map Some xs = map Some [3 / (2 + 1 / 10 ^ 8), - 1 / (2 + 1 / 10 ^ 8),
      - 1 / (2 + 1 / 10 ^ 8), - 1 / (2 + 1 / 10 ^ 8)]"
    by (simp only:)
  then have "xs = [3 / (2 + 1 / 10 ^ 8), - 1 / (2 + 1 / 10 ^ 8),
      - 1 / (2 + 1 / 10 ^ 8), - 1 / (2 + 1 / 10 ^ 8)]"
    by (rule map_injective) (rule inj_Some)
  with p a sh d xs have "\<exists>dd adv xs.
        prepare_training ?b = (Inr dd, ?b\<lparr>data_dict := Some dd\<rparr>)
      \<and> map_of dd ''advantages'' = Some adv
      \<and> shape adv = [4]
      \<and> elems adv = map Some xs
      \<and> xs = [3 / (2 + 1 / 10 ^ 8), - 1 / (2 + 1 / 10 ^ 8), - 1 / (2 + 1 / 10 ^ 8),
              - 1 / (2 + 1 / 10 ^ 8)]
      \<and> mean xs = Some 0
      \<and> std xs = Some (2 / (2 + 1 / 10 ^ 8))"
    by (intro exI [of _ dd] exI [of _ adv] exI [of _ xs]) (simp only: simp_thms)
  with wf_example_spread example_spread_std show ?thesis by (simp only: simp_thms)
qed

end
